theory Spec2Isabelle
  imports Main
begin

section \<open>JavaScript values used by the stores\<close>

subsection \<open>Template literals over integers\<close>

text \<open>
  \<^verbatim>\<open>`temp_${Date.now()}`\<close> and \<^verbatim>\<open>`${query}_${limit}`\<close> interpolate a number. For an
  integer below \<open>10^21\<close> in magnitude the result is its decimal numeral, with a leading
  minus sign for a negative one. \<^verbatim>\<open>Date.now()\<close> is an integer number of milliseconds.
\<close>

definition digit_char :: "nat \<Rightarrow> char" where
  "digit_char d = char_of (48 + d)"

fun dec_nat :: "nat \<Rightarrow> string" where
  "dec_nat n = (if n < 10 then [digit_char n] else dec_nat (n div 10) @ [digit_char (n mod 10)])"

declare dec_nat.simps [simp del]

definition number_toString :: "int \<Rightarrow> string" where
  "number_toString i = (if i < 0 then CHR ''-'' # dec_nat (nat (- i)) else dec_nat (nat i))"

text \<open>The temporary identifier of every optimistic create: \<^verbatim>\<open>const tempId = `temp_${Date.now()}`\<close>
  (CategoriaStore.create, ClienteStore.create, GastosStore.createGasto,
  TraspasosStore.createTraspaso all have this line); the argument is the clock reading.\<close>

definition tempId :: "int \<Rightarrow> string" where
  "tempId now = ''temp_'' @ number_toString now"

subsection \<open>Truthiness and the \<^verbatim>\<open>||\<close> fallback on optional strings\<close>

text \<open>\<^verbatim>\<open>x || fallback\<close> where \<open>x\<close> is a string or undefined: undefined and the empty string
  are falsy.\<close>

definition or_else :: "string option \<Rightarrow> string \<Rightarrow> string" where
  "or_else x fallback = (case x of None \<Rightarrow> fallback | Some m \<Rightarrow> if m = [] then fallback else m)"

text \<open>The letter i with acute accent of the Spanish messages, as its two UTF-8 bytes.\<close>

definition i_acute :: string where
  "i_acute = [CHR 0xC3, CHR 0xAD]"

subsection \<open>Arrays\<close>

text \<open>\<^verbatim>\<open>Array.prototype.sort(compare)\<close> is a stable sort: an element moves in front of
  another only when the comparator returns a negative number for the pair.\<close>

fun insert_by :: "('a \<Rightarrow> 'a \<Rightarrow> int) \<Rightarrow> 'a \<Rightarrow> 'a list \<Rightarrow> 'a list" where
  "insert_by compare x [] = [x]"
| "insert_by compare x (y # ys) =
     (if compare x y < 0 then x # y # ys else y # insert_by compare x ys)"

definition array_sort :: "('a \<Rightarrow> 'a \<Rightarrow> int) \<Rightarrow> 'a list \<Rightarrow> 'a list" where
  "array_sort compare xs = foldl (\<lambda>sorted x. insert_by compare x sorted) [] xs"

section \<open>The Remote Data Gateway as the stores see it\<close>

text \<open>An error object, reduced to the three properties the stores read from it:
  \<^verbatim>\<open>err.message\<close>, \<^verbatim>\<open>error.userMessage\<close> (added by the error interceptor) and
  \<^verbatim>\<open>err.detail\<close>. A property that is absent is \<open>None\<close>.\<close>

record thrown =
  message :: "string option"
  userMessage :: "string option"
  detail :: "string option"

text \<open>\<^verbatim>\<open>new Error(msg)\<close>\<close>

definition new_Error :: "string \<Rightarrow> thrown" where
  "new_Error msg = \<lparr>message = Some msg, userMessage = None, detail = None\<rparr>"

text \<open>The \<^verbatim>\<open>Result<T>\<close> envelope: \<^verbatim>\<open>response.isSuccess\<close>, \<^verbatim>\<open>response.value\<close> (of the
  declared type \<open>T\<close>) and \<^verbatim>\<open>response.error?.message\<close>.\<close>

record 'v result =
  isSuccess :: bool
  value' :: 'v
  error_message :: "string option"

text \<open>What an observable of the Gateway does once subscribed: it emits a value or it
  errors (\<^verbatim>\<open>firstValueFrom\<close> then rejects with the error object).\<close>

datatype 'a observed = Next 'a | Error thrown

text \<open>How an \<^verbatim>\<open>async\<close> method ends: its promise resolves with the returned value, or the
  method throws and the promise rejects.\<close>

datatype 'a promise = Resolved 'a | Rejected thrown

text \<open>The page a paginated fetch returns: \<^verbatim>\<open>response.items\<close>, \<^verbatim>\<open>response.totalCount\<close>.\<close>

record 'r page =
  items :: "'r list"
  totalCount :: int

text \<open>The value of a \<^verbatim>\<open>getRecent\<close> envelope: an array, or an object whose \<^verbatim>\<open>items\<close>
  may be absent. \<^verbatim>\<open>Array.isArray(v) ? v : (v as any).items || []\<close>\<close>

datatype 'r recent_value = Array "'r list" | Paged "'r list option"

definition recent_items :: "'r recent_value \<Rightarrow> 'r list" where
  "recent_items v = (case v of Array xs \<Rightarrow> xs | Paged None \<Rightarrow> [] | Paged (Some xs) \<Rightarrow> xs)"

section \<open>CategoriaStore (categoria.store.ts)\<close>

text \<open>A Categoria, with the fields the store gives it (the model file is not part of the
  sources); \<^verbatim>\<open>fechaCreacion\<close> is a Date, kept as its millisecond value.\<close>

record categoria =
  id' :: string
  nombre :: string
  descripcion :: string
  fechaCreacion :: int
  usuarioId :: string

text \<open>\<^verbatim>\<open>Partial<Categoria>\<close>: every field may be absent.\<close>

record categoria_partial =
  id' :: "string option"
  nombre :: "string option"
  descripcion :: "string option"
  fechaCreacion :: "int option"
  usuarioId :: "string option"

definition override :: "'a \<Rightarrow> 'a option \<Rightarrow> 'a" where
  "override old new = (case new of None \<Rightarrow> old | Some v \<Rightarrow> v)"

text \<open>\<^verbatim>\<open>{ ...c, ...categoria }\<close>\<close>

definition spread_categoria :: "categoria \<Rightarrow> categoria_partial \<Rightarrow> categoria" where
  "spread_categoria c p =
     \<lparr>categoria.id' = override (categoria.id' c) (categoria_partial.id' p),
      categoria.nombre = override (categoria.nombre c) (categoria_partial.nombre p),
      categoria.descripcion = override (categoria.descripcion c) (categoria_partial.descripcion p),
      categoria.fechaCreacion = override (categoria.fechaCreacion c) (categoria_partial.fechaCreacion p),
      categoria.usuarioId = override (categoria.usuarioId c) (categoria_partial.usuarioId p)\<rparr>"

record CategoriaState =
  categorias :: "categoria list"
  totalRecords :: int
  loading :: bool
  error :: "string option"
  lastUpdated :: "int option"
  searchCache :: "string \<rightharpoonup> categoria list"

definition CategoriaStore_initialState :: CategoriaState where
  "CategoriaStore_initialState =
     \<lparr>categorias = [], totalRecords = 0, loading = False, error = None,
      lastUpdated = None, searchCache = Map.empty\<rparr>"

subsection \<open>search\<close>

definition cacheKey :: "string \<Rightarrow> int \<Rightarrow> string" where
  "cacheKey query limit = query @ ''_'' @ number_toString limit"

text \<open>Up to the \<^verbatim>\<open>await\<close>: a cache hit returns at once (\<open>Some cached\<close>) and leaves the state
  alone; a miss sets the flags and goes to the Gateway (\<open>None\<close>).\<close>

definition CategoriaStore_search_begin ::
  "string \<Rightarrow> int \<Rightarrow> CategoriaState \<Rightarrow> categoria list option \<times> CategoriaState" where
  "CategoriaStore_search_begin query limit s =
     (case CategoriaState.searchCache s (cacheKey query limit) of
        Some cached \<Rightarrow> (Some cached, s)
      | None \<Rightarrow> (None, s\<lparr>CategoriaState.loading := True, CategoriaState.error := None\<rparr>))"

text \<open>The \<^verbatim>\<open>catch\<close> block of search.\<close>

definition CategoriaStore_search_catch ::
  "thrown \<Rightarrow> CategoriaState \<Rightarrow> categoria list promise \<times> CategoriaState" where
  "CategoriaStore_search_catch err s =
     (Rejected err, s\<lparr>CategoriaState.loading := False, CategoriaState.error := thrown.message err\<rparr>)"

text \<open>After the \<^verbatim>\<open>await\<close>; \<open>now\<close> is \<^verbatim>\<open>Date.now()\<close>. An array is truthy, so
  \<^verbatim>\<open>response.isSuccess && response.value\<close> is \<^verbatim>\<open>response.isSuccess\<close>.\<close>

definition CategoriaStore_search_resume ::
  "string \<Rightarrow> int \<Rightarrow> int \<Rightarrow> categoria list result observed \<Rightarrow> CategoriaState
     \<Rightarrow> categoria list promise \<times> CategoriaState" where
  "CategoriaStore_search_resume query limit now reply s =
     (case reply of
        Next response \<Rightarrow>
          if isSuccess response
          then (Resolved (value' response),
                s\<lparr>CategoriaState.loading := False,
                  CategoriaState.searchCache :=
                    (CategoriaState.searchCache s)(cacheKey query limit \<mapsto> value' response),
                  CategoriaState.lastUpdated := Some now\<rparr>)
          else CategoriaStore_search_catch
                 (new_Error (or_else (error_message response)
                    (''Error al buscar categor'' @ i_acute @ ''as''))) s
      | Error err \<Rightarrow> CategoriaStore_search_catch err s)"

text \<open>The whole call when nothing else touches the store during the \<^verbatim>\<open>await\<close>.\<close>

definition CategoriaStore_search ::
  "string \<Rightarrow> int \<Rightarrow> int \<Rightarrow> categoria list result observed \<Rightarrow> CategoriaState
     \<Rightarrow> categoria list promise \<times> CategoriaState" where
  "CategoriaStore_search query limit now reply s =
     (case CategoriaStore_search_begin query limit s of
        (Some cached, s') \<Rightarrow> (Resolved cached, s')
      | (None, s') \<Rightarrow> CategoriaStore_search_resume query limit now reply s')"

subsection \<open>create\<close>

text \<open>Up to the \<^verbatim>\<open>await\<close>; \<open>now\<close> is \<^verbatim>\<open>Date.now()\<close>, \<open>date\<close> is \<^verbatim>\<open>new Date()\<close>.\<close>

definition CategoriaStore_create_begin ::
  "int \<Rightarrow> int \<Rightarrow> string \<Rightarrow> CategoriaState \<Rightarrow> CategoriaState" where
  "CategoriaStore_create_begin now date nom s =
     s\<lparr>CategoriaState.categorias := CategoriaState.categorias s @
          [\<lparr>categoria.id' = tempId now, categoria.nombre = nom, categoria.descripcion = '''',
            categoria.fechaCreacion = date, categoria.usuarioId = ''''\<rparr>],
       CategoriaState.loading := True,
       CategoriaState.error := None\<rparr>"

definition CategoriaStore_create_catch ::
  "string \<Rightarrow> thrown \<Rightarrow> CategoriaState \<Rightarrow> string promise \<times> CategoriaState" where
  "CategoriaStore_create_catch tid err s =
     (Rejected err,
      s\<lparr>CategoriaState.categorias := filter (\<lambda>c. categoria.id' c \<noteq> tid) (CategoriaState.categorias s),
        CategoriaState.loading := False,
        CategoriaState.error := thrown.message err\<rparr>)"

text \<open>After the \<^verbatim>\<open>await\<close>, with \<open>tid\<close> the \<^verbatim>\<open>tempId\<close> of the first half; \<open>date\<close> is \<^verbatim>\<open>new Date()\<close>
  and \<open>now\<close> is \<^verbatim>\<open>Date.now()\<close>, both read at the response. A string is truthy when it is
  not empty.\<close>

definition CategoriaStore_create_resume ::
  "string \<Rightarrow> string \<Rightarrow> int \<Rightarrow> int \<Rightarrow> string result observed \<Rightarrow> CategoriaState
     \<Rightarrow> string promise \<times> CategoriaState" where
  "CategoriaStore_create_resume tid nom date now reply s =
     (case reply of
        Next response \<Rightarrow>
          if isSuccess response \<and> value' response \<noteq> []
          then (Resolved (value' response),
                s\<lparr>CategoriaState.categorias :=
                    map (\<lambda>c. if categoria.id' c = tid
                              then \<lparr>categoria.id' = value' response, categoria.nombre = nom,
                                    categoria.descripcion = '''', categoria.fechaCreacion = date,
                                    categoria.usuarioId = ''''\<rparr>
                              else c)
                      (CategoriaState.categorias s),
                  CategoriaState.loading := False,
                  CategoriaState.lastUpdated := Some now,
                  CategoriaState.searchCache := Map.empty\<rparr>)
          else CategoriaStore_create_catch tid
                 (new_Error (or_else (error_message response)
                    (''Error al crear categor'' @ i_acute @ ''a''))) s
      | Error err \<Rightarrow> CategoriaStore_create_catch tid err s)"

text \<open>The whole call when nothing else touches the store during the \<^verbatim>\<open>await\<close>: \<open>now\<close> and
  \<open>date\<close> are the clock readings before the call, \<open>date'\<close> and \<open>now'\<close> those at the response.\<close>

definition CategoriaStore_create ::
  "int \<Rightarrow> int \<Rightarrow> string \<Rightarrow> int \<Rightarrow> int \<Rightarrow> string result observed \<Rightarrow> CategoriaState
     \<Rightarrow> string promise \<times> CategoriaState" where
  "CategoriaStore_create now date nom date' now' reply s =
     CategoriaStore_create_resume (tempId now) nom date' now' reply
       (CategoriaStore_create_begin now date nom s)"

subsection \<open>getRecent\<close>

definition CategoriaStore_getRecent_begin :: "CategoriaState \<Rightarrow> CategoriaState" where
  "CategoriaStore_getRecent_begin s = s\<lparr>CategoriaState.loading := True\<rparr>"

definition CategoriaStore_getRecent_catch ::
  "thrown \<Rightarrow> CategoriaState \<Rightarrow> categoria list promise \<times> CategoriaState" where
  "CategoriaStore_getRecent_catch err s = (Rejected err, s\<lparr>CategoriaState.loading := False\<rparr>)"

text \<open>An array and an object are both truthy.\<close>

definition CategoriaStore_getRecent_resume ::
  "categoria recent_value result observed \<Rightarrow> CategoriaState
     \<Rightarrow> categoria list promise \<times> CategoriaState" where
  "CategoriaStore_getRecent_resume reply s =
     (case reply of
        Next response \<Rightarrow>
          if isSuccess response
          then (Resolved (recent_items (value' response)), s\<lparr>CategoriaState.loading := False\<rparr>)
          else CategoriaStore_getRecent_catch
                 (new_Error (or_else (error_message response)
                    (''Error al cargar categor'' @ i_acute @ ''as recientes''))) s
      | Error err \<Rightarrow> CategoriaStore_getRecent_catch err s)"

definition CategoriaStore_getRecent ::
  "categoria recent_value result observed \<Rightarrow> CategoriaState
     \<Rightarrow> categoria list promise \<times> CategoriaState" where
  "CategoriaStore_getRecent reply s =
     CategoriaStore_getRecent_resume reply (CategoriaStore_getRecent_begin s)"

subsection \<open>loadCategoriasPaginated\<close>

text \<open>The three callbacks of the pipeline: the \<^verbatim>\<open>tap\<close> that runs when the method is called,
  and the \<^verbatim>\<open>next\<close> and \<^verbatim>\<open>error\<close> handlers of \<^verbatim>\<open>tapResponse\<close>, which run when the
  request of the current subscription answers.\<close>

definition CategoriaStore_loadCategoriasPaginated_tap :: "CategoriaState \<Rightarrow> CategoriaState" where
  "CategoriaStore_loadCategoriasPaginated_tap s =
     s\<lparr>CategoriaState.loading := True, CategoriaState.error := None\<rparr>"

definition CategoriaStore_loadCategoriasPaginated_next ::
  "int \<Rightarrow> categoria page \<Rightarrow> CategoriaState \<Rightarrow> CategoriaState" where
  "CategoriaStore_loadCategoriasPaginated_next now response s =
     s\<lparr>CategoriaState.categorias := items response,
       CategoriaState.totalRecords := totalCount response,
       CategoriaState.loading := False,
       CategoriaState.error := None,
       CategoriaState.lastUpdated := Some now,
       CategoriaState.searchCache := Map.empty\<rparr>"

definition CategoriaStore_loadCategoriasPaginated_error ::
  "thrown \<Rightarrow> CategoriaState \<Rightarrow> CategoriaState" where
  "CategoriaStore_loadCategoriasPaginated_error err s =
     s\<lparr>CategoriaState.loading := False,
       CategoriaState.error :=
         Some (or_else (userMessage err) (''Error al cargar categor'' @ i_acute @ ''as''))\<rparr>"

text \<open>One call whose request answers while its subscription is still the current one.\<close>

definition CategoriaStore_loadCategoriasPaginated ::
  "int \<Rightarrow> categoria page observed \<Rightarrow> CategoriaState \<Rightarrow> CategoriaState" where
  "CategoriaStore_loadCategoriasPaginated now reply s =
     (case reply of
        Next response \<Rightarrow>
          CategoriaStore_loadCategoriasPaginated_next now response
            (CategoriaStore_loadCategoriasPaginated_tap s)
      | Error err \<Rightarrow>
          CategoriaStore_loadCategoriasPaginated_error err
            (CategoriaStore_loadCategoriasPaginated_tap s))"

subsection \<open>deleteCategoria\<close>

text \<open>The \<^verbatim>\<open>tap\<close> runs first and removes the record.\<close>

definition CategoriaStore_deleteCategoria_tap :: "string \<Rightarrow> CategoriaState \<Rightarrow> CategoriaState" where
  "CategoriaStore_deleteCategoria_tap ident s =
     s\<lparr>CategoriaState.categorias := filter (\<lambda>c. categoria.id' c \<noteq> ident) (CategoriaState.categorias s),
       CategoriaState.totalRecords := CategoriaState.totalRecords s - 1,
       CategoriaState.searchCache := Map.empty\<rparr>"

text \<open>The \<^verbatim>\<open>switchMap\<close> projection runs next, on the state the \<^verbatim>\<open>tap\<close> left:
  \<^verbatim>\<open>categoriaEliminada\<close> is the \<^verbatim>\<open>find\<close>, or else the \<^verbatim>\<open>find\<close> on a copy of the same array,
  and \<^verbatim>\<open>totalAnterior\<close> is \<^verbatim>\<open>store.totalRecords()\<close>.\<close>

definition CategoriaStore_deleteCategoria_capture ::
  "string \<Rightarrow> CategoriaState \<Rightarrow> categoria option \<times> int" where
  "CategoriaStore_deleteCategoria_capture ident s =
     (case find (\<lambda>c. categoria.id' c = ident) (CategoriaState.categorias s) of
        Some c \<Rightarrow> Some c
      | None \<Rightarrow> find (\<lambda>c. categoria.id' c = ident) (CategoriaState.categorias s),
      CategoriaState.totalRecords s)"

definition CategoriaStore_deleteCategoria_next :: "int \<Rightarrow> CategoriaState \<Rightarrow> CategoriaState" where
  "CategoriaStore_deleteCategoria_next now s = s\<lparr>CategoriaState.lastUpdated := Some now\<rparr>"

text \<open>The \<^verbatim>\<open>error\<close> handler, with the two captured values; \<open>localeCompare\<close> is
  \<^verbatim>\<open>String.prototype.localeCompare\<close> of the runtime.\<close>

definition CategoriaStore_deleteCategoria_error ::
  "(string \<Rightarrow> string \<Rightarrow> int) \<Rightarrow> categoria option \<Rightarrow> int \<Rightarrow> thrown \<Rightarrow> CategoriaState
     \<Rightarrow> CategoriaState" where
  "CategoriaStore_deleteCategoria_error localeCompare categoriaEliminada totalAnterior err s =
     (case categoriaEliminada of
        Some c \<Rightarrow>
          s\<lparr>CategoriaState.categorias :=
              array_sort (\<lambda>a b. localeCompare (categoria.nombre a) (categoria.nombre b))
                (CategoriaState.categorias s @ [c]),
            CategoriaState.totalRecords := totalAnterior,
            CategoriaState.error :=
              Some (or_else (detail err) (''Error al eliminar categor'' @ i_acute @ ''a''))\<rparr>
      | None \<Rightarrow>
          s\<lparr>CategoriaState.error :=
              Some (or_else (detail err) (''Error al eliminar categor'' @ i_acute @ ''a''))\<rparr>)"

text \<open>One call whose request answers while its subscription is still the current one and
  nothing else touches the store in between.\<close>

definition CategoriaStore_deleteCategoria ::
  "(string \<Rightarrow> string \<Rightarrow> int) \<Rightarrow> string \<Rightarrow> int \<Rightarrow> unit observed \<Rightarrow> CategoriaState
     \<Rightarrow> CategoriaState" where
  "CategoriaStore_deleteCategoria localeCompare ident now reply s =
     (let s1 = CategoriaStore_deleteCategoria_tap ident s;
          (categoriaEliminada, totalAnterior) = CategoriaStore_deleteCategoria_capture ident s1
      in case reply of
           Next u \<Rightarrow> CategoriaStore_deleteCategoria_next now s1
         | Error err \<Rightarrow>
             CategoriaStore_deleteCategoria_error localeCompare categoriaEliminada totalAnterior err s1)"

subsection \<open>update\<close>

text \<open>Up to the \<^verbatim>\<open>await\<close>: the captured \<^verbatim>\<open>categoriaAnterior\<close> and the state.\<close>

definition CategoriaStore_update_begin ::
  "string \<Rightarrow> categoria_partial \<Rightarrow> CategoriaState \<Rightarrow> categoria option \<times> CategoriaState" where
  "CategoriaStore_update_begin ident p s =
     (let categoriaAnterior = find (\<lambda>c. categoria.id' c = ident) (CategoriaState.categorias s)
      in (categoriaAnterior,
          case categoriaAnterior of
            Some old \<Rightarrow>
              s\<lparr>CategoriaState.categorias :=
                  map (\<lambda>c. if categoria.id' c = ident then spread_categoria c p else c)
                    (CategoriaState.categorias s),
                CategoriaState.loading := True,
                CategoriaState.error := None\<rparr>
          | None \<Rightarrow> s))"

definition CategoriaStore_update_catch ::
  "string \<Rightarrow> categoria option \<Rightarrow> thrown \<Rightarrow> CategoriaState \<Rightarrow> string promise \<times> CategoriaState" where
  "CategoriaStore_update_catch ident categoriaAnterior err s =
     (let s1 = (case categoriaAnterior of
                  Some old \<Rightarrow>
                    s\<lparr>CategoriaState.categorias :=
                        map (\<lambda>c. if categoria.id' c = ident then old else c)
                          (CategoriaState.categorias s)\<rparr>
                | None \<Rightarrow> s)
      in (Rejected err,
          s1\<lparr>CategoriaState.loading := False, CategoriaState.error := thrown.message err\<rparr>))"

definition CategoriaStore_update_resume ::
  "string \<Rightarrow> categoria option \<Rightarrow> int \<Rightarrow> string result observed \<Rightarrow> CategoriaState
     \<Rightarrow> string promise \<times> CategoriaState" where
  "CategoriaStore_update_resume ident categoriaAnterior now reply s =
     (case reply of
        Next response \<Rightarrow>
          if isSuccess response
          then (Resolved (value' response),
                s\<lparr>CategoriaState.loading := False,
                  CategoriaState.lastUpdated := Some now,
                  CategoriaState.searchCache := Map.empty\<rparr>)
          else CategoriaStore_update_catch ident categoriaAnterior
                 (new_Error (or_else (error_message response)
                    (''Error al actualizar categor'' @ i_acute @ ''a''))) s
      | Error err \<Rightarrow> CategoriaStore_update_catch ident categoriaAnterior err s)"

text \<open>The whole call when nothing else touches the store during the \<^verbatim>\<open>await\<close>.\<close>

definition CategoriaStore_update ::
  "string \<Rightarrow> categoria_partial \<Rightarrow> int \<Rightarrow> string result observed \<Rightarrow> CategoriaState
     \<Rightarrow> string promise \<times> CategoriaState" where
  "CategoriaStore_update ident p now reply s =
     (case CategoriaStore_update_begin ident p s of
        (categoriaAnterior, s1) \<Rightarrow> CategoriaStore_update_resume ident categoriaAnterior now reply s1)"

subsection \<open>clearError\<close>

definition CategoriaStore_clearError :: "CategoriaState \<Rightarrow> CategoriaState" where
  "CategoriaStore_clearError s = s\<lparr>CategoriaState.error := None\<rparr>"

section \<open>ClienteStore (cliente.store.ts)\<close>

record cliente =
  id' :: string
  nombre :: string
  fechaCreacion :: int
  usuarioId :: string

text \<open>\<^verbatim>\<open>Partial<Cliente>\<close>\<close>

record cliente_partial =
  id' :: "string option"
  nombre :: "string option"
  fechaCreacion :: "int option"
  usuarioId :: "string option"

text \<open>\<^verbatim>\<open>{ ...c, ...cliente }\<close>\<close>

definition spread_cliente :: "cliente \<Rightarrow> cliente_partial \<Rightarrow> cliente" where
  "spread_cliente c p =
     \<lparr>cliente.id' = override (cliente.id' c) (cliente_partial.id' p),
      cliente.nombre = override (cliente.nombre c) (cliente_partial.nombre p),
      cliente.fechaCreacion = override (cliente.fechaCreacion c) (cliente_partial.fechaCreacion p),
      cliente.usuarioId = override (cliente.usuarioId c) (cliente_partial.usuarioId p)\<rparr>"

record ClienteState =
  clientes :: "cliente list"
  totalRecords :: int
  loading :: bool
  error :: "string option"
  lastUpdated :: "int option"
  searchCache :: "string \<rightharpoonup> cliente list"

definition ClienteStore_initialState :: ClienteState where
  "ClienteStore_initialState =
     \<lparr>clientes = [], totalRecords = 0, loading = False, error = None,
      lastUpdated = None, searchCache = Map.empty\<rparr>"

subsection \<open>create\<close>

definition ClienteStore_create_begin ::
  "int \<Rightarrow> int \<Rightarrow> string \<Rightarrow> ClienteState \<Rightarrow> ClienteState" where
  "ClienteStore_create_begin now date nom s =
     s\<lparr>ClienteState.clientes := ClienteState.clientes s @
          [\<lparr>cliente.id' = tempId now, cliente.nombre = nom,
            cliente.fechaCreacion = date, cliente.usuarioId = ''''\<rparr>],
       ClienteState.loading := True,
       ClienteState.error := None\<rparr>"

text \<open>The \<^verbatim>\<open>catch\<close> block, commented \<^verbatim>\<open>ROLLBACK: Eliminar cliente temporal y restaurar totalRecords\<close>.\<close>

definition ClienteStore_create_catch ::
  "string \<Rightarrow> thrown \<Rightarrow> ClienteState \<Rightarrow> string promise \<times> ClienteState" where
  "ClienteStore_create_catch tid err s =
     (Rejected err,
      s\<lparr>ClienteState.clientes := filter (\<lambda>c. cliente.id' c \<noteq> tid) (ClienteState.clientes s),
        ClienteState.totalRecords := ClienteState.totalRecords s - 1,
        ClienteState.loading := False,
        ClienteState.error := thrown.message err,
        ClienteState.searchCache := Map.empty\<rparr>)"

definition ClienteStore_create_resume ::
  "string \<Rightarrow> string \<Rightarrow> int \<Rightarrow> int \<Rightarrow> string result observed \<Rightarrow> ClienteState
     \<Rightarrow> string promise \<times> ClienteState" where
  "ClienteStore_create_resume tid nom date now reply s =
     (case reply of
        Next response \<Rightarrow>
          if isSuccess response
          then (Resolved (value' response),
                s\<lparr>ClienteState.clientes :=
                    map (\<lambda>c. if cliente.id' c = tid
                              then \<lparr>cliente.id' = value' response, cliente.nombre = nom,
                                    cliente.fechaCreacion = date, cliente.usuarioId = ''''\<rparr>
                              else c)
                      (ClienteState.clientes s),
                  ClienteState.loading := False,
                  ClienteState.lastUpdated := Some now,
                  ClienteState.searchCache := Map.empty\<rparr>)
          else ClienteStore_create_catch tid
                 (new_Error (or_else (error_message response) ''Error al crear cliente'')) s
      | Error err \<Rightarrow> ClienteStore_create_catch tid err s)"

definition ClienteStore_create ::
  "int \<Rightarrow> int \<Rightarrow> string \<Rightarrow> int \<Rightarrow> int \<Rightarrow> string result observed \<Rightarrow> ClienteState
     \<Rightarrow> string promise \<times> ClienteState" where
  "ClienteStore_create now date nom date' now' reply s =
     ClienteStore_create_resume (tempId now) nom date' now' reply
       (ClienteStore_create_begin now date nom s)"

subsection \<open>update\<close>

definition ClienteStore_update_begin ::
  "string \<Rightarrow> cliente_partial \<Rightarrow> ClienteState \<Rightarrow> cliente option \<times> ClienteState" where
  "ClienteStore_update_begin ident p s =
     (let clienteAnterior = find (\<lambda>c. cliente.id' c = ident) (ClienteState.clientes s)
      in (clienteAnterior,
          case clienteAnterior of
            Some old \<Rightarrow>
              s\<lparr>ClienteState.clientes :=
                  map (\<lambda>c. if cliente.id' c = ident then spread_cliente c p else c)
                    (ClienteState.clientes s),
                ClienteState.loading := True,
                ClienteState.error := None\<rparr>
          | None \<Rightarrow> s))"

definition ClienteStore_update_catch ::
  "string \<Rightarrow> cliente option \<Rightarrow> thrown \<Rightarrow> ClienteState \<Rightarrow> string promise \<times> ClienteState" where
  "ClienteStore_update_catch ident clienteAnterior err s =
     (Rejected err,
      case clienteAnterior of
        Some old \<Rightarrow>
          s\<lparr>ClienteState.clientes :=
              map (\<lambda>c. if cliente.id' c = ident then old else c) (ClienteState.clientes s),
            ClienteState.loading := False,
            ClienteState.error := thrown.message err,
            ClienteState.searchCache := Map.empty\<rparr>
      | None \<Rightarrow>
          s\<lparr>ClienteState.loading := False, ClienteState.error := thrown.message err\<rparr>)"

definition ClienteStore_update_resume ::
  "string \<Rightarrow> cliente option \<Rightarrow> int \<Rightarrow> string result observed \<Rightarrow> ClienteState
     \<Rightarrow> string promise \<times> ClienteState" where
  "ClienteStore_update_resume ident clienteAnterior now reply s =
     (case reply of
        Next response \<Rightarrow>
          if isSuccess response
          then (Resolved (value' response),
                s\<lparr>ClienteState.loading := False,
                  ClienteState.lastUpdated := Some now,
                  ClienteState.searchCache := Map.empty\<rparr>)
          else ClienteStore_update_catch ident clienteAnterior
                 (new_Error (or_else (error_message response) ''Error al actualizar cliente'')) s
      | Error err \<Rightarrow> ClienteStore_update_catch ident clienteAnterior err s)"

definition ClienteStore_update ::
  "string \<Rightarrow> cliente_partial \<Rightarrow> int \<Rightarrow> string result observed \<Rightarrow> ClienteState
     \<Rightarrow> string promise \<times> ClienteState" where
  "ClienteStore_update ident p now reply s =
     (case ClienteStore_update_begin ident p s of
        (clienteAnterior, s1) \<Rightarrow> ClienteStore_update_resume ident clienteAnterior now reply s1)"

subsection \<open>deleteCliente\<close>

text \<open>Here the \<^verbatim>\<open>switchMap\<close> projection does everything before the request: it captures
  \<^verbatim>\<open>clienteEliminado\<close> and \<^verbatim>\<open>totalAnterior\<close> first (\<^verbatim>\<open>Guardar cliente para rollback ANTES de
  eliminarlo\<close>) and removes the record after that.\<close>

definition ClienteStore_deleteCliente_project ::
  "string \<Rightarrow> ClienteState \<Rightarrow> (cliente option \<times> int) \<times> ClienteState" where
  "ClienteStore_deleteCliente_project ident s =
     (let clienteEliminado = find (\<lambda>c. cliente.id' c = ident) (ClienteState.clientes s);
          totalAnterior = ClienteState.totalRecords s
      in ((clienteEliminado, totalAnterior),
          s\<lparr>ClienteState.clientes := filter (\<lambda>c. cliente.id' c \<noteq> ident) (ClienteState.clientes s),
            ClienteState.totalRecords := ClienteState.totalRecords s - 1,
            ClienteState.searchCache := Map.empty\<rparr>))"

definition ClienteStore_deleteCliente_next :: "int \<Rightarrow> ClienteState \<Rightarrow> ClienteState" where
  "ClienteStore_deleteCliente_next now s = s\<lparr>ClienteState.lastUpdated := Some now\<rparr>"

definition ClienteStore_deleteCliente_error ::
  "(string \<Rightarrow> string \<Rightarrow> int) \<Rightarrow> cliente option \<Rightarrow> int \<Rightarrow> thrown \<Rightarrow> ClienteState
     \<Rightarrow> ClienteState" where
  "ClienteStore_deleteCliente_error localeCompare clienteEliminado totalAnterior err s =
     (case clienteEliminado of
        Some c \<Rightarrow>
          s\<lparr>ClienteState.clientes :=
              array_sort (\<lambda>a b. localeCompare (cliente.nombre a) (cliente.nombre b))
                (ClienteState.clientes s @ [c]),
            ClienteState.totalRecords := totalAnterior,
            ClienteState.error := Some (or_else (detail err) ''Error al eliminar cliente'')\<rparr>
      | None \<Rightarrow>
          s\<lparr>ClienteState.error := Some (or_else (detail err) ''Error al eliminar cliente'')\<rparr>)"

definition ClienteStore_deleteCliente ::
  "(string \<Rightarrow> string \<Rightarrow> int) \<Rightarrow> string \<Rightarrow> int \<Rightarrow> unit observed \<Rightarrow> ClienteState
     \<Rightarrow> ClienteState" where
  "ClienteStore_deleteCliente localeCompare ident now reply s =
     (case ClienteStore_deleteCliente_project ident s of
        ((clienteEliminado, totalAnterior), s1) \<Rightarrow>
          (case reply of
             Next u \<Rightarrow> ClienteStore_deleteCliente_next now s1
           | Error err \<Rightarrow>
               ClienteStore_deleteCliente_error localeCompare clienteEliminado totalAnterior err s1))"

section \<open>GastosStore\<close>

text \<open>A Gasto with the fields \<^verbatim>\<open>createGasto\<close> writes; \<open>'n\<close> is the type of \<^verbatim>\<open>importe\<close>, a
  JavaScript number the store only copies.\<close>

record 'n gasto =
  id' :: string
  conceptoId :: string
  conceptoNombre :: string
  categoriaId :: string
  categoriaNombre :: string
  proveedorId :: string
  proveedorNombre :: string
  personaId :: string
  personaNombre :: string
  cuentaId :: string
  cuentaNombre :: string
  formaPagoId :: string
  formaPagoNombre :: string
  importe :: 'n
  fecha :: string
  descripcion :: string
  usuarioId :: string

text \<open>\<^verbatim>\<open>GastoCreate\<close>: what is sent to the backend.\<close>

record 'n gasto_create =
  conceptoId :: string
  categoriaId :: string
  proveedorId :: string
  personaId :: string
  cuentaId :: string
  formaPagoId :: string
  importe :: 'n
  fecha :: string
  descripcion :: string

text \<open>The collections of the six injected stores, each entry an \<open>(id, nombre)\<close> pair.\<close>

record sibling_stores =
  conceptos :: "(string \<times> string) list"
  categorias_of_store :: "(string \<times> string) list"
  proveedores :: "(string \<times> string) list"
  personas :: "(string \<times> string) list"
  cuentas :: "(string \<times> string) list"
  formasPago :: "(string \<times> string) list"

text \<open>\<^verbatim>\<open>xs.find(c => c.id === ident)?.nombre || ''\<close>\<close>

definition nombre_of :: "(string \<times> string) list \<Rightarrow> string \<Rightarrow> string" where
  "nombre_of xs ident = or_else (map_option snd (find (\<lambda>c. fst c = ident) xs)) ''''"

record gastos_filters =
  fechaInicio :: string
  fechaFin :: string
  categoria_filter :: string
  searchTerm :: string
  sortColumn :: string
  sortOrder :: string

record 'n GastosState =
  gastos :: "'n gasto list"
  selectedGasto :: "'n gasto option"
  loading :: bool
  error :: "string option"
  totalGastos :: int
  totalRecords :: int
  lastUpdated :: "int option"
  searchCache :: "string \<rightharpoonup> 'n gasto list"
  filters :: gastos_filters

definition GastosStore_initialState :: "'n GastosState" where
  "GastosStore_initialState =
     \<lparr>gastos = [], selectedGasto = None, loading = False, error = None, totalGastos = 0,
      totalRecords = 0, lastUpdated = None, searchCache = Map.empty,
      filters = \<lparr>fechaInicio = '''', fechaFin = '''', categoria_filter = '''',
                 searchTerm = '''', sortColumn = '''', sortOrder = ''''\<rparr>\<rparr>"

subsection \<open>loadGastosPaginated\<close>

definition GastosStore_loadGastosPaginated_tap :: "'n GastosState \<Rightarrow> 'n GastosState" where
  "GastosStore_loadGastosPaginated_tap s =
     s\<lparr>GastosState.loading := True, GastosState.error := None\<rparr>"

definition GastosStore_loadGastosPaginated_next ::
  "int \<Rightarrow> 'n gasto page \<Rightarrow> 'n GastosState \<Rightarrow> 'n GastosState" where
  "GastosStore_loadGastosPaginated_next now response s =
     s\<lparr>GastosState.gastos := items response,
       GastosState.totalRecords := totalCount response,
       GastosState.loading := False,
       GastosState.error := None,
       GastosState.lastUpdated := Some now,
       GastosState.searchCache := Map.empty\<rparr>"

definition GastosStore_loadGastosPaginated_error ::
  "thrown \<Rightarrow> 'n GastosState \<Rightarrow> 'n GastosState" where
  "GastosStore_loadGastosPaginated_error err s =
     s\<lparr>GastosState.loading := False,
       GastosState.error := Some (or_else (userMessage err) ''Error al cargar gastos'')\<rparr>"

subsection \<open>createGasto\<close>

text \<open>\<^verbatim>\<open>tempGasto\<close>, built from the input and the names found in the injected stores.\<close>

definition tempGasto :: "int \<Rightarrow> sibling_stores \<Rightarrow> 'n gasto_create \<Rightarrow> 'n gasto" where
  "tempGasto now stores g =
     \<lparr>gasto.id' = tempId now,
      gasto.conceptoId = gasto_create.conceptoId g,
      gasto.conceptoNombre = nombre_of (conceptos stores) (gasto_create.conceptoId g),
      gasto.categoriaId = gasto_create.categoriaId g,
      gasto.categoriaNombre = nombre_of (categorias_of_store stores) (gasto_create.categoriaId g),
      gasto.proveedorId = gasto_create.proveedorId g,
      gasto.proveedorNombre = nombre_of (proveedores stores) (gasto_create.proveedorId g),
      gasto.personaId = gasto_create.personaId g,
      gasto.personaNombre = nombre_of (personas stores) (gasto_create.personaId g),
      gasto.cuentaId = gasto_create.cuentaId g,
      gasto.cuentaNombre = nombre_of (cuentas stores) (gasto_create.cuentaId g),
      gasto.formaPagoId = gasto_create.formaPagoId g,
      gasto.formaPagoNombre = nombre_of (formasPago stores) (gasto_create.formaPagoId g),
      gasto.importe = gasto_create.importe g,
      gasto.fecha = gasto_create.fecha g,
      gasto.descripcion = gasto_create.descripcion g,
      gasto.usuarioId = ''''\<rparr>"

text \<open>Up to the \<^verbatim>\<open>await\<close>, with \<open>temp\<close> the \<^verbatim>\<open>tempGasto\<close>.\<close>

definition GastosStore_createGasto_begin :: "'n gasto \<Rightarrow> 'n GastosState \<Rightarrow> 'n GastosState" where
  "GastosStore_createGasto_begin temp s =
     s\<lparr>GastosState.gastos := temp # GastosState.gastos s,
       GastosState.totalRecords := GastosState.totalRecords s + 1,
       GastosState.loading := True,
       GastosState.error := None\<rparr>"

text \<open>After the \<^verbatim>\<open>await\<close>: the Gateway emits the new identifier itself, or errors.\<close>

definition GastosStore_createGasto_resume ::
  "'n gasto \<Rightarrow> int \<Rightarrow> string observed \<Rightarrow> 'n GastosState \<Rightarrow> string promise \<times> 'n GastosState" where
  "GastosStore_createGasto_resume temp now reply s =
     (case reply of
        Next newGastoId \<Rightarrow>
          (Resolved newGastoId,
           s\<lparr>GastosState.gastos :=
               map (\<lambda>g. if gasto.id' g = gasto.id' temp then temp\<lparr>gasto.id' := newGastoId\<rparr> else g)
                 (GastosState.gastos s),
             GastosState.loading := False,
             GastosState.lastUpdated := Some now,
             GastosState.searchCache := Map.empty\<rparr>)
      | Error err \<Rightarrow>
          (Rejected err,
           s\<lparr>GastosState.gastos := filter (\<lambda>g. gasto.id' g \<noteq> gasto.id' temp) (GastosState.gastos s),
             GastosState.totalRecords := GastosState.totalRecords s - 1,
             GastosState.loading := False,
             GastosState.error := Some (or_else (userMessage err) ''Error al crear gasto'')\<rparr>))"

definition GastosStore_createGasto ::
  "int \<Rightarrow> sibling_stores \<Rightarrow> 'n gasto_create \<Rightarrow> int \<Rightarrow> string observed \<Rightarrow> 'n GastosState
     \<Rightarrow> string promise \<times> 'n GastosState" where
  "GastosStore_createGasto now stores g now' reply s =
     GastosStore_createGasto_resume (tempGasto now stores g) now' reply
       (GastosStore_createGasto_begin (tempGasto now stores g) s)"

subsection \<open>deleteGasto\<close>

definition GastosStore_deleteGasto_tap :: "string \<Rightarrow> 'n GastosState \<Rightarrow> 'n GastosState" where
  "GastosStore_deleteGasto_tap ident s =
     s\<lparr>GastosState.gastos := filter (\<lambda>g. gasto.id' g \<noteq> ident) (GastosState.gastos s),
       GastosState.totalRecords := GastosState.totalRecords s - 1,
       GastosState.searchCache := Map.empty\<rparr>"

definition GastosStore_deleteGasto_next :: "int \<Rightarrow> 'n GastosState \<Rightarrow> 'n GastosState" where
  "GastosStore_deleteGasto_next now s = s\<lparr>GastosState.lastUpdated := Some now\<rparr>"

definition GastosStore_deleteGasto_error :: "thrown \<Rightarrow> 'n GastosState \<Rightarrow> 'n GastosState" where
  "GastosStore_deleteGasto_error err s =
     s\<lparr>GastosState.error := Some (or_else (detail err) ''Error al eliminar gasto'')\<rparr>"

text \<open>One call whose request answers while its subscription is still the current one.\<close>

definition GastosStore_deleteGasto ::
  "string \<Rightarrow> int \<Rightarrow> unit observed \<Rightarrow> 'n GastosState \<Rightarrow> 'n GastosState" where
  "GastosStore_deleteGasto ident now reply s =
     (case reply of
        Next u \<Rightarrow> GastosStore_deleteGasto_next now (GastosStore_deleteGasto_tap ident s)
      | Error err \<Rightarrow> GastosStore_deleteGasto_error err (GastosStore_deleteGasto_tap ident s))"

section \<open>IngresosStore\<close>

text \<open>An Ingreso with the fields the store reads.\<close>

record 'n ingreso =
  id' :: string
  importe :: 'n
  categoriaNombre :: "string option"
  descripcion :: "string option"
  fecha :: string

record ingresos_filters =
  fechaInicio :: string
  fechaFin :: string
  tipo :: string
  searchTerm :: string
  sortColumn :: string
  sortOrder :: string

record 'n IngresosState =
  ingresos :: "'n ingreso list"
  selectedIngreso :: "'n ingreso option"
  loading :: bool
  error :: "string option"
  totalIngresos :: int
  totalRecords :: int
  filters :: ingresos_filters

definition IngresosStore_initialState :: "'n IngresosState" where
  "IngresosStore_initialState =
     \<lparr>ingresos = [], selectedIngreso = None, loading = False, error = None, totalIngresos = 0,
      totalRecords = 0,
      filters = \<lparr>fechaInicio = '''', fechaFin = '''', tipo = '''',
                 searchTerm = '''', sortColumn = '''', sortOrder = ''''\<rparr>\<rparr>"

subsection \<open>createIngreso\<close>

text \<open>The \<^verbatim>\<open>tap\<close> is all that runs before the request is sent.\<close>

definition IngresosStore_createIngreso_tap :: "'n IngresosState \<Rightarrow> 'n IngresosState" where
  "IngresosStore_createIngreso_tap s =
     s\<lparr>IngresosState.loading := True, IngresosState.error := None\<rparr>"

definition IngresosStore_createIngreso_next ::
  "'n ingreso \<Rightarrow> 'n IngresosState \<Rightarrow> 'n IngresosState" where
  "IngresosStore_createIngreso_next newIngreso s =
     s\<lparr>IngresosState.ingresos := IngresosState.ingresos s @ [newIngreso],
       IngresosState.loading := False\<rparr>"

definition IngresosStore_createIngreso_error :: "thrown \<Rightarrow> 'n IngresosState \<Rightarrow> 'n IngresosState" where
  "IngresosStore_createIngreso_error err s =
     s\<lparr>IngresosState.loading := False,
       IngresosState.error := Some (or_else (userMessage err) ''Error al crear ingreso'')\<rparr>"

subsection \<open>updateIngreso\<close>

definition IngresosStore_updateIngreso_tap :: "'n IngresosState \<Rightarrow> 'n IngresosState" where
  "IngresosStore_updateIngreso_tap s =
     s\<lparr>IngresosState.loading := True, IngresosState.error := None\<rparr>"

definition IngresosStore_updateIngreso_next ::
  "string \<Rightarrow> 'n ingreso \<Rightarrow> 'n IngresosState \<Rightarrow> 'n IngresosState" where
  "IngresosStore_updateIngreso_next ident updatedIngreso s =
     s\<lparr>IngresosState.ingresos :=
         map (\<lambda>i. if ingreso.id' i = ident then updatedIngreso else i) (IngresosState.ingresos s),
       IngresosState.loading := False\<rparr>"

definition IngresosStore_updateIngreso_error :: "thrown \<Rightarrow> 'n IngresosState \<Rightarrow> 'n IngresosState" where
  "IngresosStore_updateIngreso_error err s =
     s\<lparr>IngresosState.loading := False,
       IngresosState.error := Some (or_else (userMessage err) ''Error al actualizar ingreso'')\<rparr>"

subsection \<open>deleteIngreso\<close>

definition IngresosStore_deleteIngreso_tap :: "'n IngresosState \<Rightarrow> 'n IngresosState" where
  "IngresosStore_deleteIngreso_tap s =
     s\<lparr>IngresosState.loading := True, IngresosState.error := None\<rparr>"

definition IngresosStore_deleteIngreso_next ::
  "string \<Rightarrow> 'n IngresosState \<Rightarrow> 'n IngresosState" where
  "IngresosStore_deleteIngreso_next ident s =
     s\<lparr>IngresosState.ingresos := filter (\<lambda>i. ingreso.id' i \<noteq> ident) (IngresosState.ingresos s),
       IngresosState.loading := False\<rparr>"

definition IngresosStore_deleteIngreso_error :: "thrown \<Rightarrow> 'n IngresosState \<Rightarrow> 'n IngresosState" where
  "IngresosStore_deleteIngreso_error err s =
     s\<lparr>IngresosState.loading := False,
       IngresosState.error := Some (or_else (userMessage err) ''Error al eliminar ingreso'')\<rparr>"

section \<open>Paginated loads through \<^verbatim>\<open>rxMethod(pipe(tap(...), switchMap(...)))\<close>\<close>

text \<open>The Query Descriptor a paginated load is called with; it goes to the Gateway unchanged.\<close>

record query =
  page_index :: int
  pageSize :: int
  searchTerm :: "string option"
  sortColumn :: "string option"
  sortOrder :: "string option"

text \<open>
  The pipeline of an \<^verbatim>\<open>rxMethod\<close> around a store: every call runs the \<^verbatim>\<open>tap\<close> and then
  \<^verbatim>\<open>switchMap\<close> drops the subscription to the request it was waiting for, if any, and
  subscribes to a new request. The answer of a request reaches \<^verbatim>\<open>tapResponse\<close> only while
  the pipeline is still subscribed to that request. Requests are numbered in the order
  of the calls.
\<close>

record 'st pipeline =
  store :: 'st
  subscribed :: "nat option"
  issued :: nat

datatype 'a load_event =
  Called query
  | Answered nat int "'a observed"

text \<open>\<open>Called q\<close>: the method is called with \<open>q\<close>. \<open>Answered n now reply\<close>: request number \<open>n\<close>
  answers with \<open>reply\<close> when the clock reads \<open>now\<close>.\<close>

fun CategoriaStore_load_step ::
  "CategoriaState pipeline \<Rightarrow> categoria page load_event \<Rightarrow> CategoriaState pipeline" where
  "CategoriaStore_load_step p (Called q) =
     \<lparr>store = CategoriaStore_loadCategoriasPaginated_tap (store p),
      subscribed = Some (issued p),
      issued = issued p + 1\<rparr>"
| "CategoriaStore_load_step p (Answered n now reply) =
     (if subscribed p = Some n
      then \<lparr>store = (case reply of
                       Next response \<Rightarrow> CategoriaStore_loadCategoriasPaginated_next now response (store p)
                     | Error err \<Rightarrow> CategoriaStore_loadCategoriasPaginated_error err (store p)),
             subscribed = None,
             issued = issued p\<rparr>
      else p)"

fun GastosStore_load_step ::
  "'n GastosState pipeline \<Rightarrow> 'n gasto page load_event \<Rightarrow> 'n GastosState pipeline" where
  "GastosStore_load_step p (Called q) =
     \<lparr>store = GastosStore_loadGastosPaginated_tap (store p),
      subscribed = Some (issued p),
      issued = issued p + 1\<rparr>"
| "GastosStore_load_step p (Answered n now reply) =
     (if subscribed p = Some n
      then \<lparr>store = (case reply of
                       Next response \<Rightarrow> GastosStore_loadGastosPaginated_next now response (store p)
                     | Error err \<Rightarrow> GastosStore_loadGastosPaginated_error err (store p)),
             subscribed = None,
             issued = issued p\<rparr>
      else p)"

section \<open>Example values\<close>

definition example_error :: thrown where
  "example_error =
     \<lparr>message = Some ''Http failure response'', userMessage = Some ''Sin conexion'', detail = None\<rparr>"

definition example_categorias :: "categoria list" where
  "example_categorias =
     [\<lparr>categoria.id' = ''cat-1'', categoria.nombre = ''Ocio'', categoria.descripcion = '''',
       categoria.fechaCreacion = 0, categoria.usuarioId = ''u1''\<rparr>,
      \<lparr>categoria.id' = ''cat-2'', categoria.nombre = ''Casa'', categoria.descripcion = '''',
       categoria.fechaCreacion = 0, categoria.usuarioId = ''u1''\<rparr>]"

text \<open>A CategoriaStore holding two records, with one cached search.\<close>

definition example_CategoriaState :: CategoriaState where
  "example_CategoriaState =
     \<lparr>CategoriaState.categorias = example_categorias, CategoriaState.totalRecords = 2,
      CategoriaState.loading = False, CategoriaState.error = None,
      CategoriaState.lastUpdated = None,
      CategoriaState.searchCache = [''foo_10'' \<mapsto> example_categorias]\<rparr>"

definition example_clientes :: "cliente list" where
  "example_clientes =
     [\<lparr>cliente.id' = ''cli-1'', cliente.nombre = ''Ana'', cliente.fechaCreacion = 0,
       cliente.usuarioId = ''u1''\<rparr>,
      \<lparr>cliente.id' = ''cli-2'', cliente.nombre = ''Luis'', cliente.fechaCreacion = 0,
       cliente.usuarioId = ''u1''\<rparr>]"

definition example_ClienteState :: ClienteState where
  "example_ClienteState =
     \<lparr>ClienteState.clientes = example_clientes, ClienteState.totalRecords = 2,
      ClienteState.loading = False, ClienteState.error = None,
      ClienteState.lastUpdated = None, ClienteState.searchCache = Map.empty\<rparr>"

definition example_gasto :: "int gasto" where
  "example_gasto =
     \<lparr>gasto.id' = ''g-1'', gasto.conceptoId = ''c-1'', gasto.conceptoNombre = ''Luz'',
      gasto.categoriaId = ''cat-2'', gasto.categoriaNombre = ''Casa'',
      gasto.proveedorId = ''p-1'', gasto.proveedorNombre = ''Iberdrola'',
      gasto.personaId = ''pe-1'', gasto.personaNombre = ''Ana'',
      gasto.cuentaId = ''cu-1'', gasto.cuentaNombre = ''Banco'',
      gasto.formaPagoId = ''f-1'', gasto.formaPagoNombre = ''Tarjeta'',
      gasto.importe = 50, gasto.fecha = ''2025-01-01'', gasto.descripcion = '''',
      gasto.usuarioId = ''u1''\<rparr>"

definition example_GastosState :: "int GastosState" where
  "example_GastosState =
     GastosStore_initialState\<lparr>GastosState.gastos := [example_gasto], GastosState.totalRecords := 1\<rparr>"

definition example_gasto_create :: "int gasto_create" where
  "example_gasto_create =
     \<lparr>gasto_create.conceptoId = ''c-1'', gasto_create.categoriaId = ''cat-2'',
      gasto_create.proveedorId = ''p-1'', gasto_create.personaId = ''pe-1'',
      gasto_create.cuentaId = ''cu-1'', gasto_create.formaPagoId = ''f-1'',
      gasto_create.importe = 20, gasto_create.fecha = ''2025-02-01'',
      gasto_create.descripcion = ''agua''\<rparr>"

definition example_stores :: sibling_stores where
  "example_stores =
     \<lparr>conceptos = [(''c-1'', ''Luz'')], categorias_of_store = [(''cat-2'', ''Casa'')],
      proveedores = [], personas = [(''pe-1'', ''Ana'')], cuentas = [(''cu-1'', ''Banco'')],
      formasPago = [(''f-1'', ''Tarjeta'')]\<rparr>"

definition example_ingreso :: "int ingreso" where
  "example_ingreso =
     \<lparr>ingreso.id' = ''i-1'', ingreso.importe = 1200, ingreso.categoriaNombre = Some ''Nomina'',
      ingreso.descripcion = None, ingreso.fecha = ''2025-01-31''\<rparr>"

definition example_IngresosState :: "int IngresosState" where
  "example_IngresosState =
     IngresosStore_initialState\<lparr>IngresosState.ingresos := [example_ingreso],
       IngresosState.totalRecords := 1\<rparr>"

text \<open>The first record of the example CategoriaStore, and that store after two creates started
  in the same millisecond, before either has been answered.\<close>

definition example_categoria :: categoria where
  "example_categoria =
     \<lparr>categoria.id' = ''cat-1'', categoria.nombre = ''Ocio'', categoria.descripcion = '''',
      categoria.fechaCreacion = 0, categoria.usuarioId = ''u1''\<rparr>"

definition example_CategoriaState_temporaries :: CategoriaState where
  "example_CategoriaState_temporaries =
     CategoriaStore_create_begin 1000 1000 ''Cine''
       (CategoriaStore_create_begin 1000 1000 ''Bar'' example_CategoriaState)"

definition example_cliente :: cliente where
  "example_cliente =
     \<lparr>cliente.id' = ''cli-2'', cliente.nombre = ''Luis'', cliente.fechaCreacion = 0,
      cliente.usuarioId = ''u1''\<rparr>"

section \<open>FormaPagoStore\<close>

record forma_pago =
  id' :: string
  nombre :: string
  fechaCreacion :: int
  usuarioId :: string

text \<open>\<^verbatim>\<open>Partial<...>\<close> of it: a field that is present holds the new value.\<close>

record forma_pago_partial =
  id' :: "string option"
  nombre :: "string option"
  fechaCreacion :: "int option"
  usuarioId :: "string option"

definition spread_forma_pago :: "forma_pago \<Rightarrow> forma_pago_partial \<Rightarrow> forma_pago" where
  "spread_forma_pago c p =
     \<lparr>forma_pago.id' = override (forma_pago.id' c) (forma_pago_partial.id' p),
      forma_pago.nombre = override (forma_pago.nombre c) (forma_pago_partial.nombre p),
      forma_pago.fechaCreacion = override (forma_pago.fechaCreacion c) (forma_pago_partial.fechaCreacion p),
      forma_pago.usuarioId = override (forma_pago.usuarioId c) (forma_pago_partial.usuarioId p)\<rparr>"

record FormaPagoState =
  formasPago :: "forma_pago list"
  totalRecords :: int
  loading :: bool
  error :: "string option"
  lastUpdated :: "int option"
  searchCache :: "string \<rightharpoonup> forma_pago list"

text \<open>create, up to the \<^verbatim>\<open>await\<close>: \<open>now\<close> is \<^verbatim>\<open>Date.now()\<close>, \<open>date\<close> is \<^verbatim>\<open>new Date()\<close>.\<close>

definition FormaPagoStore_create_begin ::
  "int \<Rightarrow> int \<Rightarrow> string \<Rightarrow> FormaPagoState \<Rightarrow> FormaPagoState" where
  "FormaPagoStore_create_begin now date nom s =
     s\<lparr>FormaPagoState.formasPago := FormaPagoState.formasPago s @
          [\<lparr>forma_pago.id' = tempId now,
            forma_pago.nombre = nom,
            forma_pago.fechaCreacion = date,
            forma_pago.usuarioId = ''''\<rparr>],
       FormaPagoState.loading := True,
       FormaPagoState.error := None\<rparr>"

text \<open>update, up to the \<^verbatim>\<open>await\<close>: the captured \<^verbatim>\<open>formaPagoAnterior\<close> and the state.\<close>

definition FormaPagoStore_update_begin ::
  "string \<Rightarrow> forma_pago_partial \<Rightarrow> FormaPagoState \<Rightarrow> forma_pago option \<times> FormaPagoState" where
  "FormaPagoStore_update_begin ident p s =
     (let formaPagoAnterior = find (\<lambda>c. forma_pago.id' c = ident) (FormaPagoState.formasPago s)
      in (formaPagoAnterior,
          case formaPagoAnterior of
            Some old \<Rightarrow>
              s\<lparr>FormaPagoState.formasPago :=
                  map (\<lambda>c. if forma_pago.id' c = ident then spread_forma_pago c p else c)
                    (FormaPagoState.formasPago s),
                FormaPagoState.loading := True,
                FormaPagoState.error := None\<rparr>
          | None \<Rightarrow> s))"

text \<open>deleteFormaPago, the \<^verbatim>\<open>switchMap\<close> projection up to the request: it captures \<^verbatim>\<open>formaPagoEliminada\<close> and
  \<^verbatim>\<open>totalAnterior\<close>, then removes the record.\<close>

definition FormaPagoStore_deleteFormaPago_project ::
  "string \<Rightarrow> FormaPagoState \<Rightarrow> (forma_pago option \<times> int) \<times> FormaPagoState" where
  "FormaPagoStore_deleteFormaPago_project ident s =
     (let formaPagoEliminada = find (\<lambda>c. forma_pago.id' c = ident) (FormaPagoState.formasPago s);
          totalAnterior = FormaPagoState.totalRecords s
      in ((formaPagoEliminada, totalAnterior),
          s\<lparr>FormaPagoState.formasPago := filter (\<lambda>c. forma_pago.id' c \<noteq> ident) (FormaPagoState.formasPago s),
            FormaPagoState.totalRecords := FormaPagoState.totalRecords s - 1,
            FormaPagoState.searchCache := Map.empty\<rparr>))"

section \<open>PersonaStore\<close>

record persona =
  id' :: string
  nombre :: string
  fechaCreacion :: int
  usuarioId :: string

text \<open>\<^verbatim>\<open>Partial<...>\<close> of it: a field that is present holds the new value.\<close>

record persona_partial =
  id' :: "string option"
  nombre :: "string option"
  fechaCreacion :: "int option"
  usuarioId :: "string option"

definition spread_persona :: "persona \<Rightarrow> persona_partial \<Rightarrow> persona" where
  "spread_persona c p =
     \<lparr>persona.id' = override (persona.id' c) (persona_partial.id' p),
      persona.nombre = override (persona.nombre c) (persona_partial.nombre p),
      persona.fechaCreacion = override (persona.fechaCreacion c) (persona_partial.fechaCreacion p),
      persona.usuarioId = override (persona.usuarioId c) (persona_partial.usuarioId p)\<rparr>"

record PersonaState =
  personas :: "persona list"
  totalRecords :: int
  loading :: bool
  error :: "string option"
  lastUpdated :: "int option"
  searchCache :: "string \<rightharpoonup> persona list"

text \<open>create, up to the \<^verbatim>\<open>await\<close>: \<open>now\<close> is \<^verbatim>\<open>Date.now()\<close>, \<open>date\<close> is \<^verbatim>\<open>new Date()\<close>.\<close>

definition PersonaStore_create_begin ::
  "int \<Rightarrow> int \<Rightarrow> string \<Rightarrow> PersonaState \<Rightarrow> PersonaState" where
  "PersonaStore_create_begin now date nom s =
     s\<lparr>PersonaState.personas := PersonaState.personas s @
          [\<lparr>persona.id' = tempId now,
            persona.nombre = nom,
            persona.fechaCreacion = date,
            persona.usuarioId = ''''\<rparr>],
       PersonaState.loading := True,
       PersonaState.error := None\<rparr>"

text \<open>update, up to the \<^verbatim>\<open>await\<close>: the captured \<^verbatim>\<open>personaAnterior\<close> and the state.\<close>

definition PersonaStore_update_begin ::
  "string \<Rightarrow> persona_partial \<Rightarrow> PersonaState \<Rightarrow> persona option \<times> PersonaState" where
  "PersonaStore_update_begin ident p s =
     (let personaAnterior = find (\<lambda>c. persona.id' c = ident) (PersonaState.personas s)
      in (personaAnterior,
          case personaAnterior of
            Some old \<Rightarrow>
              s\<lparr>PersonaState.personas :=
                  map (\<lambda>c. if persona.id' c = ident then spread_persona c p else c)
                    (PersonaState.personas s),
                PersonaState.loading := True,
                PersonaState.error := None\<rparr>
          | None \<Rightarrow> s))"

text \<open>deletePersona, the \<^verbatim>\<open>switchMap\<close> projection up to the request: it captures \<^verbatim>\<open>personaEliminada\<close> and
  \<^verbatim>\<open>totalAnterior\<close>, then removes the record.\<close>

definition PersonaStore_deletePersona_project ::
  "string \<Rightarrow> PersonaState \<Rightarrow> (persona option \<times> int) \<times> PersonaState" where
  "PersonaStore_deletePersona_project ident s =
     (let personaEliminada = find (\<lambda>c. persona.id' c = ident) (PersonaState.personas s);
          totalAnterior = PersonaState.totalRecords s
      in ((personaEliminada, totalAnterior),
          s\<lparr>PersonaState.personas := filter (\<lambda>c. persona.id' c \<noteq> ident) (PersonaState.personas s),
            PersonaState.totalRecords := PersonaState.totalRecords s - 1,
            PersonaState.searchCache := Map.empty\<rparr>))"

section \<open>ProveedorStore\<close>

record proveedor =
  id' :: string
  nombre :: string
  fechaCreacion :: int
  usuarioId :: string

text \<open>\<^verbatim>\<open>Partial<...>\<close> of it: a field that is present holds the new value.\<close>

record proveedor_partial =
  id' :: "string option"
  nombre :: "string option"
  fechaCreacion :: "int option"
  usuarioId :: "string option"

definition spread_proveedor :: "proveedor \<Rightarrow> proveedor_partial \<Rightarrow> proveedor" where
  "spread_proveedor c p =
     \<lparr>proveedor.id' = override (proveedor.id' c) (proveedor_partial.id' p),
      proveedor.nombre = override (proveedor.nombre c) (proveedor_partial.nombre p),
      proveedor.fechaCreacion = override (proveedor.fechaCreacion c) (proveedor_partial.fechaCreacion p),
      proveedor.usuarioId = override (proveedor.usuarioId c) (proveedor_partial.usuarioId p)\<rparr>"

record ProveedorState =
  proveedores :: "proveedor list"
  totalRecords :: int
  loading :: bool
  error :: "string option"
  lastUpdated :: "int option"
  searchCache :: "string \<rightharpoonup> proveedor list"

text \<open>create, up to the \<^verbatim>\<open>await\<close>: \<open>now\<close> is \<^verbatim>\<open>Date.now()\<close>, \<open>date\<close> is \<^verbatim>\<open>new Date()\<close>.\<close>

definition ProveedorStore_create_begin ::
  "int \<Rightarrow> int \<Rightarrow> string \<Rightarrow> ProveedorState \<Rightarrow> ProveedorState" where
  "ProveedorStore_create_begin now date nom s =
     s\<lparr>ProveedorState.proveedores := ProveedorState.proveedores s @
          [\<lparr>proveedor.id' = tempId now,
            proveedor.nombre = nom,
            proveedor.fechaCreacion = date,
            proveedor.usuarioId = ''''\<rparr>],
       ProveedorState.loading := True,
       ProveedorState.error := None\<rparr>"

text \<open>update, up to the \<^verbatim>\<open>await\<close>: the captured \<^verbatim>\<open>proveedorAnterior\<close> and the state.\<close>

definition ProveedorStore_update_begin ::
  "string \<Rightarrow> proveedor_partial \<Rightarrow> ProveedorState \<Rightarrow> proveedor option \<times> ProveedorState" where
  "ProveedorStore_update_begin ident p s =
     (let proveedorAnterior = find (\<lambda>c. proveedor.id' c = ident) (ProveedorState.proveedores s)
      in (proveedorAnterior,
          case proveedorAnterior of
            Some old \<Rightarrow>
              s\<lparr>ProveedorState.proveedores :=
                  map (\<lambda>c. if proveedor.id' c = ident then spread_proveedor c p else c)
                    (ProveedorState.proveedores s),
                ProveedorState.loading := True,
                ProveedorState.error := None\<rparr>
          | None \<Rightarrow> s))"

text \<open>deleteProveedor, the \<^verbatim>\<open>switchMap\<close> projection up to the request: it captures \<^verbatim>\<open>proveedorEliminado\<close> and
  \<^verbatim>\<open>totalAnterior\<close>, then removes the record.\<close>

definition ProveedorStore_deleteProveedor_project ::
  "string \<Rightarrow> ProveedorState \<Rightarrow> (proveedor option \<times> int) \<times> ProveedorState" where
  "ProveedorStore_deleteProveedor_project ident s =
     (let proveedorEliminado = find (\<lambda>c. proveedor.id' c = ident) (ProveedorState.proveedores s);
          totalAnterior = ProveedorState.totalRecords s
      in ((proveedorEliminado, totalAnterior),
          s\<lparr>ProveedorState.proveedores := filter (\<lambda>c. proveedor.id' c \<noteq> ident) (ProveedorState.proveedores s),
            ProveedorState.totalRecords := ProveedorState.totalRecords s - 1,
            ProveedorState.searchCache := Map.empty\<rparr>))"

section \<open>ConceptoStore\<close>

record concepto =
  id' :: string
  nombre :: string
  categoriaId :: string
  fechaCreacion :: int
  usuarioId :: string

text \<open>\<^verbatim>\<open>Partial<...>\<close> of it: a field that is present holds the new value.\<close>

record concepto_partial =
  id' :: "string option"
  nombre :: "string option"
  categoriaId :: "string option"
  fechaCreacion :: "int option"
  usuarioId :: "string option"

definition spread_concepto :: "concepto \<Rightarrow> concepto_partial \<Rightarrow> concepto" where
  "spread_concepto c p =
     \<lparr>concepto.id' = override (concepto.id' c) (concepto_partial.id' p),
      concepto.nombre = override (concepto.nombre c) (concepto_partial.nombre p),
      concepto.categoriaId = override (concepto.categoriaId c) (concepto_partial.categoriaId p),
      concepto.fechaCreacion = override (concepto.fechaCreacion c) (concepto_partial.fechaCreacion p),
      concepto.usuarioId = override (concepto.usuarioId c) (concepto_partial.usuarioId p)\<rparr>"

record ConceptoState =
  conceptos :: "concepto list"
  totalRecords :: int
  loading :: bool
  error :: "string option"
  lastUpdated :: "int option"
  searchCache :: "string \<rightharpoonup> concepto list"

text \<open>create, up to the \<^verbatim>\<open>await\<close>: \<open>now\<close> is \<^verbatim>\<open>Date.now()\<close>, \<open>date\<close> is \<^verbatim>\<open>new Date()\<close>.\<close>

definition ConceptoStore_create_begin ::
  "int \<Rightarrow> int \<Rightarrow> string \<Rightarrow> string \<Rightarrow> ConceptoState \<Rightarrow> ConceptoState" where
  "ConceptoStore_create_begin now date nom catId s =
     s\<lparr>ConceptoState.conceptos := ConceptoState.conceptos s @
          [\<lparr>concepto.id' = tempId now,
            concepto.nombre = nom,
            concepto.categoriaId = catId,
            concepto.fechaCreacion = date,
            concepto.usuarioId = ''''\<rparr>],
       ConceptoState.loading := True,
       ConceptoState.error := None\<rparr>"

text \<open>update, up to the \<^verbatim>\<open>await\<close>: the captured \<^verbatim>\<open>conceptoAnterior\<close> and the state.\<close>

definition ConceptoStore_update_begin ::
  "string \<Rightarrow> concepto_partial \<Rightarrow> ConceptoState \<Rightarrow> concepto option \<times> ConceptoState" where
  "ConceptoStore_update_begin ident p s =
     (let conceptoAnterior = find (\<lambda>c. concepto.id' c = ident) (ConceptoState.conceptos s)
      in (conceptoAnterior,
          case conceptoAnterior of
            Some old \<Rightarrow>
              s\<lparr>ConceptoState.conceptos :=
                  map (\<lambda>c. if concepto.id' c = ident then spread_concepto c p else c)
                    (ConceptoState.conceptos s),
                ConceptoState.loading := True,
                ConceptoState.error := None\<rparr>
          | None \<Rightarrow> s))"

text \<open>deleteConcepto, the \<^verbatim>\<open>switchMap\<close> projection up to the request: it captures \<^verbatim>\<open>conceptoEliminado\<close> and
  \<^verbatim>\<open>totalAnterior\<close>, then removes the record.\<close>

definition ConceptoStore_deleteConcepto_project ::
  "string \<Rightarrow> ConceptoState \<Rightarrow> (concepto option \<times> int) \<times> ConceptoState" where
  "ConceptoStore_deleteConcepto_project ident s =
     (let conceptoEliminado = find (\<lambda>c. concepto.id' c = ident) (ConceptoState.conceptos s);
          totalAnterior = ConceptoState.totalRecords s
      in ((conceptoEliminado, totalAnterior),
          s\<lparr>ConceptoState.conceptos := filter (\<lambda>c. concepto.id' c \<noteq> ident) (ConceptoState.conceptos s),
            ConceptoState.totalRecords := ConceptoState.totalRecords s - 1,
            ConceptoState.searchCache := Map.empty\<rparr>))"

section \<open>CuentaStore\<close>

record 'n cuenta =
  id' :: string
  nombre :: string
  saldo :: 'n
  fechaCreacion :: int
  usuarioId :: string

text \<open>\<^verbatim>\<open>Partial<...>\<close> of it: a field that is present holds the new value.\<close>

record 'n cuenta_partial =
  id' :: "string option"
  nombre :: "string option"
  saldo :: "'n option"
  fechaCreacion :: "int option"
  usuarioId :: "string option"

definition spread_cuenta :: "'n cuenta \<Rightarrow> 'n cuenta_partial \<Rightarrow> 'n cuenta" where
  "spread_cuenta c p =
     \<lparr>cuenta.id' = override (cuenta.id' c) (cuenta_partial.id' p),
      cuenta.nombre = override (cuenta.nombre c) (cuenta_partial.nombre p),
      cuenta.saldo = override (cuenta.saldo c) (cuenta_partial.saldo p),
      cuenta.fechaCreacion = override (cuenta.fechaCreacion c) (cuenta_partial.fechaCreacion p),
      cuenta.usuarioId = override (cuenta.usuarioId c) (cuenta_partial.usuarioId p)\<rparr>"

record 'n CuentaState =
  cuentas :: "'n cuenta list"
  totalRecords :: int
  loading :: bool
  error :: "string option"
  lastUpdated :: "int option"
  searchCache :: "string \<rightharpoonup> 'n cuenta list"

text \<open>create, up to the \<^verbatim>\<open>await\<close>: \<open>now\<close> is \<^verbatim>\<open>Date.now()\<close>, \<open>date\<close> is \<^verbatim>\<open>new Date()\<close>.\<close>

definition CuentaStore_create_begin ::
  "int \<Rightarrow> int \<Rightarrow> string \<Rightarrow> 'n \<Rightarrow> 'n CuentaState \<Rightarrow> 'n CuentaState" where
  "CuentaStore_create_begin now date nom sal s =
     s\<lparr>CuentaState.cuentas := CuentaState.cuentas s @
          [\<lparr>cuenta.id' = tempId now,
            cuenta.nombre = nom,
            cuenta.saldo = sal,
            cuenta.fechaCreacion = date,
            cuenta.usuarioId = ''''\<rparr>],
       CuentaState.loading := True,
       CuentaState.error := None\<rparr>"

text \<open>update, up to the \<^verbatim>\<open>await\<close>: the captured \<^verbatim>\<open>cuentaAnterior\<close> and the state.\<close>

definition CuentaStore_update_begin ::
  "string \<Rightarrow> 'n cuenta_partial \<Rightarrow> 'n CuentaState \<Rightarrow> 'n cuenta option \<times> 'n CuentaState" where
  "CuentaStore_update_begin ident p s =
     (let cuentaAnterior = find (\<lambda>c. cuenta.id' c = ident) (CuentaState.cuentas s)
      in (cuentaAnterior,
          case cuentaAnterior of
            Some old \<Rightarrow>
              s\<lparr>CuentaState.cuentas :=
                  map (\<lambda>c. if cuenta.id' c = ident then spread_cuenta c p else c)
                    (CuentaState.cuentas s),
                CuentaState.loading := True,
                CuentaState.error := None\<rparr>
          | None \<Rightarrow> s))"

text \<open>deleteCuenta, the \<^verbatim>\<open>switchMap\<close> projection up to the request: it captures \<^verbatim>\<open>cuentaEliminada\<close> and
  \<^verbatim>\<open>totalAnterior\<close>, then removes the record.\<close>

definition CuentaStore_deleteCuenta_project ::
  "string \<Rightarrow> 'n CuentaState \<Rightarrow> ('n cuenta option \<times> int) \<times> 'n CuentaState" where
  "CuentaStore_deleteCuenta_project ident s =
     (let cuentaEliminada = find (\<lambda>c. cuenta.id' c = ident) (CuentaState.cuentas s);
          totalAnterior = CuentaState.totalRecords s
      in ((cuentaEliminada, totalAnterior),
          s\<lparr>CuentaState.cuentas := filter (\<lambda>c. cuenta.id' c \<noteq> ident) (CuentaState.cuentas s),
            CuentaState.totalRecords := CuentaState.totalRecords s - 1,
            CuentaState.searchCache := Map.empty\<rparr>))"

section \<open>GastosStore: updateGasto, and the version of the store that takes display names\<close>

text \<open>\<^verbatim>\<open>Partial<...>\<close> of it: a field that is present holds the new value.\<close>

record 'n gasto_partial =
  id' :: "string option"
  conceptoId :: "string option"
  conceptoNombre :: "string option"
  categoriaId :: "string option"
  categoriaNombre :: "string option"
  proveedorId :: "string option"
  proveedorNombre :: "string option"
  personaId :: "string option"
  personaNombre :: "string option"
  cuentaId :: "string option"
  cuentaNombre :: "string option"
  formaPagoId :: "string option"
  formaPagoNombre :: "string option"
  importe :: "'n option"
  fecha :: "string option"
  descripcion :: "string option"
  usuarioId :: "string option"

definition spread_gasto :: "'n gasto \<Rightarrow> 'n gasto_partial \<Rightarrow> 'n gasto" where
  "spread_gasto c p =
     \<lparr>gasto.id' = override (gasto.id' c) (gasto_partial.id' p),
      gasto.conceptoId = override (gasto.conceptoId c) (gasto_partial.conceptoId p),
      gasto.conceptoNombre = override (gasto.conceptoNombre c) (gasto_partial.conceptoNombre p),
      gasto.categoriaId = override (gasto.categoriaId c) (gasto_partial.categoriaId p),
      gasto.categoriaNombre = override (gasto.categoriaNombre c) (gasto_partial.categoriaNombre p),
      gasto.proveedorId = override (gasto.proveedorId c) (gasto_partial.proveedorId p),
      gasto.proveedorNombre = override (gasto.proveedorNombre c) (gasto_partial.proveedorNombre p),
      gasto.personaId = override (gasto.personaId c) (gasto_partial.personaId p),
      gasto.personaNombre = override (gasto.personaNombre c) (gasto_partial.personaNombre p),
      gasto.cuentaId = override (gasto.cuentaId c) (gasto_partial.cuentaId p),
      gasto.cuentaNombre = override (gasto.cuentaNombre c) (gasto_partial.cuentaNombre p),
      gasto.formaPagoId = override (gasto.formaPagoId c) (gasto_partial.formaPagoId p),
      gasto.formaPagoNombre = override (gasto.formaPagoNombre c) (gasto_partial.formaPagoNombre p),
      gasto.importe = override (gasto.importe c) (gasto_partial.importe p),
      gasto.fecha = override (gasto.fecha c) (gasto_partial.fecha p),
      gasto.descripcion = override (gasto.descripcion c) (gasto_partial.descripcion p),
      gasto.usuarioId = override (gasto.usuarioId c) (gasto_partial.usuarioId p)\<rparr>"

text \<open>updateGasto, up to the \<^verbatim>\<open>await\<close>: the captured \<^verbatim>\<open>gastoAnterior\<close> and the state. The merge is patched whether or not a record was found. Both versions of the store have this text.\<close>

definition GastosStore_updateGasto_begin ::
  "string \<Rightarrow> 'n gasto_partial \<Rightarrow> 'n GastosState \<Rightarrow> 'n gasto option \<times> 'n GastosState" where
  "GastosStore_updateGasto_begin ident p s =
     (let gastoAnterior = find (\<lambda>g. gasto.id' g = ident) (GastosState.gastos s)
      in (gastoAnterior,
          s\<lparr>GastosState.gastos :=
              map (\<lambda>g. if gasto.id' g = ident then spread_gasto g p else g) (GastosState.gastos s),
            GastosState.loading := True,
            GastosState.error := None\<rparr>))"

text \<open>\<^verbatim>\<open>displayData?.x\<close> of an optional \<^verbatim>\<open>Partial<Gasto>\<close>.\<close>

definition displayed :: "'n gasto_partial option \<Rightarrow> ('n gasto_partial \<Rightarrow> string option) \<Rightarrow> string option" where
  "displayed displayData field = (case displayData of None \<Rightarrow> None | Some d \<Rightarrow> field d)"

text \<open>\<^verbatim>\<open>tempGasto\<close> of the version \<^verbatim>\<open>createGasto(gasto, displayData?)\<close>: each name is \<^verbatim>\<open>displayData?.x || xs.find(c => c.id === ident)?.nombre || ''\<close>.\<close>

definition tempGasto_displayData ::
  "int \<Rightarrow> sibling_stores \<Rightarrow> 'n gasto_create \<Rightarrow> 'n gasto_partial option \<Rightarrow> 'n gasto" where
  "tempGasto_displayData now stores g displayData =
     \<lparr>gasto.id' = tempId now,
      gasto.conceptoId = gasto_create.conceptoId g,
      gasto.conceptoNombre =
        or_else (displayed displayData gasto_partial.conceptoNombre)
          (nombre_of (sibling_stores.conceptos stores) (gasto_create.conceptoId g)),
      gasto.categoriaId = gasto_create.categoriaId g,
      gasto.categoriaNombre =
        or_else (displayed displayData gasto_partial.categoriaNombre)
          (nombre_of (sibling_stores.categorias_of_store stores) (gasto_create.categoriaId g)),
      gasto.proveedorId = gasto_create.proveedorId g,
      gasto.proveedorNombre =
        or_else (displayed displayData gasto_partial.proveedorNombre)
          (nombre_of (sibling_stores.proveedores stores) (gasto_create.proveedorId g)),
      gasto.personaId = gasto_create.personaId g,
      gasto.personaNombre =
        or_else (displayed displayData gasto_partial.personaNombre)
          (nombre_of (sibling_stores.personas stores) (gasto_create.personaId g)),
      gasto.cuentaId = gasto_create.cuentaId g,
      gasto.cuentaNombre =
        or_else (displayed displayData gasto_partial.cuentaNombre)
          (nombre_of (sibling_stores.cuentas stores) (gasto_create.cuentaId g)),
      gasto.formaPagoId = gasto_create.formaPagoId g,
      gasto.formaPagoNombre =
        or_else (displayed displayData gasto_partial.formaPagoNombre)
          (nombre_of (sibling_stores.formasPago stores) (gasto_create.formaPagoId g)),
      gasto.importe = gasto_create.importe g,
      gasto.fecha = gasto_create.fecha g,
      gasto.descripcion = gasto_create.descripcion g,
      gasto.usuarioId = ''''\<rparr>"

text \<open>createGasto of that version, up to the \<^verbatim>\<open>await\<close>, with \<open>temp\<close> the \<^verbatim>\<open>tempGasto\<close>: the in-flight flag is left alone.\<close>

definition GastosStore_createGasto_displayData_begin ::
  "'n gasto \<Rightarrow> 'n GastosState \<Rightarrow> 'n GastosState" where
  "GastosStore_createGasto_displayData_begin temp s =
     s\<lparr>GastosState.gastos := temp # GastosState.gastos s,
       GastosState.totalRecords := GastosState.totalRecords s + 1,
       GastosState.error := None\<rparr>"

section \<open>TraspasosStore (traspasos.store.ts)\<close>

record 'n traspaso =
  id' :: string
  cuentaOrigenId :: string
  cuentaOrigenNombre :: string
  cuentaDestinoId :: string
  cuentaDestinoNombre :: string
  fecha :: string
  importe :: 'n
  descripcion :: string
  usuarioId :: string

text \<open>\<^verbatim>\<open>Partial<...>\<close> of it: a field that is present holds the new value.\<close>

record 'n traspaso_partial =
  id' :: "string option"
  cuentaOrigenId :: "string option"
  cuentaOrigenNombre :: "string option"
  cuentaDestinoId :: "string option"
  cuentaDestinoNombre :: "string option"
  fecha :: "string option"
  importe :: "'n option"
  descripcion :: "string option"
  usuarioId :: "string option"

definition spread_traspaso :: "'n traspaso \<Rightarrow> 'n traspaso_partial \<Rightarrow> 'n traspaso" where
  "spread_traspaso c p =
     \<lparr>traspaso.id' = override (traspaso.id' c) (traspaso_partial.id' p),
      traspaso.cuentaOrigenId = override (traspaso.cuentaOrigenId c) (traspaso_partial.cuentaOrigenId p),
      traspaso.cuentaOrigenNombre = override (traspaso.cuentaOrigenNombre c) (traspaso_partial.cuentaOrigenNombre p),
      traspaso.cuentaDestinoId = override (traspaso.cuentaDestinoId c) (traspaso_partial.cuentaDestinoId p),
      traspaso.cuentaDestinoNombre = override (traspaso.cuentaDestinoNombre c) (traspaso_partial.cuentaDestinoNombre p),
      traspaso.fecha = override (traspaso.fecha c) (traspaso_partial.fecha p),
      traspaso.importe = override (traspaso.importe c) (traspaso_partial.importe p),
      traspaso.descripcion = override (traspaso.descripcion c) (traspaso_partial.descripcion p),
      traspaso.usuarioId = override (traspaso.usuarioId c) (traspaso_partial.usuarioId p)\<rparr>"

text \<open>\<^verbatim>\<open>TraspasoCreate\<close>\<close>

record 'n traspaso_create =
  cuentaOrigenId :: string
  cuentaDestinoId :: string
  fecha :: string
  importe :: 'n
  descripcion :: string

record 'n TraspasosState =
  traspasos :: "'n traspaso list"
  selectedTraspaso :: "'n traspaso option"
  loading :: bool
  error :: "string option"
  totalRecords :: int

text \<open>\<^verbatim>\<open>tempTraspaso\<close>\<close>

definition tempTraspaso :: "int \<Rightarrow> 'n traspaso_create \<Rightarrow> 'n traspaso" where
  "tempTraspaso now t =
     \<lparr>traspaso.id' = tempId now,
      traspaso.cuentaOrigenId = traspaso_create.cuentaOrigenId t,
      traspaso.cuentaOrigenNombre = '''',
      traspaso.cuentaDestinoId = traspaso_create.cuentaDestinoId t,
      traspaso.cuentaDestinoNombre = '''',
      traspaso.fecha = traspaso_create.fecha t,
      traspaso.importe = traspaso_create.importe t,
      traspaso.descripcion = traspaso_create.descripcion t,
      traspaso.usuarioId = ''''\<rparr>"

text \<open>createTraspaso, up to the \<^verbatim>\<open>await\<close>.\<close>

definition TraspasosStore_createTraspaso_begin ::
  "int \<Rightarrow> 'n traspaso_create \<Rightarrow> 'n TraspasosState \<Rightarrow> 'n TraspasosState" where
  "TraspasosStore_createTraspaso_begin now t s =
     s\<lparr>TraspasosState.traspasos := tempTraspaso now t # TraspasosState.traspasos s,
       TraspasosState.totalRecords := TraspasosState.totalRecords s + 1,
       TraspasosState.loading := True,
       TraspasosState.error := None\<rparr>"

text \<open>updateTraspaso, up to the \<^verbatim>\<open>await\<close>: the captured \<^verbatim>\<open>traspasoAnterior\<close> and the state.\<close>

definition TraspasosStore_updateTraspaso_begin ::
  "string \<Rightarrow> 'n traspaso_partial \<Rightarrow> 'n TraspasosState \<Rightarrow> 'n traspaso option \<times> 'n TraspasosState" where
  "TraspasosStore_updateTraspaso_begin ident p s =
     (let traspasoAnterior = find (\<lambda>t. traspaso.id' t = ident) (TraspasosState.traspasos s)
      in (traspasoAnterior,
          s\<lparr>TraspasosState.traspasos :=
              map (\<lambda>t. if traspaso.id' t = ident then spread_traspaso t p else t)
                (TraspasosState.traspasos s),
            TraspasosState.loading := True,
            TraspasosState.error := None\<rparr>))"

text \<open>deleteTraspaso, the \<^verbatim>\<open>switchMap\<close> projection up to the request.\<close>

definition TraspasosStore_deleteTraspaso_project ::
  "string \<Rightarrow> 'n TraspasosState \<Rightarrow> ('n traspaso option \<times> int) \<times> 'n TraspasosState" where
  "TraspasosStore_deleteTraspaso_project ident s =
     (let traspasoEliminado = find (\<lambda>t. traspaso.id' t = ident) (TraspasosState.traspasos s);
          totalAnterior = TraspasosState.totalRecords s
      in ((traspasoEliminado, totalAnterior),
          s\<lparr>TraspasosState.traspasos := filter (\<lambda>t. traspaso.id' t \<noteq> ident) (TraspasosState.traspasos s),
            TraspasosState.totalRecords := TraspasosState.totalRecords s - 1\<rparr>))"

section \<open>GastosProgramadosStore\<close>

datatype frecuencia = DIARIO | SEMANAL | MENSUAL | ANUAL

text \<open>A GastoProgramado: the fields of the class (gasto-programado.model.ts; a field declared with \<^verbatim>\<open>?\<close> may be absent) and those that \<^verbatim>\<open>createGasto\<close> writes besides. \<^verbatim>\<open>fechaEjecucion\<close> is a Date, kept as its millisecond value.\<close>

record 'n gasto_programado =
  id' :: string
  conceptoId :: string
  conceptoNombre :: string
  categoriaId :: string
  categoriaNombre :: string
  proveedorId :: "string option"
  proveedorNombre :: string
  personaId :: "string option"
  personaNombre :: string
  cuentaId :: string
  cuentaNombre :: string
  formaPagoId :: "string option"
  formaPagoNombre :: string
  importe :: 'n
  descripcion :: "string option"
  fechaEjecucion :: int
  frecuencia :: frecuencia
  activo :: bool
  usuarioId :: string
  hangfireJobId :: "string option"

text \<open>\<^verbatim>\<open>Partial<...>\<close> of it: a field that is present holds the new value.\<close>

record 'n gasto_programado_partial =
  id' :: "string option"
  conceptoId :: "string option"
  conceptoNombre :: "string option"
  categoriaId :: "string option"
  categoriaNombre :: "string option"
  proveedorId :: "(string option) option"
  proveedorNombre :: "string option"
  personaId :: "(string option) option"
  personaNombre :: "string option"
  cuentaId :: "string option"
  cuentaNombre :: "string option"
  formaPagoId :: "(string option) option"
  formaPagoNombre :: "string option"
  importe :: "'n option"
  descripcion :: "(string option) option"
  fechaEjecucion :: "int option"
  frecuencia :: "frecuencia option"
  activo :: "bool option"
  usuarioId :: "string option"
  hangfireJobId :: "(string option) option"

definition spread_gasto_programado :: "'n gasto_programado \<Rightarrow> 'n gasto_programado_partial \<Rightarrow> 'n gasto_programado" where
  "spread_gasto_programado c p =
     \<lparr>gasto_programado.id' = override (gasto_programado.id' c) (gasto_programado_partial.id' p),
      gasto_programado.conceptoId = override (gasto_programado.conceptoId c) (gasto_programado_partial.conceptoId p),
      gasto_programado.conceptoNombre = override (gasto_programado.conceptoNombre c) (gasto_programado_partial.conceptoNombre p),
      gasto_programado.categoriaId = override (gasto_programado.categoriaId c) (gasto_programado_partial.categoriaId p),
      gasto_programado.categoriaNombre = override (gasto_programado.categoriaNombre c) (gasto_programado_partial.categoriaNombre p),
      gasto_programado.proveedorId = override (gasto_programado.proveedorId c) (gasto_programado_partial.proveedorId p),
      gasto_programado.proveedorNombre = override (gasto_programado.proveedorNombre c) (gasto_programado_partial.proveedorNombre p),
      gasto_programado.personaId = override (gasto_programado.personaId c) (gasto_programado_partial.personaId p),
      gasto_programado.personaNombre = override (gasto_programado.personaNombre c) (gasto_programado_partial.personaNombre p),
      gasto_programado.cuentaId = override (gasto_programado.cuentaId c) (gasto_programado_partial.cuentaId p),
      gasto_programado.cuentaNombre = override (gasto_programado.cuentaNombre c) (gasto_programado_partial.cuentaNombre p),
      gasto_programado.formaPagoId = override (gasto_programado.formaPagoId c) (gasto_programado_partial.formaPagoId p),
      gasto_programado.formaPagoNombre = override (gasto_programado.formaPagoNombre c) (gasto_programado_partial.formaPagoNombre p),
      gasto_programado.importe = override (gasto_programado.importe c) (gasto_programado_partial.importe p),
      gasto_programado.descripcion = override (gasto_programado.descripcion c) (gasto_programado_partial.descripcion p),
      gasto_programado.fechaEjecucion = override (gasto_programado.fechaEjecucion c) (gasto_programado_partial.fechaEjecucion p),
      gasto_programado.frecuencia = override (gasto_programado.frecuencia c) (gasto_programado_partial.frecuencia p),
      gasto_programado.activo = override (gasto_programado.activo c) (gasto_programado_partial.activo p),
      gasto_programado.usuarioId = override (gasto_programado.usuarioId c) (gasto_programado_partial.usuarioId p),
      gasto_programado.hangfireJobId = override (gasto_programado.hangfireJobId c) (gasto_programado_partial.hangfireJobId p)\<rparr>"

text \<open>The argument of \<^verbatim>\<open>createGasto\<close> (typed \<^verbatim>\<open>any\<close>), with the properties the store reads; \<^verbatim>\<open>activo\<close> may be absent (\<^verbatim>\<open>gasto.activo ?? true\<close>).\<close>

record 'n gasto_programado_input =
  conceptoId :: string
  categoriaId :: string
  proveedorId :: "string option"
  personaId :: "string option"
  cuentaId :: string
  formaPagoId :: "string option"
  importe :: 'n
  descripcion :: "string option"
  fechaEjecucion :: int
  frecuencia :: frecuencia
  activo :: "bool option"

record 'n GastosProgramadosState =
  gastosProgramados :: "'n gasto_programado list"
  selectedGasto :: "'n gasto_programado option"
  loading :: bool
  error :: "string option"
  totalRecords :: int

text \<open>\<^verbatim>\<open>tempGasto\<close> of \<^verbatim>\<open>createGasto\<close>.\<close>

definition tempGastoProgramado ::
  "int \<Rightarrow> 'n gasto_programado_input \<Rightarrow> 'n gasto_programado" where
  "tempGastoProgramado now g =
     \<lparr>gasto_programado.id' = tempId now,
      gasto_programado.conceptoId = gasto_programado_input.conceptoId g,
      gasto_programado.conceptoNombre = '''',
      gasto_programado.categoriaId = gasto_programado_input.categoriaId g,
      gasto_programado.categoriaNombre = '''',
      gasto_programado.proveedorId = gasto_programado_input.proveedorId g,
      gasto_programado.proveedorNombre = '''',
      gasto_programado.personaId = gasto_programado_input.personaId g,
      gasto_programado.personaNombre = '''',
      gasto_programado.cuentaId = gasto_programado_input.cuentaId g,
      gasto_programado.cuentaNombre = '''',
      gasto_programado.formaPagoId = gasto_programado_input.formaPagoId g,
      gasto_programado.formaPagoNombre = '''',
      gasto_programado.importe = gasto_programado_input.importe g,
      gasto_programado.descripcion = gasto_programado_input.descripcion g,
      gasto_programado.fechaEjecucion = gasto_programado_input.fechaEjecucion g,
      gasto_programado.frecuencia = gasto_programado_input.frecuencia g,
      gasto_programado.activo = (case gasto_programado_input.activo g of None \<Rightarrow> True | Some b \<Rightarrow> b),
      gasto_programado.usuarioId = '''',
      gasto_programado.hangfireJobId = None\<rparr>"

text \<open>createGasto, the \<^verbatim>\<open>switchMap\<close> projection up to the request.\<close>

definition GastosProgramadosStore_createGasto_project ::
  "int \<Rightarrow> 'n gasto_programado_input \<Rightarrow> 'n GastosProgramadosState \<Rightarrow> 'n GastosProgramadosState" where
  "GastosProgramadosStore_createGasto_project now g s =
     s\<lparr>GastosProgramadosState.gastosProgramados :=
         tempGastoProgramado now g # GastosProgramadosState.gastosProgramados s,
       GastosProgramadosState.totalRecords := GastosProgramadosState.totalRecords s + 1,
       GastosProgramadosState.loading := True\<rparr>"

text \<open>update, up to the \<^verbatim>\<open>await\<close>: the captured \<^verbatim>\<open>gastoAnterior\<close> and the state.\<close>

definition GastosProgramadosStore_update_begin ::
  "string \<Rightarrow> 'n gasto_programado_partial \<Rightarrow> 'n GastosProgramadosState
     \<Rightarrow> 'n gasto_programado option \<times> 'n GastosProgramadosState" where
  "GastosProgramadosStore_update_begin ident p s =
     (let gastoAnterior =
            find (\<lambda>g. gasto_programado.id' g = ident) (GastosProgramadosState.gastosProgramados s)
      in (gastoAnterior,
          s\<lparr>GastosProgramadosState.gastosProgramados :=
              map (\<lambda>g. if gasto_programado.id' g = ident then spread_gasto_programado g p else g)
                (GastosProgramadosState.gastosProgramados s),
            GastosProgramadosState.loading := True\<rparr>))"

text \<open>deleteGasto, the \<^verbatim>\<open>switchMap\<close> projection up to the request.\<close>

definition GastosProgramadosStore_deleteGasto_project ::
  "string \<Rightarrow> 'n GastosProgramadosState
     \<Rightarrow> ('n gasto_programado option \<times> int) \<times> 'n GastosProgramadosState" where
  "GastosProgramadosStore_deleteGasto_project ident s =
     (let gastoEliminado =
            find (\<lambda>g. gasto_programado.id' g = ident) (GastosProgramadosState.gastosProgramados s);
          totalAnterior = GastosProgramadosState.totalRecords s
      in ((gastoEliminado, totalAnterior),
          s\<lparr>GastosProgramadosState.gastosProgramados :=
              filter (\<lambda>g. gasto_programado.id' g \<noteq> ident)
                (GastosProgramadosState.gastosProgramados s),
            GastosProgramadosState.totalRecords := GastosProgramadosState.totalRecords s - 1\<rparr>))"

section \<open>IngresosProgramadosStore (ingresos-programados.store.ts)\<close>

text \<open>An IngresoProgramado: the fields of the class (ingreso-programado.model.ts) and those that \<^verbatim>\<open>createIngreso\<close> writes besides.\<close>

record 'n ingreso_programado =
  id' :: string
  conceptoId :: string
  conceptoNombre :: string
  categoriaId :: string
  categoriaNombre :: string
  clienteId :: "string option"
  clienteNombre :: string
  personaId :: "string option"
  personaNombre :: string
  cuentaId :: string
  cuentaNombre :: string
  formaPagoId :: "string option"
  formaPagoNombre :: string
  importe :: 'n
  descripcion :: "string option"
  fechaEjecucion :: int
  frecuencia :: frecuencia
  activo :: bool
  usuarioId :: string
  hangfireJobId :: "string option"

text \<open>\<^verbatim>\<open>Partial<...>\<close> of it: a field that is present holds the new value.\<close>

record 'n ingreso_programado_partial =
  id' :: "string option"
  conceptoId :: "string option"
  conceptoNombre :: "string option"
  categoriaId :: "string option"
  categoriaNombre :: "string option"
  clienteId :: "(string option) option"
  clienteNombre :: "string option"
  personaId :: "(string option) option"
  personaNombre :: "string option"
  cuentaId :: "string option"
  cuentaNombre :: "string option"
  formaPagoId :: "(string option) option"
  formaPagoNombre :: "string option"
  importe :: "'n option"
  descripcion :: "(string option) option"
  fechaEjecucion :: "int option"
  frecuencia :: "frecuencia option"
  activo :: "bool option"
  usuarioId :: "string option"
  hangfireJobId :: "(string option) option"

definition spread_ingreso_programado :: "'n ingreso_programado \<Rightarrow> 'n ingreso_programado_partial \<Rightarrow> 'n ingreso_programado" where
  "spread_ingreso_programado c p =
     \<lparr>ingreso_programado.id' = override (ingreso_programado.id' c) (ingreso_programado_partial.id' p),
      ingreso_programado.conceptoId = override (ingreso_programado.conceptoId c) (ingreso_programado_partial.conceptoId p),
      ingreso_programado.conceptoNombre = override (ingreso_programado.conceptoNombre c) (ingreso_programado_partial.conceptoNombre p),
      ingreso_programado.categoriaId = override (ingreso_programado.categoriaId c) (ingreso_programado_partial.categoriaId p),
      ingreso_programado.categoriaNombre = override (ingreso_programado.categoriaNombre c) (ingreso_programado_partial.categoriaNombre p),
      ingreso_programado.clienteId = override (ingreso_programado.clienteId c) (ingreso_programado_partial.clienteId p),
      ingreso_programado.clienteNombre = override (ingreso_programado.clienteNombre c) (ingreso_programado_partial.clienteNombre p),
      ingreso_programado.personaId = override (ingreso_programado.personaId c) (ingreso_programado_partial.personaId p),
      ingreso_programado.personaNombre = override (ingreso_programado.personaNombre c) (ingreso_programado_partial.personaNombre p),
      ingreso_programado.cuentaId = override (ingreso_programado.cuentaId c) (ingreso_programado_partial.cuentaId p),
      ingreso_programado.cuentaNombre = override (ingreso_programado.cuentaNombre c) (ingreso_programado_partial.cuentaNombre p),
      ingreso_programado.formaPagoId = override (ingreso_programado.formaPagoId c) (ingreso_programado_partial.formaPagoId p),
      ingreso_programado.formaPagoNombre = override (ingreso_programado.formaPagoNombre c) (ingreso_programado_partial.formaPagoNombre p),
      ingreso_programado.importe = override (ingreso_programado.importe c) (ingreso_programado_partial.importe p),
      ingreso_programado.descripcion = override (ingreso_programado.descripcion c) (ingreso_programado_partial.descripcion p),
      ingreso_programado.fechaEjecucion = override (ingreso_programado.fechaEjecucion c) (ingreso_programado_partial.fechaEjecucion p),
      ingreso_programado.frecuencia = override (ingreso_programado.frecuencia c) (ingreso_programado_partial.frecuencia p),
      ingreso_programado.activo = override (ingreso_programado.activo c) (ingreso_programado_partial.activo p),
      ingreso_programado.usuarioId = override (ingreso_programado.usuarioId c) (ingreso_programado_partial.usuarioId p),
      ingreso_programado.hangfireJobId = override (ingreso_programado.hangfireJobId c) (ingreso_programado_partial.hangfireJobId p)\<rparr>"

record 'n ingreso_programado_input =
  conceptoId :: string
  categoriaId :: string
  clienteId :: "string option"
  personaId :: "string option"
  cuentaId :: string
  formaPagoId :: "string option"
  importe :: 'n
  descripcion :: "string option"
  fechaEjecucion :: int
  frecuencia :: frecuencia
  activo :: "bool option"

record 'n IngresosProgramadosState =
  ingresosProgramados :: "'n ingreso_programado list"
  selectedIngreso :: "'n ingreso_programado option"
  loading :: bool
  error :: "string option"
  totalRecords :: int

subsection \<open>The version whose create and update are pipelines\<close>

text \<open>createIngreso: the \<^verbatim>\<open>tap\<close> before the request and the \<^verbatim>\<open>next\<close> handler.\<close>

definition IngresosProgramadosStore_createIngreso_tap ::
  "'n IngresosProgramadosState \<Rightarrow> 'n IngresosProgramadosState" where
  "IngresosProgramadosStore_createIngreso_tap s = s\<lparr>IngresosProgramadosState.loading := True\<rparr>"

definition IngresosProgramadosStore_createIngreso_next ::
  "'n IngresosProgramadosState \<Rightarrow> 'n IngresosProgramadosState" where
  "IngresosProgramadosStore_createIngreso_next s =
     s\<lparr>IngresosProgramadosState.loading := False, IngresosProgramadosState.error := None\<rparr>"

text \<open>updateIngreso: the \<^verbatim>\<open>tap\<close> before the request and the \<^verbatim>\<open>next\<close> handler.\<close>

definition IngresosProgramadosStore_updateIngreso_tap ::
  "'n IngresosProgramadosState \<Rightarrow> 'n IngresosProgramadosState" where
  "IngresosProgramadosStore_updateIngreso_tap s = s\<lparr>IngresosProgramadosState.loading := True\<rparr>"

definition IngresosProgramadosStore_updateIngreso_next ::
  "string \<Rightarrow> 'n ingreso_programado \<Rightarrow> 'n IngresosProgramadosState \<Rightarrow> 'n IngresosProgramadosState" where
  "IngresosProgramadosStore_updateIngreso_next ident updatedIngreso s =
     s\<lparr>IngresosProgramadosState.ingresosProgramados :=
         map (\<lambda>i. if ingreso_programado.id' i = ident then updatedIngreso else i)
           (IngresosProgramadosState.ingresosProgramados s),
       IngresosProgramadosState.loading := False,
       IngresosProgramadosState.error := None\<rparr>"

text \<open>deleteIngreso: the \<^verbatim>\<open>tap\<close> before the request.\<close>

definition IngresosProgramadosStore_deleteIngreso_tap ::
  "string \<Rightarrow> 'n IngresosProgramadosState \<Rightarrow> 'n IngresosProgramadosState" where
  "IngresosProgramadosStore_deleteIngreso_tap ident s =
     s\<lparr>IngresosProgramadosState.ingresosProgramados :=
         filter (\<lambda>i. ingreso_programado.id' i \<noteq> ident)
           (IngresosProgramadosState.ingresosProgramados s)\<rparr>"

text \<open>toggleActivo has no \<^verbatim>\<open>tap\<close>: nothing is patched before the request. Its \<^verbatim>\<open>next\<close> handler:\<close>

definition IngresosProgramadosStore_toggleActivo_next ::
  "string \<Rightarrow> bool \<Rightarrow> 'n IngresosProgramadosState \<Rightarrow> 'n IngresosProgramadosState" where
  "IngresosProgramadosStore_toggleActivo_next ident act s =
     s\<lparr>IngresosProgramadosState.ingresosProgramados :=
         map (\<lambda>i. if ingreso_programado.id' i = ident then i\<lparr>ingreso_programado.activo := act\<rparr> else i)
           (IngresosProgramadosState.ingresosProgramados s),
       IngresosProgramadosState.error := None\<rparr>"

subsection \<open>The version with temporary records\<close>

text \<open>\<^verbatim>\<open>tempIngreso\<close> of \<^verbatim>\<open>createIngreso\<close>.\<close>

definition tempIngresoProgramado ::
  "int \<Rightarrow> 'n ingreso_programado_input \<Rightarrow> 'n ingreso_programado" where
  "tempIngresoProgramado now g =
     \<lparr>ingreso_programado.id' = tempId now,
      ingreso_programado.conceptoId = ingreso_programado_input.conceptoId g,
      ingreso_programado.conceptoNombre = '''',
      ingreso_programado.categoriaId = ingreso_programado_input.categoriaId g,
      ingreso_programado.categoriaNombre = '''',
      ingreso_programado.clienteId = ingreso_programado_input.clienteId g,
      ingreso_programado.clienteNombre = '''',
      ingreso_programado.personaId = ingreso_programado_input.personaId g,
      ingreso_programado.personaNombre = '''',
      ingreso_programado.cuentaId = ingreso_programado_input.cuentaId g,
      ingreso_programado.cuentaNombre = '''',
      ingreso_programado.formaPagoId = ingreso_programado_input.formaPagoId g,
      ingreso_programado.formaPagoNombre = '''',
      ingreso_programado.importe = ingreso_programado_input.importe g,
      ingreso_programado.descripcion = ingreso_programado_input.descripcion g,
      ingreso_programado.fechaEjecucion = ingreso_programado_input.fechaEjecucion g,
      ingreso_programado.frecuencia = ingreso_programado_input.frecuencia g,
      ingreso_programado.activo = (case ingreso_programado_input.activo g of None \<Rightarrow> True | Some b \<Rightarrow> b),
      ingreso_programado.usuarioId = '''',
      ingreso_programado.hangfireJobId = None\<rparr>"

text \<open>createIngreso, the \<^verbatim>\<open>switchMap\<close> projection up to the request.\<close>

definition IngresosProgramadosStore_createIngreso_project ::
  "int \<Rightarrow> 'n ingreso_programado_input \<Rightarrow> 'n IngresosProgramadosState \<Rightarrow> 'n IngresosProgramadosState" where
  "IngresosProgramadosStore_createIngreso_project now g s =
     s\<lparr>IngresosProgramadosState.ingresosProgramados :=
         tempIngresoProgramado now g # IngresosProgramadosState.ingresosProgramados s,
       IngresosProgramadosState.totalRecords := IngresosProgramadosState.totalRecords s + 1,
       IngresosProgramadosState.loading := True\<rparr>"

text \<open>update, up to the \<^verbatim>\<open>await\<close>: the captured \<^verbatim>\<open>ingresoAnterior\<close> and the state.\<close>

definition IngresosProgramadosStore_update_begin ::
  "string \<Rightarrow> 'n ingreso_programado_partial \<Rightarrow> 'n IngresosProgramadosState
     \<Rightarrow> 'n ingreso_programado option \<times> 'n IngresosProgramadosState" where
  "IngresosProgramadosStore_update_begin ident p s =
     (let ingresoAnterior =
            find (\<lambda>i. ingreso_programado.id' i = ident)
              (IngresosProgramadosState.ingresosProgramados s)
      in (ingresoAnterior,
          s\<lparr>IngresosProgramadosState.ingresosProgramados :=
              map (\<lambda>i. if ingreso_programado.id' i = ident then spread_ingreso_programado i p else i)
                (IngresosProgramadosState.ingresosProgramados s),
            IngresosProgramadosState.loading := True\<rparr>))"

text \<open>deleteIngreso, the \<^verbatim>\<open>switchMap\<close> projection up to the request.\<close>

definition IngresosProgramadosStore_deleteIngreso_project ::
  "string \<Rightarrow> 'n IngresosProgramadosState
     \<Rightarrow> ('n ingreso_programado option \<times> int) \<times> 'n IngresosProgramadosState" where
  "IngresosProgramadosStore_deleteIngreso_project ident s =
     (let ingresoEliminado =
            find (\<lambda>i. ingreso_programado.id' i = ident)
              (IngresosProgramadosState.ingresosProgramados s);
          totalAnterior = IngresosProgramadosState.totalRecords s
      in ((ingresoEliminado, totalAnterior),
          s\<lparr>IngresosProgramadosState.ingresosProgramados :=
              filter (\<lambda>i. ingreso_programado.id' i \<noteq> ident)
                (IngresosProgramadosState.ingresosProgramados s),
            IngresosProgramadosState.totalRecords := IngresosProgramadosState.totalRecords s - 1\<rparr>))"

text \<open>The \<^verbatim>\<open>switchMap\<close> projection of toggleActivo sends the request and patches nothing.\<close>

definition IngresosProgramadosStore_toggleActivo_project ::
  "string \<Rightarrow> bool \<Rightarrow> 'n IngresosProgramadosState \<Rightarrow> 'n IngresosProgramadosState" where
  "IngresosProgramadosStore_toggleActivo_project ident act s = s"

definition IngresosProgramadosStore_initialState :: "'n IngresosProgramadosState" where
  "IngresosProgramadosStore_initialState =
     \<lparr>ingresosProgramados = [], selectedIngreso = None, loading = False, error = None,
      totalRecords = 0\<rparr>"

section \<open>Example values of the scheduled incomes\<close>

definition example_ingreso_programado :: "int ingreso_programado" where
  "example_ingreso_programado =
     \<lparr>ingreso_programado.id' = ''ip-1'',
      ingreso_programado.conceptoId = ''c-9'',
      ingreso_programado.conceptoNombre = ''Alquiler'',
      ingreso_programado.categoriaId = ''cat-2'',
      ingreso_programado.categoriaNombre = ''Casa'',
      ingreso_programado.clienteId = Some ''cli-1'',
      ingreso_programado.clienteNombre = ''Ana'',
      ingreso_programado.personaId = None,
      ingreso_programado.personaNombre = '''',
      ingreso_programado.cuentaId = ''cu-1'',
      ingreso_programado.cuentaNombre = ''Banco'',
      ingreso_programado.formaPagoId = None,
      ingreso_programado.formaPagoNombre = '''',
      ingreso_programado.importe = 700,
      ingreso_programado.descripcion = None,
      ingreso_programado.fechaEjecucion = 0,
      ingreso_programado.frecuencia = MENSUAL,
      ingreso_programado.activo = True,
      ingreso_programado.usuarioId = ''u1'',
      ingreso_programado.hangfireJobId = None\<rparr>"

definition example_IngresosProgramadosState :: "int IngresosProgramadosState" where
  "example_IngresosProgramadosState =
     IngresosProgramadosStore_initialState
       \<lparr>IngresosProgramadosState.ingresosProgramados := [example_ingreso_programado],
        IngresosProgramadosState.totalRecords := 1\<rparr>"

section \<open>Decimal numerals are injective\<close>

lemma digit_char_inj: "d < 10 \<Longrightarrow> e < 10 \<Longrightarrow> digit_char d = digit_char e \<Longrightarrow> d = e"
  by (simp add: digit_char_def char_of_eq_iff take_bit_eq_mod)

lemma digit_char_not_minus: "d < 10 \<Longrightarrow> digit_char d \<noteq> CHR ''-''"
proof
  assume d: "d < 10" and eq: "digit_char d = CHR ''-''"
  have "of_char (digit_char d) = (48 + d) mod 256"
    by (simp add: digit_char_def of_char_of take_bit_eq_mod)
  with eq d show False by simp
qed

lemma dec_nat_nonempty: "dec_nat n \<noteq> []"
  by (subst dec_nat.simps) simp

lemma dec_nat_hd_not_minus: "hd (dec_nat n) \<noteq> CHR ''-''"
proof (induction n rule: dec_nat.induct)
  case (1 n)
  show ?case
  proof (cases "n < 10")
    case True
    then show ?thesis
      by (subst dec_nat.simps) (simp add: digit_char_not_minus)
  next
    case False
    with 1 show ?thesis
      by (subst dec_nat.simps) (simp add: dec_nat_nonempty)
  qed
qed

lemma dec_nat_length_one: "length (dec_nat n) = 1 \<longleftrightarrow> n < 10"
proof (cases "n < 10")
  case True
  then show ?thesis by (subst dec_nat.simps) simp
next
  case False
  have "length (dec_nat (n div 10)) > 0"
    using dec_nat_nonempty by blast
  with False show ?thesis by (subst dec_nat.simps) simp
qed

lemma dec_nat_inj: "dec_nat n = dec_nat m \<Longrightarrow> n = m"
proof (induction n arbitrary: m rule: dec_nat.induct)
  case (1 n)
  show ?case
  proof (cases "n < 10")
    case True
    with "1.prems" have m: "m < 10"
      using dec_nat_length_one by metis
    from True m "1.prems" have "[digit_char n] = [digit_char m]"
      by (simp add: dec_nat.simps [of n] dec_nat.simps [of m])
    with True m show ?thesis by (simp add: digit_char_inj)
  next
    case False
    with "1.prems" have m: "\<not> m < 10"
      using dec_nat_length_one by metis
    from False m "1.prems"
    have "dec_nat (n div 10) @ [digit_char (n mod 10)] = dec_nat (m div 10) @ [digit_char (m mod 10)]"
      by (simp add: dec_nat.simps [of n] dec_nat.simps [of m])
    then have q: "dec_nat (n div 10) = dec_nat (m div 10)"
      and r: "digit_char (n mod 10) = digit_char (m mod 10)"
      by simp_all
    from "1.IH" [OF False q] have "n div 10 = m div 10" .
    moreover from r have "n mod 10 = m mod 10"
      by (simp add: digit_char_inj)
    ultimately show ?thesis
      by (metis div_mult_mod_eq)
  qed
qed

lemma number_toString_inj: "number_toString i = number_toString j \<Longrightarrow> i = j"
proof -
  assume eq: "number_toString i = number_toString j"
  have neg: "hd (number_toString k) = CHR ''-'' \<longleftrightarrow> k < 0" for k
    by (simp add: number_toString_def dec_nat_hd_not_minus)
  from eq neg [of i] neg [of j] have same: "i < 0 \<longleftrightarrow> j < 0" by simp
  show "i = j"
  proof (cases "i < 0")
    case True
    with same eq have "dec_nat (nat (- i)) = dec_nat (nat (- j))"
      by (simp add: number_toString_def)
    then have "nat (- i) = nat (- j)" by (rule dec_nat_inj)
    with True same show ?thesis by simp
  next
    case False
    with same eq have "dec_nat (nat i) = dec_nat (nat j)"
      by (simp add: number_toString_def)
    then have "nat i = nat j" by (rule dec_nat_inj)
    with False same show ?thesis by simp
  qed
qed

section \<open>Temporary identifiers\<close>

lemma tempId_1000: "tempId 1000 = ''temp_1000''"
  by code_simp

lemma tempId_not_example:
  "tempId now \<noteq> ''cat-1''" "tempId now \<noteq> ''cat-2''" "tempId now \<noteq> ''cat-7''"
  "tempId now \<noteq> ''g-1''" "tempId now \<noteq> ''g-7''"
  "tempId now \<noteq> ''cli-1''" "tempId now \<noteq> ''cli-2''"
  by (simp_all add: tempId_def)

text \<open>
  C10. The temporary identifier of an optimistic create is exactly the string
  \<open>temp_\<close> followed by the clock reading in milliseconds; so two creates receive the same
  temporary identifier exactly when they start in the same millisecond: distinct
  milliseconds give distinct identifiers, the same millisecond gives the identical one.
\<close>

theorem tempId_format_and_collision:
  "tempId now = ''temp_'' @ number_toString now \<and> (tempId t1 = tempId t2 \<longleftrightarrow> t1 = t2)"
  using number_toString_inj [of t1 t2] by (auto simp: tempId_def)

section \<open>Lists rewritten by identifier\<close>

lemma map_if_absent: "i \<notin> f ` set xs \<Longrightarrow> map (\<lambda>c. if f c = i then h c else c) xs = xs"
  by (induction xs) auto

lemma filter_eq_absent: "i \<notin> f ` set xs \<Longrightarrow> filter (\<lambda>c. f c = i) xs = []"
  by (induction xs) auto

lemma find_filter_removed: "find (\<lambda>c. f c = i) (filter (\<lambda>c. f c \<noteq> i) xs) = None"
  by (simp add: find_None_iff)

lemma rollback_map_iff:
  "map (\<lambda>c. if f c = i then old else c) (map (\<lambda>c. if f c = i then g c else c) xs) = xs
   \<longleftrightarrow> (\<forall>c\<in>set xs. f c = i \<longrightarrow> (if f (g c) = i then old else g c) = c)"
  by (induction xs) auto

lemma find_first_member:
  "R \<in> set xs \<Longrightarrow> \<forall>c\<in>set xs. f c = f R \<longrightarrow> c = R \<Longrightarrow> find (\<lambda>c. f c = f R) xs = Some R"
  by (induction xs) auto

section \<open>Failed updates\<close>

lemma spread_categoria_id:
  "categoria.id' (spread_categoria c p) = override (categoria.id' c) (categoria_partial.id' p)"
  by (simp add: spread_categoria_def)

lemma spread_cliente_id:
  "cliente.id' (spread_cliente c p) = override (cliente.id' c) (cliente_partial.id' p)"
  by (simp add: spread_cliente_def)

text \<open>The collection after an update that fails, when a record with the identifier is present.\<close>

lemma CategoriaStore_update_rejected:
  assumes "find (\<lambda>c. categoria.id' c = ident) (CategoriaState.categorias s) = Some old"
    and "fst (CategoriaStore_update ident p now reply s) = Rejected e"
  shows "CategoriaState.categorias (snd (CategoriaStore_update ident p now reply s))
     = map (\<lambda>c. if categoria.id' c = ident then old else c)
         (map (\<lambda>c. if categoria.id' c = ident then spread_categoria c p else c)
            (CategoriaState.categorias s))"
  using assms
  by (auto simp: CategoriaStore_update_def CategoriaStore_update_begin_def
      CategoriaStore_update_resume_def CategoriaStore_update_catch_def
      split: observed.splits if_splits)

lemma ClienteStore_update_rejected:
  assumes "find (\<lambda>c. cliente.id' c = ident) (ClienteState.clientes s) = Some old"
    and "fst (ClienteStore_update ident p now reply s) = Rejected e"
  shows "ClienteState.clientes (snd (ClienteStore_update ident p now reply s))
     = map (\<lambda>c. if cliente.id' c = ident then old else c)
         (map (\<lambda>c. if cliente.id' c = ident then spread_cliente c p else c)
            (ClienteState.clientes s))"
  using assms
  by (auto simp: ClienteStore_update_def ClienteStore_update_begin_def
      ClienteStore_update_resume_def ClienteStore_update_catch_def
      split: observed.splits if_splits)

lemma CategoriaStore_update_rollback:
  assumes "R \<in> set (CategoriaState.categorias s)"
    and "\<forall>c\<in>set (CategoriaState.categorias s). categoria.id' c = categoria.id' R \<longrightarrow> c = R"
    and "categoria_partial.id' p = None \<or> categoria_partial.id' p = Some (categoria.id' R)"
    and "fst (CategoriaStore_update (categoria.id' R) p now reply s) = Rejected e"
  shows "CategoriaState.categorias (snd (CategoriaStore_update (categoria.id' R) p now reply s))
           = CategoriaState.categorias s"
proof -
  have found: "find (\<lambda>c. categoria.id' c = categoria.id' R) (CategoriaState.categorias s) = Some R"
    using assms(1,2) by (rule find_first_member)
  have "\<forall>c\<in>set (CategoriaState.categorias s). categoria.id' c = categoria.id' R \<longrightarrow>
          (if categoria.id' (spread_categoria c p) = categoria.id' R then R
           else spread_categoria c p) = c"
    using assms(2,3) by (auto simp: spread_categoria_id override_def)
  then show ?thesis
    unfolding CategoriaStore_update_rejected [OF found assms(4)] rollback_map_iff .
qed

lemma ClienteStore_update_rollback:
  assumes "R \<in> set (ClienteState.clientes s)"
    and "\<forall>c\<in>set (ClienteState.clientes s). cliente.id' c = cliente.id' R \<longrightarrow> c = R"
    and "cliente_partial.id' p = None \<or> cliente_partial.id' p = Some (cliente.id' R)"
    and "fst (ClienteStore_update (cliente.id' R) p now reply s) = Rejected e"
  shows "ClienteState.clientes (snd (ClienteStore_update (cliente.id' R) p now reply s))
           = ClienteState.clientes s"
proof -
  have found: "find (\<lambda>c. cliente.id' c = cliente.id' R) (ClienteState.clientes s) = Some R"
    using assms(1,2) by (rule find_first_member)
  have "\<forall>c\<in>set (ClienteState.clientes s). cliente.id' c = cliente.id' R \<longrightarrow>
          (if cliente.id' (spread_cliente c p) = cliente.id' R then R
           else spread_cliente c p) = c"
    using assms(2,3) by (auto simp: spread_cliente_id override_def)
  then show ?thesis
    unfolding ClienteStore_update_rejected [OF found assms(4)] rollback_map_iff .
qed

text \<open>
  The two conditions are needed: when a record with the identifier is present and a failed
  update leaves the collection as it was, the partial update did not change the identifier
  and every record with the identifier equals the one the update captured.
\<close>

lemma CategoriaStore_update_rollback_only_if:
  assumes "find (\<lambda>c. categoria.id' c = ident) (CategoriaState.categorias s) = Some old"
    and "fst (CategoriaStore_update ident p now reply s) = Rejected e"
    and "CategoriaState.categorias (snd (CategoriaStore_update ident p now reply s))
           = CategoriaState.categorias s"
  shows "(categoria_partial.id' p = None \<or> categoria_partial.id' p = Some ident) \<and>
         (\<forall>c\<in>set (CategoriaState.categorias s). categoria.id' c = ident \<longrightarrow> c = old)"
proof -
  from assms(1) have mem: "old \<in> set (CategoriaState.categorias s)" and oid: "categoria.id' old = ident"
    by (auto simp: find_Some_iff in_set_conv_nth)
  from assms(3) have pt: "\<forall>c\<in>set (CategoriaState.categorias s). categoria.id' c = ident \<longrightarrow>
          (if categoria.id' (spread_categoria c p) = ident then old else spread_categoria c p) = c"
    unfolding CategoriaStore_update_rejected [OF assms(1,2)] rollback_map_iff .
  have idok: "categoria_partial.id' p = None \<or> categoria_partial.id' p = Some ident"
  proof (cases "categoria_partial.id' p")
    case None
    then show ?thesis by simp
  next
    case (Some j)
    from pt mem oid have "(if categoria.id' (spread_categoria old p) = ident then old
                           else spread_categoria old p) = old" by blast
    then have "categoria.id' (spread_categoria old p) = ident"
      using oid by (auto split: if_splits)
    with Some show ?thesis by (simp add: spread_categoria_id override_def)
  qed
  moreover from pt idok
  have "\<forall>c\<in>set (CategoriaState.categorias s). categoria.id' c = ident \<longrightarrow> c = old"
    by (auto simp: spread_categoria_id override_def split: if_splits)
  ultimately show ?thesis by simp
qed

lemma ClienteStore_update_rollback_only_if:
  assumes "find (\<lambda>c. cliente.id' c = ident) (ClienteState.clientes s) = Some old"
    and "fst (ClienteStore_update ident p now reply s) = Rejected e"
    and "ClienteState.clientes (snd (ClienteStore_update ident p now reply s))
           = ClienteState.clientes s"
  shows "(cliente_partial.id' p = None \<or> cliente_partial.id' p = Some ident) \<and>
         (\<forall>c\<in>set (ClienteState.clientes s). cliente.id' c = ident \<longrightarrow> c = old)"
proof -
  from assms(1) have mem: "old \<in> set (ClienteState.clientes s)" and oid: "cliente.id' old = ident"
    by (auto simp: find_Some_iff in_set_conv_nth)
  from assms(3) have pt: "\<forall>c\<in>set (ClienteState.clientes s). cliente.id' c = ident \<longrightarrow>
          (if cliente.id' (spread_cliente c p) = ident then old else spread_cliente c p) = c"
    unfolding ClienteStore_update_rejected [OF assms(1,2)] rollback_map_iff .
  have idok: "cliente_partial.id' p = None \<or> cliente_partial.id' p = Some ident"
  proof (cases "cliente_partial.id' p")
    case None
    then show ?thesis by simp
  next
    case (Some j)
    from pt mem oid have "(if cliente.id' (spread_cliente old p) = ident then old
                           else spread_cliente old p) = old" by blast
    then have "cliente.id' (spread_cliente old p) = ident"
      using oid by (auto split: if_splits)
    with Some show ?thesis by (simp add: spread_cliente_id override_def)
  qed
  moreover from pt idok
  have "\<forall>c\<in>set (ClienteState.clientes s). cliente.id' c = ident \<longrightarrow> c = old"
    by (auto simp: spread_cliente_id override_def split: if_splits)
  ultimately show ?thesis by simp
qed

text \<open>
  C1 (as amended). For a record R of the collection such that every record carrying the
  identifier of R equals R (so in particular when R is the only record with that
  identifier), and a partial update that does not change the identifier (it carries no id,
  or the id of R): an update of R that ends in failure leaves the collection exactly as it
  was before the call, in CategoriaStore and in ClienteStore.
\<close>

theorem update_rollback_exact:
  "(R \<in> set (CategoriaState.categorias s) \<and>
    (\<forall>c\<in>set (CategoriaState.categorias s). categoria.id' c = categoria.id' R \<longrightarrow> c = R) \<and>
    (categoria_partial.id' p = None \<or> categoria_partial.id' p = Some (categoria.id' R)) \<and>
    fst (CategoriaStore_update (categoria.id' R) p now reply s) = Rejected e
    \<longrightarrow> CategoriaState.categorias (snd (CategoriaStore_update (categoria.id' R) p now reply s))
          = CategoriaState.categorias s)
   \<and>
   (R' \<in> set (ClienteState.clientes s') \<and>
    (\<forall>c\<in>set (ClienteState.clientes s'). cliente.id' c = cliente.id' R' \<longrightarrow> c = R') \<and>
    (cliente_partial.id' p' = None \<or> cliente_partial.id' p' = Some (cliente.id' R')) \<and>
    fst (ClienteStore_update (cliente.id' R') p' now' reply' s') = Rejected e'
    \<longrightarrow> ClienteState.clientes (snd (ClienteStore_update (cliente.id' R') p' now' reply' s'))
          = ClienteState.clientes s')"
  using CategoriaStore_update_rollback ClienteStore_update_rollback by blast


theorem update_rollback_exact_witness:
  "\<not> distinct (map categoria.id' (CategoriaState.categorias example_CategoriaState_temporaries)) \<and>
   example_categoria \<in> set (CategoriaState.categorias example_CategoriaState_temporaries) \<and>
   filter (\<lambda>c. categoria.id' c = ''cat-1'')
     (CategoriaState.categorias example_CategoriaState_temporaries) = [example_categoria] \<and>
   fst (CategoriaStore_update ''cat-1''
          \<lparr>categoria_partial.id' = None, categoria_partial.nombre = Some ''Viajes'',
           categoria_partial.descripcion = None, categoria_partial.fechaCreacion = None,
           categoria_partial.usuarioId = None\<rparr>
          7 (Error example_error) example_CategoriaState_temporaries) = Rejected example_error \<and>
   CategoriaState.categorias (snd (CategoriaStore_update ''cat-1''
          \<lparr>categoria_partial.id' = None, categoria_partial.nombre = Some ''Viajes'',
           categoria_partial.descripcion = None, categoria_partial.fechaCreacion = None,
           categoria_partial.usuarioId = None\<rparr>
          7 (Error example_error) example_CategoriaState_temporaries))
     = CategoriaState.categorias example_CategoriaState_temporaries \<and>
   example_cliente \<in> set (ClienteState.clientes example_ClienteState) \<and>
   fst (ClienteStore_update ''cli-2''
          \<lparr>cliente_partial.id' = Some ''cli-2'', cliente_partial.nombre = Some ''Luisa'',
           cliente_partial.fechaCreacion = None, cliente_partial.usuarioId = None\<rparr>
          7 (Next \<lparr>isSuccess = False, value' = '''', error_message = None\<rparr>)
          example_ClienteState) = Rejected (new_Error ''Error al actualizar cliente'') \<and>
   ClienteState.clientes (snd (ClienteStore_update ''cli-2''
          \<lparr>cliente_partial.id' = Some ''cli-2'', cliente_partial.nombre = Some ''Luisa'',
           cliente_partial.fechaCreacion = None, cliente_partial.usuarioId = None\<rparr>
          7 (Next \<lparr>isSuccess = False, value' = '''', error_message = None\<rparr>)
          example_ClienteState)) = example_clientes"
proof -
  have cs: "CategoriaState.categorias example_CategoriaState_temporaries
      = example_categorias @
        [\<lparr>categoria.id' = tempId 1000, categoria.nombre = ''Bar'', categoria.descripcion = '''',
          categoria.fechaCreacion = 1000, categoria.usuarioId = ''''\<rparr>,
         \<lparr>categoria.id' = tempId 1000, categoria.nombre = ''Cine'', categoria.descripcion = '''',
          categoria.fechaCreacion = 1000, categoria.usuarioId = ''''\<rparr>]"
    by (simp add: example_CategoriaState_temporaries_def CategoriaStore_create_begin_def
        example_CategoriaState_def)
  have nd: "\<not> distinct (map categoria.id' (CategoriaState.categorias example_CategoriaState_temporaries))"
    by (simp add: cs)
  have m1: "example_categoria \<in> set (CategoriaState.categorias example_CategoriaState_temporaries)"
    by (simp add: cs example_categorias_def example_categoria_def)
  have u1: "\<forall>c\<in>set (CategoriaState.categorias example_CategoriaState_temporaries).
      categoria.id' c = ''cat-1'' \<longrightarrow> c = example_categoria"
    using tempId_not_example [of 1000]
    by (simp add: cs example_categorias_def example_categoria_def)
  have r1: "fst (CategoriaStore_update ''cat-1''
          \<lparr>categoria_partial.id' = None, categoria_partial.nombre = Some ''Viajes'',
           categoria_partial.descripcion = None, categoria_partial.fechaCreacion = None,
           categoria_partial.usuarioId = None\<rparr>
          7 (Error example_error) example_CategoriaState_temporaries) = Rejected example_error"
    by (simp add: CategoriaStore_update_def CategoriaStore_update_begin_def
        CategoriaStore_update_resume_def CategoriaStore_update_catch_def Let_def
        split: prod.splits)
  have m2: "example_cliente \<in> set (ClienteState.clientes example_ClienteState)"
    by (simp add: example_ClienteState_def example_clientes_def example_cliente_def)
  have u2: "\<forall>c\<in>set (ClienteState.clientes example_ClienteState).
      cliente.id' c = ''cli-2'' \<longrightarrow> c = example_cliente"
    by (simp add: example_ClienteState_def example_clientes_def example_cliente_def)
  have r2: "fst (ClienteStore_update ''cli-2''
          \<lparr>cliente_partial.id' = Some ''cli-2'', cliente_partial.nombre = Some ''Luisa'',
           cliente_partial.fechaCreacion = None, cliente_partial.usuarioId = None\<rparr>
          7 (Next \<lparr>isSuccess = False, value' = '''', error_message = None\<rparr>)
          example_ClienteState) = Rejected (new_Error ''Error al actualizar cliente'')"
    by (simp add: ClienteStore_update_def ClienteStore_update_begin_def
        ClienteStore_update_resume_def ClienteStore_update_catch_def Let_def or_else_def
        split: prod.splits)
  have i1: "categoria.id' example_categoria = ''cat-1''" by (simp add: example_categoria_def)
  have i2: "cliente.id' example_cliente = ''cli-2''" by (simp add: example_cliente_def)
  have c2: "ClienteState.clientes example_ClienteState = example_clientes"
    by (simp add: example_ClienteState_def)
  have f1: "filter (\<lambda>c. categoria.id' c = ''cat-1'')
     (CategoriaState.categorias example_CategoriaState_temporaries) = [example_categoria]"
    using tempId_not_example [of 1000]
    by (simp add: cs example_categorias_def example_categoria_def)
  from nd m1 u1 r1 m2 u2 r2 f1 show ?thesis
    using update_rollback_exact [of example_categoria example_CategoriaState_temporaries
        "\<lparr>categoria_partial.id' = None, categoria_partial.nombre = Some ''Viajes'',
           categoria_partial.descripcion = None, categoria_partial.fechaCreacion = None,
           categoria_partial.usuarioId = None\<rparr>" 7 "Error example_error" example_error
        example_cliente example_ClienteState
        "\<lparr>cliente_partial.id' = Some ''cli-2'', cliente_partial.nombre = Some ''Luisa'',
           cliente_partial.fechaCreacion = None, cliente_partial.usuarioId = None\<rparr>" 7
        "Next \<lparr>isSuccess = False, value' = '''', error_message = None\<rparr>"
        "new_Error ''Error al actualizar cliente''"]
    by (simp add: i1 i2 c2)
qed

text \<open>
  C1 as stated fails. A partial update that carries another identifier: the merged record
  then has the new identifier, the rollback looks for the old one and finds nothing, and
  the merged record stays. And a collection in which two records share an identifier (two
  creates of the same millisecond, both still temporary): the update merges into both and
  the rollback overwrites both with the first one.
\<close>

theorem update_rollback_counterexample:
  "CategoriaState.categorias (snd (CategoriaStore_update ''cat-1''
          \<lparr>categoria_partial.id' = Some ''cat-9'', categoria_partial.nombre = Some ''Viajes'',
           categoria_partial.descripcion = None, categoria_partial.fechaCreacion = None,
           categoria_partial.usuarioId = None\<rparr>
          7 (Error example_error) example_CategoriaState))
     = [\<lparr>categoria.id' = ''cat-9'', categoria.nombre = ''Viajes'', categoria.descripcion = '''',
         categoria.fechaCreacion = 0, categoria.usuarioId = ''u1''\<rparr>,
        \<lparr>categoria.id' = ''cat-2'', categoria.nombre = ''Casa'', categoria.descripcion = '''',
         categoria.fechaCreacion = 0, categoria.usuarioId = ''u1''\<rparr>]
   \<and> CategoriaState.categorias (snd (CategoriaStore_update ''cat-1''
          \<lparr>categoria_partial.id' = Some ''cat-9'', categoria_partial.nombre = Some ''Viajes'',
           categoria_partial.descripcion = None, categoria_partial.fechaCreacion = None,
           categoria_partial.usuarioId = None\<rparr>
          7 (Error example_error) example_CategoriaState))
     \<noteq> CategoriaState.categorias example_CategoriaState
   \<and> map categoria.nombre (CategoriaState.categorias
         (CategoriaStore_create_begin 1000 1000 ''Casa''
            (CategoriaStore_create_begin 1000 1000 ''Ocio'' CategoriaStore_initialState)))
     = [''Ocio'', ''Casa'']
   \<and> map categoria.nombre (CategoriaState.categorias (snd (CategoriaStore_update (tempId 1000)
          \<lparr>categoria_partial.id' = None, categoria_partial.nombre = Some ''Viajes'',
           categoria_partial.descripcion = None, categoria_partial.fechaCreacion = None,
           categoria_partial.usuarioId = None\<rparr>
          7 (Error example_error)
          (CategoriaStore_create_begin 1000 1000 ''Casa''
             (CategoriaStore_create_begin 1000 1000 ''Ocio'' CategoriaStore_initialState)))))
     = [''Ocio'', ''Ocio'']"
  by (simp add: CategoriaStore_update_def CategoriaStore_update_begin_def
      CategoriaStore_update_resume_def CategoriaStore_update_catch_def Let_def
      example_CategoriaState_def example_categorias_def spread_categoria_def override_def
      CategoriaStore_create_begin_def CategoriaStore_initialState_def)

section \<open>Failed deletes\<close>

lemma CategoriaStore_deleteCategoria_capture_after_tap:
  "CategoriaStore_deleteCategoria_capture ident (CategoriaStore_deleteCategoria_tap ident s)
     = (None, CategoriaState.totalRecords s - 1)"
  by (simp add: CategoriaStore_deleteCategoria_capture_def CategoriaStore_deleteCategoria_tap_def
      find_filter_removed)

lemma CategoriaStore_deleteCategoria_failure:
  "CategoriaStore_deleteCategoria localeCompare ident now (Error err) s
     = (CategoriaStore_deleteCategoria_tap ident s)
         \<lparr>CategoriaState.error :=
            Some (or_else (detail err) (''Error al eliminar categor'' @ i_acute @ ''a''))\<rparr>"
  by (simp add: CategoriaStore_deleteCategoria_def CategoriaStore_deleteCategoria_capture_after_tap
      CategoriaStore_deleteCategoria_error_def)

lemma ClienteStore_deleteCliente_failure_total:
  "ClienteState.totalRecords (ClienteStore_deleteCliente localeCompare ident now (Error err) s)
     = (if find (\<lambda>c. cliente.id' c = ident) (ClienteState.clientes s) = None
        then ClienteState.totalRecords s - 1 else ClienteState.totalRecords s)"
  by (simp add: ClienteStore_deleteCliente_def ClienteStore_deleteCliente_project_def
      ClienteStore_deleteCliente_error_def Let_def split: option.splits)

text \<open>
  C2. The claim is that a delete whose Gateway call fails puts the captured record back and
  restores total-count. CategoriaStore.deleteCategoria and GastosStore.deleteGasto do
  neither: on the two-record CategoriaStore a failed delete of \<open>cat-1\<close> leaves one record and
  total-count 1, and on the one-record GastosStore a failed delete of \<open>g-1\<close> leaves no
  record and total-count 0; only the error message is recorded.
\<close>

theorem delete_failure_not_rolled_back:
  "CategoriaState.categorias
     (CategoriaStore_deleteCategoria localeCompare ''cat-1'' 7 (Error example_error) example_CategoriaState)
     = [\<lparr>categoria.id' = ''cat-2'', categoria.nombre = ''Casa'', categoria.descripcion = '''',
         categoria.fechaCreacion = 0, categoria.usuarioId = ''u1''\<rparr>]
   \<and> CategoriaState.totalRecords
     (CategoriaStore_deleteCategoria localeCompare ''cat-1'' 7 (Error example_error) example_CategoriaState)
     = 1
   \<and> CategoriaState.totalRecords example_CategoriaState = 2
   \<and> GastosState.gastos (GastosStore_deleteGasto ''g-1'' 7 (Error example_error) example_GastosState) = []
   \<and> GastosState.totalRecords (GastosStore_deleteGasto ''g-1'' 7 (Error example_error) example_GastosState) = 0
   \<and> GastosState.totalRecords example_GastosState = 1
   \<and> GastosState.error (GastosStore_deleteGasto ''g-1'' 7 (Error example_error) example_GastosState)
     = Some ''Error al eliminar gasto''"
  by (simp add: CategoriaStore_deleteCategoria_failure CategoriaStore_deleteCategoria_tap_def
      example_CategoriaState_def example_categorias_def
      GastosStore_deleteGasto_def GastosStore_deleteGasto_tap_def GastosStore_deleteGasto_error_def
      example_GastosState_def example_gasto_def example_error_def or_else_def)

section \<open>Creates\<close>

lemma CategoriaStore_create_resolved:
  assumes "fst (CategoriaStore_create now date nom date' now' reply s) = Resolved x"
    and "tempId now \<notin> categoria.id' ` set (CategoriaState.categorias s)"
  shows "CategoriaState.categorias (snd (CategoriaStore_create now date nom date' now' reply s))
     = CategoriaState.categorias s @
         [\<lparr>categoria.id' = x, categoria.nombre = nom, categoria.descripcion = '''',
           categoria.fechaCreacion = date', categoria.usuarioId = ''''\<rparr>]"
  using assms(1) map_if_absent [OF assms(2)]
  by (auto simp: CategoriaStore_create_def CategoriaStore_create_begin_def
      CategoriaStore_create_resume_def CategoriaStore_create_catch_def
      split: observed.splits if_splits)

lemma GastosStore_createGasto_resolved:
  assumes "tempId now \<notin> gasto.id' ` set (GastosState.gastos s)"
  shows "GastosState.gastos (snd (GastosStore_createGasto now stores g now' (Next x) s))
     = (tempGasto now stores g)\<lparr>gasto.id' := x\<rparr> # GastosState.gastos s"
proof -
  have "gasto.id' (tempGasto now stores g) = tempId now"
    by (simp add: tempGasto_def)
  with map_if_absent [OF assms] show ?thesis
    by (simp add: GastosStore_createGasto_def GastosStore_createGasto_begin_def
        GastosStore_createGasto_resume_def)
qed

text \<open>
  C3 (as amended). When no record of the collection carries the temporary identifier or the
  identifier X that the Gateway returns, and X is not the temporary identifier itself, a
  create that succeeds with X leaves exactly one record with id X, at the position where the
  temporary record was (the end of the collection in CategoriaStore, the head in
  GastosStore), and no record with the temporary identifier.
\<close>

theorem create_reconciliation:
  "(tempId now \<notin> categoria.id' ` set (CategoriaState.categorias s) \<and>
    x \<notin> categoria.id' ` set (CategoriaState.categorias s) \<and> x \<noteq> tempId now \<and>
    fst (CategoriaStore_create now date nom date' now' reply s) = Resolved x
    \<longrightarrow> (let before = CategoriaState.categorias (CategoriaStore_create_begin now date nom s);
             after = CategoriaState.categorias
                       (snd (CategoriaStore_create now date nom date' now' reply s));
             position = length (CategoriaState.categorias s)
         in length after = length before \<and>
            categoria.id' (before ! position) = tempId now \<and>
            categoria.id' (after ! position) = x \<and>
            length (filter (\<lambda>c. categoria.id' c = x) after) = 1 \<and>
            filter (\<lambda>c. categoria.id' c = tempId now) after = []))
   \<and>
   (tempId t \<notin> gasto.id' ` set (GastosState.gastos gs) \<and>
    y \<notin> gasto.id' ` set (GastosState.gastos gs) \<and> y \<noteq> tempId t
    \<longrightarrow> (let before = GastosState.gastos
                        (GastosStore_createGasto_begin (tempGasto t stores g) gs);
             after = GastosState.gastos
                       (snd (GastosStore_createGasto t stores g t' (Next y) gs))
         in length after = length before \<and>
            gasto.id' (before ! 0) = tempId t \<and>
            gasto.id' (after ! 0) = y \<and>
            length (filter (\<lambda>c. gasto.id' c = y) after) = 1 \<and>
            filter (\<lambda>c. gasto.id' c = tempId t) after = []))"
proof (intro conjI impI)
  assume a: "tempId now \<notin> categoria.id' ` set (CategoriaState.categorias s) \<and>
    x \<notin> categoria.id' ` set (CategoriaState.categorias s) \<and> x \<noteq> tempId now \<and>
    fst (CategoriaStore_create now date nom date' now' reply s) = Resolved x"
  then have after: "CategoriaState.categorias (snd (CategoriaStore_create now date nom date' now' reply s))
     = CategoriaState.categorias s @
         [\<lparr>categoria.id' = x, categoria.nombre = nom, categoria.descripcion = '''',
           categoria.fechaCreacion = date', categoria.usuarioId = ''''\<rparr>]"
    by (simp add: CategoriaStore_create_resolved)
  have before: "CategoriaState.categorias (CategoriaStore_create_begin now date nom s)
     = CategoriaState.categorias s @
         [\<lparr>categoria.id' = tempId now, categoria.nombre = nom, categoria.descripcion = '''',
           categoria.fechaCreacion = date, categoria.usuarioId = ''''\<rparr>]"
    by (simp add: CategoriaStore_create_begin_def)
  from a have fx: "filter (\<lambda>c. categoria.id' c = x) (CategoriaState.categorias s) = []"
    and ft: "filter (\<lambda>c. categoria.id' c = tempId now) (CategoriaState.categorias s) = []"
    by (simp_all add: filter_eq_absent)
  from a show "let before = CategoriaState.categorias (CategoriaStore_create_begin now date nom s);
             after = CategoriaState.categorias
                       (snd (CategoriaStore_create now date nom date' now' reply s));
             position = length (CategoriaState.categorias s)
         in length after = length before \<and>
            categoria.id' (before ! position) = tempId now \<and>
            categoria.id' (after ! position) = x \<and>
            length (filter (\<lambda>c. categoria.id' c = x) after) = 1 \<and>
            filter (\<lambda>c. categoria.id' c = tempId now) after = []"
    unfolding after before Let_def by (simp add: fx ft)
next
  assume a: "tempId t \<notin> gasto.id' ` set (GastosState.gastos gs) \<and>
    y \<notin> gasto.id' ` set (GastosState.gastos gs) \<and> y \<noteq> tempId t"
  then have after: "GastosState.gastos (snd (GastosStore_createGasto t stores g t' (Next y) gs))
     = (tempGasto t stores g)\<lparr>gasto.id' := y\<rparr> # GastosState.gastos gs"
    by (simp add: GastosStore_createGasto_resolved)
  have before: "GastosState.gastos (GastosStore_createGasto_begin (tempGasto t stores g) gs)
     = tempGasto t stores g # GastosState.gastos gs"
    by (simp add: GastosStore_createGasto_begin_def)
  have tid: "gasto.id' (tempGasto t stores g) = tempId t"
    by (simp add: tempGasto_def)
  from a have fx: "filter (\<lambda>c. gasto.id' c = y) (GastosState.gastos gs) = []"
    and ft: "filter (\<lambda>c. gasto.id' c = tempId t) (GastosState.gastos gs) = []"
    by (simp_all add: filter_eq_absent)
  from a show "let before = GastosState.gastos
                        (GastosStore_createGasto_begin (tempGasto t stores g) gs);
             after = GastosState.gastos
                       (snd (GastosStore_createGasto t stores g t' (Next y) gs))
         in length after = length before \<and>
            gasto.id' (before ! 0) = tempId t \<and>
            gasto.id' (after ! 0) = y \<and>
            length (filter (\<lambda>c. gasto.id' c = y) after) = 1 \<and>
            filter (\<lambda>c. gasto.id' c = tempId t) after = []"
    unfolding after before Let_def by (simp add: fx ft tid)
qed

theorem create_reconciliation_witness:
  "fst (CategoriaStore_create 1000 1000 ''Viajes'' 1001 1001
          (Next \<lparr>isSuccess = True, value' = ''cat-7'', error_message = None\<rparr>)
          example_CategoriaState) = Resolved ''cat-7'' \<and>
   map categoria.id' (CategoriaState.categorias (snd (CategoriaStore_create 1000 1000 ''Viajes'' 1001 1001
          (Next \<lparr>isSuccess = True, value' = ''cat-7'', error_message = None\<rparr>)
          example_CategoriaState))) = [''cat-1'', ''cat-2'', ''cat-7''] \<and>
   (let after = CategoriaState.categorias (snd (CategoriaStore_create 1000 1000 ''Viajes'' 1001 1001
          (Next \<lparr>isSuccess = True, value' = ''cat-7'', error_message = None\<rparr>)
          example_CategoriaState))
    in categoria.id' (after ! 2) = ''cat-7'' \<and>
       length (filter (\<lambda>c. categoria.id' c = ''cat-7'') after) = 1 \<and>
       filter (\<lambda>c. categoria.id' c = tempId 1000) after = []) \<and>
   (let after = GastosState.gastos (snd (GastosStore_createGasto 1000 example_stores
          example_gasto_create 1001 (Next ''g-7'') example_GastosState))
    in gasto.id' (after ! 0) = ''g-7'' \<and>
       length (filter (\<lambda>c. gasto.id' c = ''g-7'') after) = 1 \<and>
       filter (\<lambda>c. gasto.id' c = tempId 1000) after = [])"
proof -
  have r: "fst (CategoriaStore_create 1000 1000 ''Viajes'' 1001 1001
          (Next \<lparr>isSuccess = True, value' = ''cat-7'', error_message = None\<rparr>)
          example_CategoriaState) = Resolved ''cat-7''"
    by (simp add: CategoriaStore_create_def CategoriaStore_create_resume_def)
  have h1: "tempId 1000 \<notin> categoria.id' ` set (CategoriaState.categorias example_CategoriaState)"
    "''cat-7'' \<notin> categoria.id' ` set (CategoriaState.categorias example_CategoriaState)"
    "''cat-7'' \<noteq> tempId 1000"
    using tempId_not_example [of 1000]
    by (auto simp: example_CategoriaState_def example_categorias_def)
  have h2: "tempId 1000 \<notin> gasto.id' ` set (GastosState.gastos example_GastosState)"
    "''g-7'' \<notin> gasto.id' ` set (GastosState.gastos example_GastosState)"
    "''g-7'' \<noteq> tempId 1000"
    using tempId_not_example [of 1000]
    by (auto simp: example_GastosState_def example_gasto_def)
  have ids: "map categoria.id' (CategoriaState.categorias (snd (CategoriaStore_create 1000 1000 ''Viajes'' 1001 1001
          (Next \<lparr>isSuccess = True, value' = ''cat-7'', error_message = None\<rparr>)
          example_CategoriaState))) = [''cat-1'', ''cat-2'', ''cat-7'']"
    using tempId_not_example [of 1000]
    by (simp add: CategoriaStore_create_def CategoriaStore_create_resume_def
        CategoriaStore_create_begin_def example_CategoriaState_def example_categorias_def)
  have len: "length (CategoriaState.categorias example_CategoriaState) = 2"
    by (simp add: example_CategoriaState_def example_categorias_def)
  from r h1 h2 ids len show ?thesis
    using create_reconciliation [of 1000 example_CategoriaState "''cat-7''" 1000 "''Viajes''" 1001 1001
        "Next \<lparr>isSuccess = True, value' = ''cat-7'', error_message = None\<rparr>"
        1000 example_GastosState "''g-7''" example_stores example_gasto_create 1001]
    by (simp add: Let_def)
qed

text \<open>
  C3 as stated fails. Two creates that start in the same millisecond share the temporary
  identifier, and the first response replaces both temporary records, so two records carry
  the identifier the Gateway returned. A Gateway that returns an identifier the collection
  already holds leaves two records with it. A Gateway that returns the temporary
  identifier leaves a record with the temporary identifier.
\<close>

theorem create_reconciliation_counterexample:
  "map categoria.id' (CategoriaState.categorias (snd
     (CategoriaStore_create_resume (tempId 1000) ''Ocio'' 1001 1001
        (Next \<lparr>isSuccess = True, value' = ''cat-7'', error_message = None\<rparr>)
        (CategoriaStore_create_begin 1000 1000 ''Casa''
           (CategoriaStore_create_begin 1000 1000 ''Ocio'' CategoriaStore_initialState)))))
   = [''cat-7'', ''cat-7'']
   \<and> map categoria.id' (CategoriaState.categorias (snd
     (CategoriaStore_create 1000 1000 ''Viajes'' 1001 1001
        (Next \<lparr>isSuccess = True, value' = ''cat-1'', error_message = None\<rparr>)
        example_CategoriaState)))
   = [''cat-1'', ''cat-2'', ''cat-1'']
   \<and> map gasto.id' (GastosState.gastos (snd
     (GastosStore_createGasto 1000 example_stores example_gasto_create 1001
        (Next (tempId 1000)) example_GastosState)))
   = [tempId 1000, ''g-1'']"
  using tempId_not_example [of 1000]
  by (simp add: CategoriaStore_create_def CategoriaStore_create_resume_def
      CategoriaStore_create_begin_def CategoriaStore_initialState_def
      example_CategoriaState_def example_categorias_def
      GastosStore_createGasto_def GastosStore_createGasto_begin_def
      GastosStore_createGasto_resume_def example_GastosState_def example_gasto_def
      tempGasto_def)

section \<open>Total-count around a create\<close>

text \<open>
  C4. The claim is that the optimistic phase of a create raises total-count by one and a
  failure takes it back, so that a failed create leaves total-count as it was.
  ClienteStore.create does not raise it before the Gateway call and still lowers it in the
  catch block: on a store with total-count 2 it is 2 at the Gateway call and 1 after the
  failure. CategoriaStore.create does not raise it either.
\<close>

theorem create_failure_total_count:
  "ClienteState.totalRecords example_ClienteState = 2
   \<and> ClienteState.totalRecords (ClienteStore_create_begin 1000 1000 ''Eva'' example_ClienteState) = 2
   \<and> ClienteState.totalRecords (snd (ClienteStore_create 1000 1000 ''Eva'' 1001 1001
        (Error example_error) example_ClienteState)) = 1
   \<and> ClienteState.clientes (snd (ClienteStore_create 1000 1000 ''Eva'' 1001 1001
        (Error example_error) example_ClienteState)) = example_clientes
   \<and> CategoriaState.totalRecords example_CategoriaState = 2
   \<and> CategoriaState.totalRecords (CategoriaStore_create_begin 1000 1000 ''Eva'' example_CategoriaState) = 2"
  using tempId_not_example [of 1000]
  by (simp add: ClienteStore_create_def ClienteStore_create_begin_def ClienteStore_create_resume_def
      ClienteStore_create_catch_def example_ClienteState_def example_clientes_def
      CategoriaStore_create_begin_def example_CategoriaState_def)

section \<open>What the collection holds when the request is sent\<close>

lemma CategoriaStore_before_request:
  "CategoriaState.categorias (CategoriaStore_create_begin now date nom s)
     = CategoriaState.categorias s @
         [\<lparr>categoria.id' = tempId now, categoria.nombre = nom, categoria.descripcion = '''',
           categoria.fechaCreacion = date, categoria.usuarioId = ''''\<rparr>]
   \<and> CategoriaState.categorias (CategoriaStore_deleteCategoria_tap ident s)
     = filter (\<lambda>c. categoria.id' c \<noteq> ident) (CategoriaState.categorias s)
   \<and> CategoriaState.categorias (snd (CategoriaStore_update_begin ident p s))
     = (if find (\<lambda>c. categoria.id' c = ident) (CategoriaState.categorias s) = None
        then CategoriaState.categorias s
        else map (\<lambda>c. if categoria.id' c = ident then spread_categoria c p else c)
               (CategoriaState.categorias s))"
  by (simp add: Let_def CategoriaStore_create_begin_def CategoriaStore_deleteCategoria_tap_def
      CategoriaStore_update_begin_def
      split: option.splits)

lemma ClienteStore_before_request:
  "ClienteState.clientes (ClienteStore_create_begin now date nom cs)
     = ClienteState.clientes cs @
         [\<lparr>cliente.id' = tempId now, cliente.nombre = nom,
           cliente.fechaCreacion = date, cliente.usuarioId = ''''\<rparr>]
   \<and> ClienteState.clientes (snd (ClienteStore_deleteCliente_project ident cs))
     = filter (\<lambda>c. cliente.id' c \<noteq> ident) (ClienteState.clientes cs)
   \<and> ClienteState.clientes (snd (ClienteStore_update_begin ident cp cs))
     = (if find (\<lambda>c. cliente.id' c = ident) (ClienteState.clientes cs) = None
        then ClienteState.clientes cs
        else map (\<lambda>c. if cliente.id' c = ident then spread_cliente c cp else c)
               (ClienteState.clientes cs))"
  by (simp add: Let_def ClienteStore_create_begin_def ClienteStore_deleteCliente_project_def
      ClienteStore_update_begin_def
      split: option.splits)

lemma FormaPagoStore_before_request:
  "FormaPagoState.formasPago (FormaPagoStore_create_begin now date nom fs)
     = FormaPagoState.formasPago fs @
         [\<lparr>forma_pago.id' = tempId now, forma_pago.nombre = nom,
           forma_pago.fechaCreacion = date, forma_pago.usuarioId = ''''\<rparr>]
   \<and> FormaPagoState.formasPago (snd (FormaPagoStore_update_begin ident fp fs))
     = (if find (\<lambda>c. forma_pago.id' c = ident) (FormaPagoState.formasPago fs) = None
        then FormaPagoState.formasPago fs
        else map (\<lambda>c. if forma_pago.id' c = ident then spread_forma_pago c fp else c)
               (FormaPagoState.formasPago fs))
   \<and> FormaPagoState.formasPago (snd (FormaPagoStore_deleteFormaPago_project ident fs))
     = filter (\<lambda>c. forma_pago.id' c \<noteq> ident) (FormaPagoState.formasPago fs)"
  by (simp add: Let_def FormaPagoStore_create_begin_def FormaPagoStore_update_begin_def
      FormaPagoStore_deleteFormaPago_project_def
      split: option.splits)

lemma PersonaStore_before_request:
  "PersonaState.personas (PersonaStore_create_begin now date nom ps)
     = PersonaState.personas ps @
         [\<lparr>persona.id' = tempId now, persona.nombre = nom,
           persona.fechaCreacion = date, persona.usuarioId = ''''\<rparr>]
   \<and> PersonaState.personas (snd (PersonaStore_update_begin ident pp ps))
     = (if find (\<lambda>c. persona.id' c = ident) (PersonaState.personas ps) = None
        then PersonaState.personas ps
        else map (\<lambda>c. if persona.id' c = ident then spread_persona c pp else c)
               (PersonaState.personas ps))
   \<and> PersonaState.personas (snd (PersonaStore_deletePersona_project ident ps))
     = filter (\<lambda>c. persona.id' c \<noteq> ident) (PersonaState.personas ps)"
  by (simp add: Let_def PersonaStore_create_begin_def PersonaStore_update_begin_def
      PersonaStore_deletePersona_project_def
      split: option.splits)

lemma ProveedorStore_before_request:
  "ProveedorState.proveedores (ProveedorStore_create_begin now date nom vs)
     = ProveedorState.proveedores vs @
         [\<lparr>proveedor.id' = tempId now, proveedor.nombre = nom,
           proveedor.fechaCreacion = date, proveedor.usuarioId = ''''\<rparr>]
   \<and> ProveedorState.proveedores (snd (ProveedorStore_update_begin ident vp vs))
     = (if find (\<lambda>c. proveedor.id' c = ident) (ProveedorState.proveedores vs) = None
        then ProveedorState.proveedores vs
        else map (\<lambda>c. if proveedor.id' c = ident then spread_proveedor c vp else c)
               (ProveedorState.proveedores vs))
   \<and> ProveedorState.proveedores (snd (ProveedorStore_deleteProveedor_project ident vs))
     = filter (\<lambda>c. proveedor.id' c \<noteq> ident) (ProveedorState.proveedores vs)"
  by (simp add: Let_def ProveedorStore_create_begin_def ProveedorStore_update_begin_def
      ProveedorStore_deleteProveedor_project_def
      split: option.splits)

lemma ConceptoStore_before_request:
  "ConceptoState.conceptos (ConceptoStore_create_begin now date nom catId os)
     = ConceptoState.conceptos os @
         [\<lparr>concepto.id' = tempId now, concepto.nombre = nom, concepto.categoriaId = catId,
           concepto.fechaCreacion = date, concepto.usuarioId = ''''\<rparr>]
   \<and> ConceptoState.conceptos (snd (ConceptoStore_update_begin ident op os))
     = (if find (\<lambda>c. concepto.id' c = ident) (ConceptoState.conceptos os) = None
        then ConceptoState.conceptos os
        else map (\<lambda>c. if concepto.id' c = ident then spread_concepto c op else c)
               (ConceptoState.conceptos os))
   \<and> ConceptoState.conceptos (snd (ConceptoStore_deleteConcepto_project ident os))
     = filter (\<lambda>c. concepto.id' c \<noteq> ident) (ConceptoState.conceptos os)"
  by (simp add: Let_def ConceptoStore_create_begin_def ConceptoStore_update_begin_def
      ConceptoStore_deleteConcepto_project_def
      split: option.splits)

lemma CuentaStore_before_request:
  "CuentaState.cuentas (CuentaStore_create_begin now date nom sal us)
     = CuentaState.cuentas us @
         [\<lparr>cuenta.id' = tempId now, cuenta.nombre = nom, cuenta.saldo = sal,
           cuenta.fechaCreacion = date, cuenta.usuarioId = ''''\<rparr>]
   \<and> CuentaState.cuentas (snd (CuentaStore_update_begin ident up us))
     = (if find (\<lambda>c. cuenta.id' c = ident) (CuentaState.cuentas us) = None
        then CuentaState.cuentas us
        else map (\<lambda>c. if cuenta.id' c = ident then spread_cuenta c up else c)
               (CuentaState.cuentas us))
   \<and> CuentaState.cuentas (snd (CuentaStore_deleteCuenta_project ident us))
     = filter (\<lambda>c. cuenta.id' c \<noteq> ident) (CuentaState.cuentas us)"
  by (simp add: Let_def CuentaStore_create_begin_def CuentaStore_update_begin_def
      CuentaStore_deleteCuenta_project_def
      split: option.splits)

lemma GastosStore_before_request:
  "GastosState.gastos (GastosStore_createGasto_begin temp gs) = temp # GastosState.gastos gs
   \<and> GastosState.gastos (GastosStore_createGasto_displayData_begin temp gs) = temp # GastosState.gastos gs
   \<and> gasto.id' (tempGasto now stores g) = tempId now
   \<and> gasto.id' (tempGasto_displayData now stores g displayData) = tempId now
   \<and> GastosState.gastos (snd (GastosStore_updateGasto_begin ident gp gs))
     = map (\<lambda>c. if gasto.id' c = ident then spread_gasto c gp else c) (GastosState.gastos gs)
   \<and> GastosState.gastos (GastosStore_deleteGasto_tap ident gs)
     = filter (\<lambda>c. gasto.id' c \<noteq> ident) (GastosState.gastos gs)"
  by (simp add: Let_def GastosStore_createGasto_begin_def
      GastosStore_createGasto_displayData_begin_def tempGasto_def tempGasto_displayData_def
      GastosStore_updateGasto_begin_def GastosStore_deleteGasto_tap_def
      split: option.splits)

lemma TraspasosStore_before_request:
  "TraspasosState.traspasos (TraspasosStore_createTraspaso_begin now tc ts)
     = tempTraspaso now tc # TraspasosState.traspasos ts
   \<and> traspaso.id' (tempTraspaso now tc) = tempId now
   \<and> TraspasosState.traspasos (snd (TraspasosStore_updateTraspaso_begin ident tp ts))
     = map (\<lambda>c. if traspaso.id' c = ident then spread_traspaso c tp else c)
         (TraspasosState.traspasos ts)
   \<and> TraspasosState.traspasos (snd (TraspasosStore_deleteTraspaso_project ident ts))
     = filter (\<lambda>c. traspaso.id' c \<noteq> ident) (TraspasosState.traspasos ts)"
  by (simp add: Let_def TraspasosStore_createTraspaso_begin_def tempTraspaso_def
      TraspasosStore_updateTraspaso_begin_def TraspasosStore_deleteTraspaso_project_def
      split: option.splits)

lemma GastosProgramadosStore_before_request:
  "GastosProgramadosState.gastosProgramados (GastosProgramadosStore_createGasto_project now gpi gps)
     = tempGastoProgramado now gpi # GastosProgramadosState.gastosProgramados gps
   \<and> gasto_programado.id' (tempGastoProgramado now gpi) = tempId now
   \<and> GastosProgramadosState.gastosProgramados (snd (GastosProgramadosStore_update_begin ident gpp gps))
     = map (\<lambda>c. if gasto_programado.id' c = ident then spread_gasto_programado c gpp else c)
         (GastosProgramadosState.gastosProgramados gps)
   \<and> GastosProgramadosState.gastosProgramados (snd (GastosProgramadosStore_deleteGasto_project ident gps))
     = filter (\<lambda>c. gasto_programado.id' c \<noteq> ident) (GastosProgramadosState.gastosProgramados gps)"
  by (simp add: Let_def GastosProgramadosStore_createGasto_project_def tempGastoProgramado_def
      GastosProgramadosStore_update_begin_def GastosProgramadosStore_deleteGasto_project_def
      split: option.splits)

lemma IngresosProgramadosStore_before_request:
  "IngresosProgramadosState.ingresosProgramados (IngresosProgramadosStore_createIngreso_project now ipi ips)
     = tempIngresoProgramado now ipi # IngresosProgramadosState.ingresosProgramados ips
   \<and> ingreso_programado.id' (tempIngresoProgramado now ipi) = tempId now
   \<and> IngresosProgramadosState.ingresosProgramados (snd (IngresosProgramadosStore_update_begin ident ipp ips))
     = map (\<lambda>c. if ingreso_programado.id' c = ident then spread_ingreso_programado c ipp else c)
         (IngresosProgramadosState.ingresosProgramados ips)
   \<and> IngresosProgramadosState.ingresosProgramados (snd (IngresosProgramadosStore_deleteIngreso_project ident ips))
     = filter (\<lambda>c. ingreso_programado.id' c \<noteq> ident) (IngresosProgramadosState.ingresosProgramados ips)
   \<and> IngresosProgramadosState.ingresosProgramados (IngresosProgramadosStore_deleteIngreso_tap ident ips)
     = filter (\<lambda>c. ingreso_programado.id' c \<noteq> ident) (IngresosProgramadosState.ingresosProgramados ips)"
  by (simp add: Let_def IngresosProgramadosStore_createIngreso_project_def
      tempIngresoProgramado_def IngresosProgramadosStore_update_begin_def
      IngresosProgramadosStore_deleteIngreso_project_def
      IngresosProgramadosStore_deleteIngreso_tap_def
      split: option.splits)

lemma IngresosProgramadosStore_not_optimistic:
  "IngresosProgramadosState.ingresosProgramados (IngresosProgramadosStore_createIngreso_tap ips)
     = IngresosProgramadosState.ingresosProgramados ips
   \<and> IngresosProgramadosState.ingresosProgramados (IngresosProgramadosStore_updateIngreso_tap ips)
     = IngresosProgramadosState.ingresosProgramados ips
   \<and> IngresosProgramadosState.ingresosProgramados (IngresosProgramadosStore_toggleActivo_project ident act ips)
     = IngresosProgramadosState.ingresosProgramados ips
   \<and> IngresosProgramadosState.ingresosProgramados
       (IngresosProgramadosStore_updateIngreso_next ident updatedProgramado
          (IngresosProgramadosStore_updateIngreso_tap ips))
     = map (\<lambda>r. if ingreso_programado.id' r = ident then updatedProgramado else r)
         (IngresosProgramadosState.ingresosProgramados ips)
   \<and> IngresosProgramadosState.ingresosProgramados
       (IngresosProgramadosStore_toggleActivo_next ident act
          (IngresosProgramadosStore_toggleActivo_project ident act ips))
     = map (\<lambda>r. if ingreso_programado.id' r = ident then r\<lparr>ingreso_programado.activo := act\<rparr> else r)
         (IngresosProgramadosState.ingresosProgramados ips)"
  by (simp add: Let_def IngresosProgramadosStore_createIngreso_tap_def
      IngresosProgramadosStore_updateIngreso_tap_def
      IngresosProgramadosStore_toggleActivo_project_def
      IngresosProgramadosStore_updateIngreso_next_def
      IngresosProgramadosStore_toggleActivo_next_def
      split: option.splits)

lemma IngresosStore_not_optimistic:
  "IngresosState.ingresos (IngresosStore_createIngreso_tap i) = IngresosState.ingresos i
   \<and> IngresosState.ingresos (IngresosStore_updateIngreso_tap i) = IngresosState.ingresos i
   \<and> IngresosState.ingresos (IngresosStore_deleteIngreso_tap i) = IngresosState.ingresos i
   \<and> IngresosState.ingresos (IngresosStore_createIngreso_next newIngreso (IngresosStore_createIngreso_tap i))
     = IngresosState.ingresos i @ [newIngreso]
   \<and> IngresosState.ingresos (IngresosStore_updateIngreso_next ident' updatedIngreso (IngresosStore_updateIngreso_tap i))
     = map (\<lambda>r. if ingreso.id' r = ident' then updatedIngreso else r) (IngresosState.ingresos i)
   \<and> IngresosState.ingresos (IngresosStore_deleteIngreso_next ident' (IngresosStore_deleteIngreso_tap i))
     = filter (\<lambda>r. ingreso.id' r \<noteq> ident') (IngresosState.ingresos i)"
  by (simp add: Let_def IngresosStore_createIngreso_tap_def IngresosStore_updateIngreso_tap_def
      IngresosStore_deleteIngreso_tap_def IngresosStore_createIngreso_next_def
      IngresosStore_updateIngreso_next_def IngresosStore_deleteIngreso_next_def
      split: option.splits)

text \<open>
  C5 (as amended). Every create, update and delete of every entity store changes the
  collection before the Gateway call, except the three of IngresosStore and the
  createIngreso, updateIngreso and toggleActivo of the IngresosProgramadosStore whose
  create and update are pipelines. In CategoriaStore, ClienteStore, FormaPagoStore,
  PersonaStore, ProveedorStore, ConceptoStore, CuentaStore, both versions of GastosStore,
  TraspasosStore, GastosProgramadosStore and the IngresosProgramadosStore with temporary
  records, create inserts a record with the temporary identifier (at the end or at the
  head), delete removes every record with the identifier, and update merges the partial
  into every record with the identifier (the stores of the first seven patch nothing when
  no record has it); the deleteIngreso of the other IngresosProgramadosStore removes the
  record in its \<^verbatim>\<open>tap\<close>. The excepted operations leave the collection as it is before the
  call: updateIngreso, toggleActivo and the three of IngresosStore change it in the
  \<^verbatim>\<open>next\<close> handler, when the Gateway has answered.
\<close>

theorem collection_at_gateway_call:
  "CategoriaState.categorias (CategoriaStore_create_begin now date nom s)
     = CategoriaState.categorias s @
         [\<lparr>categoria.id' = tempId now, categoria.nombre = nom, categoria.descripcion = '''',
           categoria.fechaCreacion = date, categoria.usuarioId = ''''\<rparr>]
   \<and> CategoriaState.categorias (CategoriaStore_deleteCategoria_tap ident s)
     = filter (\<lambda>c. categoria.id' c \<noteq> ident) (CategoriaState.categorias s)
   \<and> CategoriaState.categorias (snd (CategoriaStore_update_begin ident p s))
     = (if find (\<lambda>c. categoria.id' c = ident) (CategoriaState.categorias s) = None
        then CategoriaState.categorias s
        else map (\<lambda>c. if categoria.id' c = ident then spread_categoria c p else c)
               (CategoriaState.categorias s))
   \<and> ClienteState.clientes (ClienteStore_create_begin now date nom cs)
     = ClienteState.clientes cs @
         [\<lparr>cliente.id' = tempId now, cliente.nombre = nom,
           cliente.fechaCreacion = date, cliente.usuarioId = ''''\<rparr>]
   \<and> ClienteState.clientes (snd (ClienteStore_deleteCliente_project ident cs))
     = filter (\<lambda>c. cliente.id' c \<noteq> ident) (ClienteState.clientes cs)
   \<and> ClienteState.clientes (snd (ClienteStore_update_begin ident cp cs))
     = (if find (\<lambda>c. cliente.id' c = ident) (ClienteState.clientes cs) = None
        then ClienteState.clientes cs
        else map (\<lambda>c. if cliente.id' c = ident then spread_cliente c cp else c)
               (ClienteState.clientes cs))
   \<and> FormaPagoState.formasPago (FormaPagoStore_create_begin now date nom fs)
     = FormaPagoState.formasPago fs @
         [\<lparr>forma_pago.id' = tempId now, forma_pago.nombre = nom,
           forma_pago.fechaCreacion = date, forma_pago.usuarioId = ''''\<rparr>]
   \<and> FormaPagoState.formasPago (snd (FormaPagoStore_update_begin ident fp fs))
     = (if find (\<lambda>c. forma_pago.id' c = ident) (FormaPagoState.formasPago fs) = None
        then FormaPagoState.formasPago fs
        else map (\<lambda>c. if forma_pago.id' c = ident then spread_forma_pago c fp else c)
               (FormaPagoState.formasPago fs))
   \<and> FormaPagoState.formasPago (snd (FormaPagoStore_deleteFormaPago_project ident fs))
     = filter (\<lambda>c. forma_pago.id' c \<noteq> ident) (FormaPagoState.formasPago fs)
   \<and> PersonaState.personas (PersonaStore_create_begin now date nom ps)
     = PersonaState.personas ps @
         [\<lparr>persona.id' = tempId now, persona.nombre = nom,
           persona.fechaCreacion = date, persona.usuarioId = ''''\<rparr>]
   \<and> PersonaState.personas (snd (PersonaStore_update_begin ident pp ps))
     = (if find (\<lambda>c. persona.id' c = ident) (PersonaState.personas ps) = None
        then PersonaState.personas ps
        else map (\<lambda>c. if persona.id' c = ident then spread_persona c pp else c)
               (PersonaState.personas ps))
   \<and> PersonaState.personas (snd (PersonaStore_deletePersona_project ident ps))
     = filter (\<lambda>c. persona.id' c \<noteq> ident) (PersonaState.personas ps)
   \<and> ProveedorState.proveedores (ProveedorStore_create_begin now date nom vs)
     = ProveedorState.proveedores vs @
         [\<lparr>proveedor.id' = tempId now, proveedor.nombre = nom,
           proveedor.fechaCreacion = date, proveedor.usuarioId = ''''\<rparr>]
   \<and> ProveedorState.proveedores (snd (ProveedorStore_update_begin ident vp vs))
     = (if find (\<lambda>c. proveedor.id' c = ident) (ProveedorState.proveedores vs) = None
        then ProveedorState.proveedores vs
        else map (\<lambda>c. if proveedor.id' c = ident then spread_proveedor c vp else c)
               (ProveedorState.proveedores vs))
   \<and> ProveedorState.proveedores (snd (ProveedorStore_deleteProveedor_project ident vs))
     = filter (\<lambda>c. proveedor.id' c \<noteq> ident) (ProveedorState.proveedores vs)
   \<and> ConceptoState.conceptos (ConceptoStore_create_begin now date nom catId os)
     = ConceptoState.conceptos os @
         [\<lparr>concepto.id' = tempId now, concepto.nombre = nom, concepto.categoriaId = catId,
           concepto.fechaCreacion = date, concepto.usuarioId = ''''\<rparr>]
   \<and> ConceptoState.conceptos (snd (ConceptoStore_update_begin ident op os))
     = (if find (\<lambda>c. concepto.id' c = ident) (ConceptoState.conceptos os) = None
        then ConceptoState.conceptos os
        else map (\<lambda>c. if concepto.id' c = ident then spread_concepto c op else c)
               (ConceptoState.conceptos os))
   \<and> ConceptoState.conceptos (snd (ConceptoStore_deleteConcepto_project ident os))
     = filter (\<lambda>c. concepto.id' c \<noteq> ident) (ConceptoState.conceptos os)
   \<and> CuentaState.cuentas (CuentaStore_create_begin now date nom sal us)
     = CuentaState.cuentas us @
         [\<lparr>cuenta.id' = tempId now, cuenta.nombre = nom, cuenta.saldo = sal,
           cuenta.fechaCreacion = date, cuenta.usuarioId = ''''\<rparr>]
   \<and> CuentaState.cuentas (snd (CuentaStore_update_begin ident up us))
     = (if find (\<lambda>c. cuenta.id' c = ident) (CuentaState.cuentas us) = None
        then CuentaState.cuentas us
        else map (\<lambda>c. if cuenta.id' c = ident then spread_cuenta c up else c)
               (CuentaState.cuentas us))
   \<and> CuentaState.cuentas (snd (CuentaStore_deleteCuenta_project ident us))
     = filter (\<lambda>c. cuenta.id' c \<noteq> ident) (CuentaState.cuentas us)
   \<and> GastosState.gastos (GastosStore_createGasto_begin temp gs) = temp # GastosState.gastos gs
   \<and> GastosState.gastos (GastosStore_createGasto_displayData_begin temp gs) = temp # GastosState.gastos gs
   \<and> gasto.id' (tempGasto now stores g) = tempId now
   \<and> gasto.id' (tempGasto_displayData now stores g displayData) = tempId now
   \<and> GastosState.gastos (snd (GastosStore_updateGasto_begin ident gp gs))
     = map (\<lambda>c. if gasto.id' c = ident then spread_gasto c gp else c) (GastosState.gastos gs)
   \<and> GastosState.gastos (GastosStore_deleteGasto_tap ident gs)
     = filter (\<lambda>c. gasto.id' c \<noteq> ident) (GastosState.gastos gs)
   \<and> TraspasosState.traspasos (TraspasosStore_createTraspaso_begin now tc ts)
     = tempTraspaso now tc # TraspasosState.traspasos ts
   \<and> traspaso.id' (tempTraspaso now tc) = tempId now
   \<and> TraspasosState.traspasos (snd (TraspasosStore_updateTraspaso_begin ident tp ts))
     = map (\<lambda>c. if traspaso.id' c = ident then spread_traspaso c tp else c)
         (TraspasosState.traspasos ts)
   \<and> TraspasosState.traspasos (snd (TraspasosStore_deleteTraspaso_project ident ts))
     = filter (\<lambda>c. traspaso.id' c \<noteq> ident) (TraspasosState.traspasos ts)
   \<and> GastosProgramadosState.gastosProgramados (GastosProgramadosStore_createGasto_project now gpi gps)
     = tempGastoProgramado now gpi # GastosProgramadosState.gastosProgramados gps
   \<and> gasto_programado.id' (tempGastoProgramado now gpi) = tempId now
   \<and> GastosProgramadosState.gastosProgramados (snd (GastosProgramadosStore_update_begin ident gpp gps))
     = map (\<lambda>c. if gasto_programado.id' c = ident then spread_gasto_programado c gpp else c)
         (GastosProgramadosState.gastosProgramados gps)
   \<and> GastosProgramadosState.gastosProgramados (snd (GastosProgramadosStore_deleteGasto_project ident gps))
     = filter (\<lambda>c. gasto_programado.id' c \<noteq> ident) (GastosProgramadosState.gastosProgramados gps)
   \<and> IngresosProgramadosState.ingresosProgramados (IngresosProgramadosStore_createIngreso_project now ipi ips)
     = tempIngresoProgramado now ipi # IngresosProgramadosState.ingresosProgramados ips
   \<and> ingreso_programado.id' (tempIngresoProgramado now ipi) = tempId now
   \<and> IngresosProgramadosState.ingresosProgramados (snd (IngresosProgramadosStore_update_begin ident ipp ips))
     = map (\<lambda>c. if ingreso_programado.id' c = ident then spread_ingreso_programado c ipp else c)
         (IngresosProgramadosState.ingresosProgramados ips)
   \<and> IngresosProgramadosState.ingresosProgramados (snd (IngresosProgramadosStore_deleteIngreso_project ident ips))
     = filter (\<lambda>c. ingreso_programado.id' c \<noteq> ident) (IngresosProgramadosState.ingresosProgramados ips)
   \<and> IngresosProgramadosState.ingresosProgramados (IngresosProgramadosStore_deleteIngreso_tap ident ips)
     = filter (\<lambda>c. ingreso_programado.id' c \<noteq> ident) (IngresosProgramadosState.ingresosProgramados ips)
   \<and> IngresosProgramadosState.ingresosProgramados (IngresosProgramadosStore_createIngreso_tap ips)
     = IngresosProgramadosState.ingresosProgramados ips
   \<and> IngresosProgramadosState.ingresosProgramados (IngresosProgramadosStore_updateIngreso_tap ips)
     = IngresosProgramadosState.ingresosProgramados ips
   \<and> IngresosProgramadosState.ingresosProgramados (IngresosProgramadosStore_toggleActivo_project ident act ips)
     = IngresosProgramadosState.ingresosProgramados ips
   \<and> IngresosProgramadosState.ingresosProgramados
       (IngresosProgramadosStore_updateIngreso_next ident updatedProgramado
          (IngresosProgramadosStore_updateIngreso_tap ips))
     = map (\<lambda>r. if ingreso_programado.id' r = ident then updatedProgramado else r)
         (IngresosProgramadosState.ingresosProgramados ips)
   \<and> IngresosProgramadosState.ingresosProgramados
       (IngresosProgramadosStore_toggleActivo_next ident act
          (IngresosProgramadosStore_toggleActivo_project ident act ips))
     = map (\<lambda>r. if ingreso_programado.id' r = ident then r\<lparr>ingreso_programado.activo := act\<rparr> else r)
         (IngresosProgramadosState.ingresosProgramados ips)
   \<and> IngresosState.ingresos (IngresosStore_createIngreso_tap i) = IngresosState.ingresos i
   \<and> IngresosState.ingresos (IngresosStore_updateIngreso_tap i) = IngresosState.ingresos i
   \<and> IngresosState.ingresos (IngresosStore_deleteIngreso_tap i) = IngresosState.ingresos i
   \<and> IngresosState.ingresos (IngresosStore_createIngreso_next newIngreso (IngresosStore_createIngreso_tap i))
     = IngresosState.ingresos i @ [newIngreso]
   \<and> IngresosState.ingresos (IngresosStore_updateIngreso_next ident' updatedIngreso (IngresosStore_updateIngreso_tap i))
     = map (\<lambda>r. if ingreso.id' r = ident' then updatedIngreso else r) (IngresosState.ingresos i)
   \<and> IngresosState.ingresos (IngresosStore_deleteIngreso_next ident' (IngresosStore_deleteIngreso_tap i))
     = filter (\<lambda>r. ingreso.id' r \<noteq> ident') (IngresosState.ingresos i)"
  by (simp add: CategoriaStore_before_request ClienteStore_before_request
      FormaPagoStore_before_request PersonaStore_before_request ProveedorStore_before_request
      ConceptoStore_before_request CuentaStore_before_request GastosStore_before_request
      TraspasosStore_before_request GastosProgramadosStore_before_request
      IngresosProgramadosStore_before_request IngresosProgramadosStore_not_optimistic
      IngresosStore_not_optimistic)

text \<open>
  C5 as stated fails on IngresosStore and on the IngresosProgramadosStore whose create and
  update are pipelines: when the Gateway call of createIngreso is sent the collection holds
  no new record, when the call of updateIngreso or toggleActivo is sent the record is
  unchanged, and when the call of deleteIngreso of IngresosStore is sent the record to
  delete is still there.
\<close>

theorem collection_at_gateway_call_counterexample:
  "IngresosState.ingresos (IngresosStore_createIngreso_tap example_IngresosState) = [example_ingreso]
   \<and> IngresosState.ingresos (IngresosStore_updateIngreso_tap example_IngresosState) = [example_ingreso]
   \<and> IngresosState.ingresos (IngresosStore_deleteIngreso_tap example_IngresosState) = [example_ingreso]
   \<and> IngresosState.ingresos example_IngresosState = [example_ingreso]
   \<and> IngresosProgramadosState.ingresosProgramados
       (IngresosProgramadosStore_createIngreso_tap example_IngresosProgramadosState)
     = [example_ingreso_programado]
   \<and> IngresosProgramadosState.ingresosProgramados
       (IngresosProgramadosStore_updateIngreso_tap example_IngresosProgramadosState)
     = [example_ingreso_programado]
   \<and> IngresosProgramadosState.ingresosProgramados
       (IngresosProgramadosStore_toggleActivo_project ''ip-1'' False example_IngresosProgramadosState)
     = [example_ingreso_programado]
   \<and> IngresosProgramadosState.ingresosProgramados example_IngresosProgramadosState
     = [example_ingreso_programado]
   \<and> ingreso_programado.activo example_ingreso_programado"
  by (simp add: IngresosStore_createIngreso_tap_def IngresosStore_updateIngreso_tap_def
      IngresosStore_deleteIngreso_tap_def example_IngresosState_def
      IngresosProgramadosStore_createIngreso_tap_def IngresosProgramadosStore_updateIngreso_tap_def
      IngresosProgramadosStore_toggleActivo_project_def example_IngresosProgramadosState_def
      example_ingreso_programado_def)

section \<open>Superseded loads\<close>

lemma CategoriaStore_load_superseded:
  "CategoriaStore_load_step
     (CategoriaStore_load_step (CategoriaStore_load_step p (Called q1)) (Called q2))
     (Answered (issued p) now1 reply1)
   = CategoriaStore_load_step (CategoriaStore_load_step p (Called q1)) (Called q2)"
  by simp

lemma GastosStore_load_superseded:
  "GastosStore_load_step
     (GastosStore_load_step (GastosStore_load_step p (Called q1)) (Called q2))
     (Answered (issued p) now1 reply1)
   = GastosStore_load_step (GastosStore_load_step p (Called q1)) (Called q2)"
  by simp

text \<open>
  C6. Two paginated loads are called one after the other, Q1 then Q2, before Q1 has
  answered: Q1 is request number \<open>issued p\<close> and Q2 is number \<open>issued p + 1\<close>. Whatever Q1
  answers, and whether its answer arrives before or after the answer of Q2, the collection
  and total-count end as the page Q2 returned, in CategoriaStore and in GastosStore; and
  whatever Q2 answers, the store ends exactly as if Q1 had never answered.
\<close>

theorem load_supersession:
  "(let final = store (foldl CategoriaStore_load_step p
        [Called q1, Called q2, Answered (issued p + 1) now2 (Next page2),
         Answered (issued p) now1 reply1])
    in CategoriaState.categorias final = items page2 \<and>
       CategoriaState.totalRecords final = totalCount page2)
   \<and>
   (let final = store (foldl CategoriaStore_load_step p
        [Called q1, Called q2, Answered (issued p) now1 reply1,
         Answered (issued p + 1) now2 (Next page2)])
    in CategoriaState.categorias final = items page2 \<and>
       CategoriaState.totalRecords final = totalCount page2)
   \<and>
   (let final = store (foldl GastosStore_load_step g
        [Called q1, Called q2, Answered (issued g + 1) now2 (Next gpage2),
         Answered (issued g) now1 greply1])
    in GastosState.gastos final = items gpage2 \<and>
       GastosState.totalRecords final = totalCount gpage2)
   \<and>
   (let final = store (foldl GastosStore_load_step g
        [Called q1, Called q2, Answered (issued g) now1 greply1,
         Answered (issued g + 1) now2 (Next gpage2)])
    in GastosState.gastos final = items gpage2 \<and>
       GastosState.totalRecords final = totalCount gpage2)
   \<and>
   foldl CategoriaStore_load_step p
     [Called q1, Called q2, Answered (issued p) now1 reply1, Answered (issued p + 1) now2 reply2]
   = foldl CategoriaStore_load_step p [Called q1, Called q2, Answered (issued p + 1) now2 reply2]
   \<and>
   foldl CategoriaStore_load_step p
     [Called q1, Called q2, Answered (issued p + 1) now2 reply2, Answered (issued p) now1 reply1]
   = foldl CategoriaStore_load_step p [Called q1, Called q2, Answered (issued p + 1) now2 reply2]
   \<and>
   foldl GastosStore_load_step g
     [Called q1, Called q2, Answered (issued g) now1 greply1, Answered (issued g + 1) now2 greply2]
   = foldl GastosStore_load_step g [Called q1, Called q2, Answered (issued g + 1) now2 greply2]
   \<and>
   foldl GastosStore_load_step g
     [Called q1, Called q2, Answered (issued g + 1) now2 greply2, Answered (issued g) now1 greply1]
   = foldl GastosStore_load_step g [Called q1, Called q2, Answered (issued g + 1) now2 greply2]"
  by (simp add: Let_def CategoriaStore_loadCategoriasPaginated_next_def
      GastosStore_loadGastosPaginated_next_def)

section \<open>The search cache after a successful mutation\<close>

text \<open>
  C7. After a create or an update of CategoriaStore that resolves, and after a
  deleteCategoria that the Gateway confirms, the search cache is empty, so a search with
  any key goes to the Gateway instead of returning a cached list.
\<close>

theorem cache_invalidated_after_success:
  "(fst (CategoriaStore_create now date nom date' now' reply s) = Resolved x
    \<longrightarrow> CategoriaState.searchCache (snd (CategoriaStore_create now date nom date' now' reply s))
          = Map.empty \<and>
        fst (CategoriaStore_search_begin query limit
               (snd (CategoriaStore_create now date nom date' now' reply s))) = None)
   \<and>
   (fst (CategoriaStore_update ident p now' reply' s) = Resolved y
    \<longrightarrow> CategoriaState.searchCache (snd (CategoriaStore_update ident p now' reply' s))
          = Map.empty \<and>
        fst (CategoriaStore_search_begin query limit
               (snd (CategoriaStore_update ident p now' reply' s))) = None)
   \<and>
   CategoriaState.searchCache (CategoriaStore_deleteCategoria localeCompare ident now' (Next ()) s)
     = Map.empty
   \<and>
   fst (CategoriaStore_search_begin query limit
          (CategoriaStore_deleteCategoria localeCompare ident now' (Next ()) s)) = None"
proof (intro conjI impI)
  assume "fst (CategoriaStore_create now date nom date' now' reply s) = Resolved x"
  then show c: "CategoriaState.searchCache
      (snd (CategoriaStore_create now date nom date' now' reply s)) = Map.empty"
    by (auto simp: CategoriaStore_create_def CategoriaStore_create_resume_def
        CategoriaStore_create_catch_def split: observed.splits if_splits)
  then show "fst (CategoriaStore_search_begin query limit
               (snd (CategoriaStore_create now date nom date' now' reply s))) = None"
    by (simp add: CategoriaStore_search_begin_def)
next
  assume "fst (CategoriaStore_update ident p now' reply' s) = Resolved y"
  then show c: "CategoriaState.searchCache
      (snd (CategoriaStore_update ident p now' reply' s)) = Map.empty"
    by (auto simp: CategoriaStore_update_def CategoriaStore_update_resume_def
        CategoriaStore_update_catch_def Let_def split: observed.splits if_splits prod.splits)
  then show "fst (CategoriaStore_search_begin query limit
               (snd (CategoriaStore_update ident p now' reply' s))) = None"
    by (simp add: CategoriaStore_search_begin_def)
next
  show c: "CategoriaState.searchCache
      (CategoriaStore_deleteCategoria localeCompare ident now' (Next ()) s) = Map.empty"
    by (simp add: CategoriaStore_deleteCategoria_def CategoriaStore_deleteCategoria_capture_after_tap
        CategoriaStore_deleteCategoria_next_def CategoriaStore_deleteCategoria_tap_def)
  then show "fst (CategoriaStore_search_begin query limit
          (CategoriaStore_deleteCategoria localeCompare ident now' (Next ()) s)) = None"
    by (simp add: CategoriaStore_search_begin_def)
qed

lemma cacheKey_foo_10: "cacheKey ''foo'' 10 = ''foo_10''"
  by code_simp

theorem cache_invalidated_after_success_witness:
  "fst (CategoriaStore_search_begin ''foo'' 10 example_CategoriaState) = Some example_categorias \<and>
   fst (CategoriaStore_create 1000 1000 ''Viajes'' 1001 1001
          (Next \<lparr>isSuccess = True, value' = ''cat-7'', error_message = None\<rparr>)
          example_CategoriaState) = Resolved ''cat-7'' \<and>
   fst (CategoriaStore_search_begin ''foo'' 10
          (snd (CategoriaStore_create 1000 1000 ''Viajes'' 1001 1001
             (Next \<lparr>isSuccess = True, value' = ''cat-7'', error_message = None\<rparr>)
             example_CategoriaState))) = None \<and>
   fst (CategoriaStore_update ''cat-1''
          \<lparr>categoria_partial.id' = None, categoria_partial.nombre = Some ''Viajes'',
           categoria_partial.descripcion = None, categoria_partial.fechaCreacion = None,
           categoria_partial.usuarioId = None\<rparr>
          1001 (Next \<lparr>isSuccess = True, value' = ''cat-1'', error_message = None\<rparr>)
          example_CategoriaState) = Resolved ''cat-1'' \<and>
   fst (CategoriaStore_search_begin ''foo'' 10
          (snd (CategoriaStore_update ''cat-1''
             \<lparr>categoria_partial.id' = None, categoria_partial.nombre = Some ''Viajes'',
              categoria_partial.descripcion = None, categoria_partial.fechaCreacion = None,
              categoria_partial.usuarioId = None\<rparr>
             1001 (Next \<lparr>isSuccess = True, value' = ''cat-1'', error_message = None\<rparr>)
             example_CategoriaState))) = None"
proof -
  have hit: "fst (CategoriaStore_search_begin ''foo'' 10 example_CategoriaState)
               = Some example_categorias"
    by (simp add: CategoriaStore_search_begin_def cacheKey_foo_10 example_CategoriaState_def)
  have rc: "fst (CategoriaStore_create 1000 1000 ''Viajes'' 1001 1001
          (Next \<lparr>isSuccess = True, value' = ''cat-7'', error_message = None\<rparr>)
          example_CategoriaState) = Resolved ''cat-7''"
    by (simp add: CategoriaStore_create_def CategoriaStore_create_resume_def)
  have ru: "fst (CategoriaStore_update ''cat-1''
          \<lparr>categoria_partial.id' = None, categoria_partial.nombre = Some ''Viajes'',
           categoria_partial.descripcion = None, categoria_partial.fechaCreacion = None,
           categoria_partial.usuarioId = None\<rparr>
          1001 (Next \<lparr>isSuccess = True, value' = ''cat-1'', error_message = None\<rparr>)
          example_CategoriaState) = Resolved ''cat-1''"
    by (simp add: CategoriaStore_update_def CategoriaStore_update_resume_def split: prod.splits)
  from hit rc ru show ?thesis
    using cache_invalidated_after_success [of 1000 1000 "''Viajes''" 1001 1001
        "Next \<lparr>isSuccess = True, value' = ''cat-7'', error_message = None\<rparr>"
        example_CategoriaState "''cat-7''" "''foo''" 10 "''cat-1''"
        "\<lparr>categoria_partial.id' = None, categoria_partial.nombre = Some ''Viajes'',
           categoria_partial.descripcion = None, categoria_partial.fechaCreacion = None,
           categoria_partial.usuarioId = None\<rparr>"
        "Next \<lparr>isSuccess = True, value' = ''cat-1'', error_message = None\<rparr>" "''cat-1''"]
    by simp
qed

section \<open>Failures of the read-only loads\<close>

lemma or_else_nonempty: "fallback \<noteq> [] \<Longrightarrow> or_else x fallback \<noteq> []"
  by (simp add: or_else_def split: option.splits)

text \<open>
  C8 (as amended). A paginated load whose Gateway call fails records a non-empty message in
  the error slot, clears the in-flight flag, leaves collection and total-count as they
  were, and throws nothing (its handler returns the state only). A search that misses the
  cache and a getRecent whose Gateway call fails, or whose envelope is not a success, clear
  the in-flight flag and end with the promise rejected: the error is thrown again to the
  caller; search records the message of that error in the error slot before it throws.
\<close>

theorem read_failures:
  "(\<exists>m. CategoriaState.error (CategoriaStore_loadCategoriasPaginated now (Error err) s) = Some m
        \<and> m \<noteq> [])
   \<and> \<not> CategoriaState.loading (CategoriaStore_loadCategoriasPaginated now (Error err) s)
   \<and> CategoriaState.categorias (CategoriaStore_loadCategoriasPaginated now (Error err) s)
       = CategoriaState.categorias s
   \<and> CategoriaState.totalRecords (CategoriaStore_loadCategoriasPaginated now (Error err) s)
       = CategoriaState.totalRecords s
   \<and> (CategoriaState.searchCache s (cacheKey query limit) = None \<and>
       (reply = Error err \<or> (\<exists>response. reply = Next response \<and> \<not> isSuccess response))
       \<longrightarrow> (\<exists>e. fst (CategoriaStore_search query limit now reply s) = Rejected e \<and>
                CategoriaState.error (snd (CategoriaStore_search query limit now reply s))
                  = thrown.message e \<and>
                \<not> CategoriaState.loading (snd (CategoriaStore_search query limit now reply s))))
   \<and> (reply' = Error err \<or> (\<exists>response. reply' = Next response \<and> \<not> isSuccess response)
       \<longrightarrow> (\<exists>e. fst (CategoriaStore_getRecent reply' s) = Rejected e \<and>
                \<not> CategoriaState.loading (snd (CategoriaStore_getRecent reply' s))))"
proof (intro conjI impI)
  have "''Error al cargar categor'' @ i_acute @ ''as'' \<noteq> []" by simp
  then have "or_else (userMessage err) (''Error al cargar categor'' @ i_acute @ ''as'') \<noteq> []"
    by (rule or_else_nonempty)
  then show "\<exists>m. CategoriaState.error (CategoriaStore_loadCategoriasPaginated now (Error err) s) = Some m
        \<and> m \<noteq> []"
    by (simp add: CategoriaStore_loadCategoriasPaginated_def
        CategoriaStore_loadCategoriasPaginated_error_def)
next
  show "\<not> CategoriaState.loading (CategoriaStore_loadCategoriasPaginated now (Error err) s)"
    by (simp add: CategoriaStore_loadCategoriasPaginated_def
        CategoriaStore_loadCategoriasPaginated_error_def)
next
  show "CategoriaState.categorias (CategoriaStore_loadCategoriasPaginated now (Error err) s)
       = CategoriaState.categorias s"
    by (simp add: CategoriaStore_loadCategoriasPaginated_def
        CategoriaStore_loadCategoriasPaginated_error_def CategoriaStore_loadCategoriasPaginated_tap_def)
next
  show "CategoriaState.totalRecords (CategoriaStore_loadCategoriasPaginated now (Error err) s)
       = CategoriaState.totalRecords s"
    by (simp add: CategoriaStore_loadCategoriasPaginated_def
        CategoriaStore_loadCategoriasPaginated_error_def CategoriaStore_loadCategoriasPaginated_tap_def)
next
  assume "CategoriaState.searchCache s (cacheKey query limit) = None \<and>
       (reply = Error err \<or> (\<exists>response. reply = Next response \<and> \<not> isSuccess response))"
  then show "\<exists>e. fst (CategoriaStore_search query limit now reply s) = Rejected e \<and>
                CategoriaState.error (snd (CategoriaStore_search query limit now reply s))
                  = thrown.message e \<and>
                \<not> CategoriaState.loading (snd (CategoriaStore_search query limit now reply s))"
    by (auto simp: CategoriaStore_search_def CategoriaStore_search_begin_def
        CategoriaStore_search_resume_def CategoriaStore_search_catch_def)
next
  assume "reply' = Error err \<or> (\<exists>response. reply' = Next response \<and> \<not> isSuccess response)"
  then show "\<exists>e. fst (CategoriaStore_getRecent reply' s) = Rejected e \<and>
                \<not> CategoriaState.loading (snd (CategoriaStore_getRecent reply' s))"
    by (auto simp: CategoriaStore_getRecent_def CategoriaStore_getRecent_resume_def
        CategoriaStore_getRecent_catch_def)
qed

theorem read_failures_witness:
  "CategoriaState.searchCache example_CategoriaState (cacheKey ''bar'' 10) = None \<and>
   (\<exists>e. fst (CategoriaStore_search ''bar'' 10 7 (Error example_error) example_CategoriaState)
           = Rejected e \<and>
        CategoriaState.error
          (snd (CategoriaStore_search ''bar'' 10 7 (Error example_error) example_CategoriaState))
          = thrown.message e \<and>
        \<not> CategoriaState.loading
          (snd (CategoriaStore_search ''bar'' 10 7 (Error example_error) example_CategoriaState))) \<and>
   (\<exists>e. fst (CategoriaStore_getRecent
               (Next \<lparr>isSuccess = False, value' = Array [], error_message = Some ''No autorizado''\<rparr>)
               example_CategoriaState) = Rejected e \<and>
        \<not> CategoriaState.loading (snd (CategoriaStore_getRecent
               (Next \<lparr>isSuccess = False, value' = Array [], error_message = Some ''No autorizado''\<rparr>)
               example_CategoriaState)))"
proof -
  have "cacheKey ''bar'' 10 = ''bar_10''" by code_simp
  then have miss: "CategoriaState.searchCache example_CategoriaState (cacheKey ''bar'' 10) = None"
    by (simp add: example_CategoriaState_def)
  then show ?thesis
    using read_failures [of 7 example_error example_CategoriaState "''bar''" 10
        "Error example_error"
        "Next \<lparr>isSuccess = False, value' = Array [], error_message = Some ''No autorizado''\<rparr>"]
    by simp
qed

text \<open>
  C8 as stated fails: search and getRecent throw the Gateway failure again to the caller,
  and getRecent of CategoriaStore leaves the error slot empty.
\<close>

theorem read_failures_counterexample:
  "fst (CategoriaStore_search ''bar'' 10 7 (Error example_error) CategoriaStore_initialState)
     = Rejected example_error
   \<and> fst (CategoriaStore_getRecent (Error example_error) CategoriaStore_initialState)
     = Rejected example_error
   \<and> CategoriaState.error
       (snd (CategoriaStore_getRecent (Error example_error) CategoriaStore_initialState)) = None"
  by (simp add: CategoriaStore_search_def CategoriaStore_search_begin_def
      CategoriaStore_search_resume_def CategoriaStore_search_catch_def
      CategoriaStore_getRecent_def CategoriaStore_getRecent_begin_def
      CategoriaStore_getRecent_resume_def CategoriaStore_getRecent_catch_def
      CategoriaStore_initialState_def)

section \<open>When the error slot is emptied\<close>

text \<open>
  C9 (as amended). The error slot of CategoriaStore is emptied by clearError, and also
  without it: by every paginated load when it is called and again when its response
  succeeds, by create before its Gateway call, by a search that misses the cache and by an
  update of a record that is present. It keeps its message through getRecent, through
  deleteCategoria up to and including the success response, through a search answered from
  the cache, and through the response of a create that returns a non-empty identifier, of an
  update and of a search when the envelope is a success.
\<close>

theorem error_slot_clearing:
  "CategoriaState.error (CategoriaStore_clearError s) = None
   \<and> CategoriaState.error (CategoriaStore_loadCategoriasPaginated_tap s) = None
   \<and> CategoriaState.error (CategoriaStore_loadCategoriasPaginated_next now response s) = None
   \<and> CategoriaState.error (CategoriaStore_create_begin now date nom s) = None
   \<and> CategoriaState.error (snd (CategoriaStore_search_begin query limit s))
       = (if CategoriaState.searchCache s (cacheKey query limit) = None then None
          else CategoriaState.error s)
   \<and> CategoriaState.error (snd (CategoriaStore_update_begin ident p s))
       = (if find (\<lambda>c. categoria.id' c = ident) (CategoriaState.categorias s) = None
          then CategoriaState.error s else None)
   \<and> CategoriaState.error (CategoriaStore_getRecent_begin s) = CategoriaState.error s
   \<and> CategoriaState.error (snd (CategoriaStore_getRecent_resume recent s)) = CategoriaState.error s
   \<and> CategoriaState.error (CategoriaStore_deleteCategoria localeCompare ident now (Next ()) s)
       = CategoriaState.error s
   \<and> CategoriaState.error
       (snd (CategoriaStore_create_resume tid nom date now
          (Next \<lparr>isSuccess = True, value' = v, error_message = None\<rparr>) s))
       = (if v = [] then Some (''Error al crear categor'' @ i_acute @ ''a'')
          else CategoriaState.error s)
   \<and> CategoriaState.error
       (snd (CategoriaStore_update_resume ident anterior now
          (Next \<lparr>isSuccess = True, value' = w, error_message = None\<rparr>) s))
       = CategoriaState.error s
   \<and> CategoriaState.error
       (snd (CategoriaStore_search_resume query limit now
          (Next \<lparr>isSuccess = True, value' = found, error_message = None\<rparr>) s))
       = CategoriaState.error s"
  by (simp add: CategoriaStore_clearError_def CategoriaStore_loadCategoriasPaginated_tap_def
      CategoriaStore_loadCategoriasPaginated_next_def CategoriaStore_create_begin_def
      CategoriaStore_search_begin_def CategoriaStore_update_begin_def Let_def
      CategoriaStore_getRecent_begin_def CategoriaStore_getRecent_resume_def
      CategoriaStore_getRecent_catch_def
      CategoriaStore_deleteCategoria_def CategoriaStore_deleteCategoria_capture_after_tap
      CategoriaStore_deleteCategoria_next_def CategoriaStore_deleteCategoria_tap_def
      CategoriaStore_create_resume_def CategoriaStore_create_catch_def new_Error_def or_else_def
      CategoriaStore_update_resume_def CategoriaStore_search_resume_def
      split: option.splits observed.splits)

text \<open>
  C9 as stated fails: a paginated load that fails records a message, and the next paginated
  load empties the slot as soon as it is called, and its successful response leaves it
  empty, although clearError was never invoked.
\<close>

theorem error_slot_clearing_counterexample:
  "CategoriaState.error
     (CategoriaStore_loadCategoriasPaginated 7 (Error example_error) CategoriaStore_initialState)
     = Some ''Sin conexion''
   \<and> CategoriaState.error
       (CategoriaStore_loadCategoriasPaginated_tap
          (CategoriaStore_loadCategoriasPaginated 7 (Error example_error) CategoriaStore_initialState))
     = None
   \<and> CategoriaState.error
       (CategoriaStore_loadCategoriasPaginated 8 (Next \<lparr>items = example_categorias, totalCount = 2\<rparr>)
          (CategoriaStore_loadCategoriasPaginated 7 (Error example_error) CategoriaStore_initialState))
     = None"
  by (simp add: CategoriaStore_loadCategoriasPaginated_def
      CategoriaStore_loadCategoriasPaginated_tap_def CategoriaStore_loadCategoriasPaginated_next_def
      CategoriaStore_loadCategoriasPaginated_error_def CategoriaStore_initialState_def
      example_error_def or_else_def)

end
